(* ===== verification/Prelude.thy ===== *)
theory Prelude
  imports Main "HOL-Library.Multiset" "HOL-Library.Code_Target_Nat"
begin

text \<open>
  Shared vocabulary of the development: Python strings as lists of code points, the
  Python primitives the sources call (\<open>str.strip\<close>, \<open>str.lower\<close>, the \<open>\s\<close> and
  \<open>\w\<close> character classes, slicing \<open>xs[a:b]\<close>, \<open>range(start, stop, step)\<close>) and
  the generic lemmas on lists the component theories share.
\<close>

section \<open>Python values\<close>

text \<open>
  A Python \<open>str\<close> is a sequence of Unicode code points, and \<open>len\<close> counts code
  points, so a string is a list of naturals. ASCII literals are written with \<open>ustr\<close>;
  the accented letters of the Portuguese stoplists are written as their code points
  (\<open>233\<close> is \<open>\<acute>e\<close>, \<open>227\<close> is \<open>\<atilde>\<close>).
\<close>

type_synonym pystr = "nat list"

definition ustr :: "string \<Rightarrow> pystr" where
  "ustr s = map of_char s"

text \<open>
  The exceptions the modelled code raises or meets: \<open>ValueError\<close> (from \<open>range\<close>,
  \<open>datetime\<close> and \<open>strptime\<close>), \<open>IndexError\<close> (indexing an empty list),
  \<open>ZeroDivisionError\<close> (a division by \<open>len([])\<close>) and an exception of the external
  vector store.
\<close>

datatype py_error = ValueError | IndexError | ZeroDivisionError | StoreError

text \<open>A loop whose body may raise: the first exception ends it.\<close>

fun foldM :: "('s \<Rightarrow> 'a \<Rightarrow> py_error + 's) \<Rightarrow> 's \<Rightarrow> 'a list \<Rightarrow> py_error + 's" where
  "foldM f s [] = Inr s"
| "foldM f s (x # xs) = (case f s x of Inl e \<Rightarrow> Inl e | Inr s' \<Rightarrow> foldM f s' xs)"

named_theorems py_simps "evaluation rules of the modelled Python primitives"

section \<open>Character classes\<close>

text \<open>
  \<open>str.isspace\<close> and the regular-expression class \<open>\s\<close> of Python 3 agree: the
  ASCII whitespace, the information separators 28--31, NEL, NBSP and the Unicode space
  separators. The set below is the complete list.
\<close>

definition is_py_space :: "nat \<Rightarrow> bool" where
  "is_py_space c \<longleftrightarrow>
     (9 \<le> c \<and> c \<le> 13) \<or> (28 \<le> c \<and> c \<le> 32) \<or> c = 133 \<or> c = 160 \<or> c = 5760 \<or>
     (8192 \<le> c \<and> c \<le> 8202) \<or> c = 8232 \<or> c = 8233 \<or> c = 8239 \<or> c = 8287 \<or> c = 12288"

definition is_ascii_digit :: "nat \<Rightarrow> bool" where
  "is_ascii_digit c \<longleftrightarrow> 48 \<le> c \<and> c \<le> 57"

text \<open>
  The class \<open>\w\<close> (\<open>str.isalnum\<close> or underscore). It is exact on Latin-1
  (code points below 256, which hold every letter of Portuguese); code points from 256
  on (emoji, symbols, other scripts) are taken as non-word characters.
\<close>

definition is_word_char :: "nat \<Rightarrow> bool" where
  "is_word_char c \<longleftrightarrow>
     is_ascii_digit c \<or> (65 \<le> c \<and> c \<le> 90) \<or> c = 95 \<or> (97 \<le> c \<and> c \<le> 122) \<or>
     c = 170 \<or> c = 178 \<or> c = 179 \<or> c = 181 \<or> c = 185 \<or> c = 186 \<or>
     (188 \<le> c \<and> c \<le> 190) \<or> (192 \<le> c \<and> c \<le> 214) \<or> (216 \<le> c \<and> c \<le> 246) \<or>
     (248 \<le> c \<and> c \<le> 255)"

text \<open>\<open>str.lower\<close> on Latin-1: the upper-case letters map 32 code points down.\<close>

definition py_lower_char :: "nat \<Rightarrow> nat" where
  "py_lower_char c =
     (if (65 \<le> c \<and> c \<le> 90) \<or> (192 \<le> c \<and> c \<le> 222 \<and> c \<noteq> 215) then c + 32 else c)"

definition py_lower :: "pystr \<Rightarrow> pystr" where
  "py_lower s = map py_lower_char s"

definition py_strip :: "pystr \<Rightarrow> pystr" where
  "py_strip s = rev (dropWhile is_py_space (rev (dropWhile is_py_space s)))"

text \<open>\<open>sep.join(xs)\<close>.\<close>

fun py_join :: "pystr \<Rightarrow> pystr list \<Rightarrow> pystr" where
  "py_join sep [] = []"
| "py_join sep [x] = x"
| "py_join sep (x # y # zs) = x @ sep @ py_join sep (y # zs)"

text \<open>The preview idiom \<open>s[:n] + "..." if len(s) > n else s\<close>.\<close>

definition preview :: "nat \<Rightarrow> pystr \<Rightarrow> pystr" where
  "preview n s = (if n < length s then take n s @ ustr ''...'' else s)"

section \<open>Slicing\<close>

text \<open>
  \<open>xs[a:b]\<close>: a negative bound counts from the end, and both bounds are clipped to
  \<open>[0, len(xs)]\<close>; an empty range gives the empty list, never an error.
\<close>

definition py_index_norm :: "int \<Rightarrow> nat \<Rightarrow> nat" where
  "py_index_norm i n = (if i < 0 then nat (i + int n) else min (nat i) n)"

definition py_slice :: "'a list \<Rightarrow> int \<Rightarrow> int \<Rightarrow> 'a list" where
  "py_slice xs a b =
     (let n = length xs; i = py_index_norm a n; j = py_index_norm b n
      in take (j - i) (drop i xs))"

section \<open>range\<close>

text \<open>
  \<open>range(start, stop, step)\<close>: \<open>ValueError\<close> for a zero step; with a positive step
  the values \<open>start, start + step, \<dots>\<close> below \<open>stop\<close>, with a negative step those
  above it.
\<close>

function py_range_up :: "int \<Rightarrow> int \<Rightarrow> int \<Rightarrow> int list" where
  "py_range_up start stop step =
     (if 0 < step \<and> start < stop then start # py_range_up (start + step) stop step else [])"
  by pat_completeness auto
termination
  by (relation "measure (\<lambda>(start, stop, step). nat (stop - start))") auto

function py_range_down :: "int \<Rightarrow> int \<Rightarrow> int \<Rightarrow> int list" where
  "py_range_down start stop step =
     (if step < 0 \<and> stop < start then start # py_range_down (start + step) stop step else [])"
  by pat_completeness auto
termination
  by (relation "measure (\<lambda>(start, stop, step). nat (start - stop))") auto

declare py_range_up.simps [simp del] py_range_down.simps [simp del]

definition py_range :: "int \<Rightarrow> int \<Rightarrow> int \<Rightarrow> py_error + int list" where
  "py_range start stop step =
     (if step = 0 then Inl ValueError
      else if 0 < step then Inr (py_range_up start stop step)
      else Inr (py_range_down start stop step))"

section \<open>Lemmas\<close>

lemma ustr_simps [simp, py_simps]:
  "ustr [] = []" "ustr (c # s) = of_char c # ustr s"
  by (simp_all add: ustr_def)

lemma find_append:
  "find P (xs @ ys) = (case find P xs of None \<Rightarrow> find P ys | Some x \<Rightarrow> Some x)"
  by (induction xs) simp_all

lemma py_slice_nonneg [py_simps]:
  assumes "0 \<le> a" and "0 \<le> b"
  shows "py_slice xs a b = take (nat b - nat a) (drop (nat a) xs)"
  using assms
  by (cases "nat a \<le> length xs") (simp_all add: py_slice_def py_index_norm_def Let_def min_def take_all_iff)

lemma py_slice_suffix [py_simps]:
  assumes "0 < k"
  shows "py_slice xs (- k) (int (length xs)) = drop (length xs - nat k) xs"
  using assms by (simp add: py_slice_def py_index_norm_def nat_diff_distrib')

lemma length_py_slice_nonneg:
  "0 \<le> a \<Longrightarrow> 0 \<le> b \<Longrightarrow> length (py_slice xs a b) = min (nat b - nat a) (length xs - nat a)"
  by (simp add: py_slice_nonneg min.commute)

lemma py_range_pos [py_simps]:
  "0 < step \<Longrightarrow> py_range start stop step = Inr (py_range_up start stop step)"
  by (simp add: py_range_def)

lemma py_range_zero [py_simps]: "py_range start stop 0 = Inl ValueError"
  by (simp add: py_range_def)

lemma py_range_neg_empty:
  "step < 0 \<Longrightarrow> start \<le> stop \<Longrightarrow> py_range start stop step = Inr []"
  by (simp add: py_range_def py_range_down.simps)

lemma py_range_up_Cons:
  "0 < step \<Longrightarrow> start < stop \<Longrightarrow>
     py_range_up start stop step = start # py_range_up (start + step) stop step"
  by (simp add: py_range_up.simps)

lemma py_range_up_Nil: "stop \<le> start \<Longrightarrow> py_range_up start stop step = []"
  by (simp add: py_range_up.simps)

lemma set_py_range_up:
  assumes "0 < step"
  shows "i \<in> set (py_range_up start stop step) \<longleftrightarrow>
           (\<exists>k. i = start + int k * step) \<and> start \<le> i \<and> i < stop"
  using assms
proof (induction start stop step rule: py_range_up.induct)
  case (1 start stop step)
  show ?case
  proof (cases "start < stop")
    case False
    then show ?thesis by (auto simp: py_range_up_Nil)
  next
    case True
    have split_k: "(\<exists>k. i = start + int k * step) \<longleftrightarrow>
                   i = start \<or> (\<exists>k. i = start + step + int k * step)"
    proof
      assume "\<exists>k. i = start + int k * step"
      then obtain k where k: "i = start + int k * step" by blast
      show "i = start \<or> (\<exists>k. i = start + step + int k * step)"
      proof (cases k)
        case 0 with k show ?thesis by simp
      next
        case (Suc k') with k show ?thesis by (auto simp: algebra_simps)
      qed
    next
      assume "i = start \<or> (\<exists>k. i = start + step + int k * step)"
      then show "\<exists>k. i = start + int k * step"
      proof
        assume "i = start"
        then have "i = start + int 0 * step" by simp
        then show ?thesis by blast
      next
        assume "\<exists>k. i = start + step + int k * step"
        then obtain k where "i = start + step + int k * step" by blast
        then have "i = start + int (Suc k) * step" by (simp add: algebra_simps)
        then show ?thesis by blast
      qed
    qed
    have ge: "start + step \<le> i" if "\<exists>k. i = start + step + int k * step"
      using that "1.prems" by auto
    have IH: "i \<in> set (py_range_up (start + step) stop step) \<longleftrightarrow>
              (\<exists>k. i = start + step + int k * step) \<and> start + step \<le> i \<and> i < stop"
      using "1.IH" True "1.prems" by simp
    have "i \<in> set (py_range_up start stop step) \<longleftrightarrow>
          i = start \<or> i \<in> set (py_range_up (start + step) stop step)"
      using True "1.prems" by (simp add: py_range_up_Cons)
    also have "\<dots> \<longleftrightarrow> (\<exists>k. i = start + int k * step) \<and> start \<le> i \<and> i < stop"
      unfolding IH split_k using True "1.prems" ge by auto
    finally show ?thesis .
  qed
qed

lemma foldM_append:
  "foldM f s (xs @ ys) = (case foldM f s xs of Inl e \<Rightarrow> Inl e | Inr s' \<Rightarrow> foldM f s' ys)"
  by (induction xs arbitrary: s) (simp_all split: sum.split)

lemma foldM_inv:
  assumes "P s" and "\<And>s x. P s \<Longrightarrow> x \<in> set xs \<Longrightarrow> \<exists>s'. f s x = Inr s' \<and> P s'"
  shows "\<exists>s'. foldM f s xs = Inr s' \<and> P s'"
  using assms by (induction xs arbitrary: s) (force split: sum.split)+

lemma item_in_enumerate: "x \<in> set (enumerate n xs) \<Longrightarrow> snd x \<in> set xs"
  by (cases x) (auto simp: enumerate_eq_zip dest: set_zip_rightD)

lemma preview_bounds:
  "length (preview n s) \<le> n + 3" "take n (preview n s) = take n s"
  "length s \<le> n \<Longrightarrow> preview n s = s"
  by (auto simp: preview_def ustr_def)

end
