(* ===== verification/Windower.thy ===== *)
theory Windower
  imports Prelude
begin

text \<open>
  The overlap windower, \<open>WhatsAppProcessor.create_overlapping_chunks\<close> (teste.py):
  windows of \<open>chunk_size\<close> messages whose starts advance by
  \<open>chunk_size - overlap\<close>, keeping the windows of at least 5 messages. The model keeps
  the loop's shape: a \<open>range\<close>, a slice per start, a filter on the length. The
  lemmas give the windows' shape, their number, the coverage of the stream and the
  error of a zero step.
\<close>

section \<open>Definition\<close>

definition create_overlapping_chunks :: "'a list \<Rightarrow> int \<Rightarrow> int \<Rightarrow> py_error + 'a list list" where
  "create_overlapping_chunks messages chunk_size overlap =
     (if messages = [] then Inr []
      else case py_range 0 (int (length messages)) (chunk_size - overlap) of
             Inl e \<Rightarrow> Inl e
           | Inr starts \<Rightarrow>
               Inr (filter (\<lambda>chunk. 5 \<le> length chunk)
                      (map (\<lambda>i. py_slice messages i (i + chunk_size)) starts)))"

text \<open>The windows of the loop from start \<open>i\<close> on, for a positive step.\<close>

abbreviation windows_from :: "'a list \<Rightarrow> int \<Rightarrow> int \<Rightarrow> int \<Rightarrow> 'a list list" where
  "windows_from ms csize step i \<equiv>
     filter (\<lambda>chunk. 5 \<le> length chunk)
       (map (\<lambda>j. py_slice ms j (j + csize)) (py_range_up i (int (length ms)) step))"

section \<open>Lemmas\<close>

lemma create_overlapping_chunks_pos:
  "0 < chunk_size - overlap \<Longrightarrow>
   create_overlapping_chunks ms chunk_size overlap = Inr (windows_from ms chunk_size (chunk_size - overlap) 0)"
  by (simp add: create_overlapping_chunks_def py_range_pos py_range_up_Nil)

lemma create_overlapping_chunks_Inr_pos:
  "0 < chunk_size - overlap \<Longrightarrow> create_overlapping_chunks ms chunk_size overlap = Inr cs \<Longrightarrow>
   cs = windows_from ms chunk_size (chunk_size - overlap) 0"
  by (simp add: create_overlapping_chunks_pos)

lemma length_window_at:
  "0 \<le> i \<Longrightarrow> 0 \<le> csize \<Longrightarrow>
   length (py_slice ms i (i + csize)) = min (nat csize) (length ms - nat i)"
  by (simp add: length_py_slice_nonneg nat_add_distrib)

lemma window_kept_iff:
  "0 \<le> i \<Longrightarrow> 5 \<le> csize \<Longrightarrow>
   5 \<le> length (py_slice ms i (i + csize)) \<longleftrightarrow> i + 5 \<le> int (length ms)"
  by (auto simp: length_window_at)

lemma length_windows_from:
  assumes "0 < step" and "5 \<le> csize" and "0 \<le> i"
  shows "length (windows_from ms csize step i) =
           (if i + 5 \<le> int (length ms) then nat ((int (length ms) - 5 - i) div step) + 1 else 0)"
  using assms
proof (induction "nat (int (length ms) - i)" arbitrary: i rule: less_induct)
  case less
  let ?n = "int (length ms)"
  show ?case
  proof (cases "i < ?n")
    case False
    then show ?thesis by (simp add: py_range_up_Nil)
  next
    case True
    have IH: "length (windows_from ms csize step (i + step)) =
                (if i + step + 5 \<le> ?n then nat ((?n - 5 - (i + step)) div step) + 1 else 0)"
      using less.hyps [of "i + step"] True less.prems by simp
    have unfold: "windows_from ms csize step i =
                    (if i + 5 \<le> ?n then [py_slice ms i (i + csize)] else []) @
                    windows_from ms csize step (i + step)"
      using True less.prems window_kept_iff [of i csize ms] by (simp add: py_range_up_Cons)
    show ?thesis
    proof (cases "i + step + 5 \<le> ?n")
      case True
      have "(?n - 5 - i) div step = (?n - 5 - (i + step)) div step + 1"
        using div_add_self2 [of step "?n - 5 - (i + step)"] less.prems by (simp add: algebra_simps)
      moreover have "0 \<le> (?n - 5 - (i + step)) div step"
        using True less.prems by (simp add: pos_imp_zdiv_nonneg_iff)
      ultimately show ?thesis
        using True less.prems IH unfold by (simp add: nat_add_distrib)
    next
      case False
      then have "(?n - 5 - i) div step = 0" if "i + 5 \<le> ?n"
        using that less.prems by (simp add: div_pos_pos_trivial)
      then show ?thesis
        using False IH unfold by simp
    qed
  qed
qed

lemma window_shape:
  assumes "0 < step" and "0 \<le> csize"
    and "c \<in> set (windows_from ms csize step 0)"
  shows "\<exists>k. c = take (nat csize) (drop (k * nat step) ms) \<and> 5 \<le> length c"
proof -
  from assms obtain j where j: "j \<in> set (py_range_up 0 (int (length ms)) step)"
    and c: "c = py_slice ms j (j + csize)" and len: "5 \<le> length c"
    by auto
  from j assms obtain k where "j = int k * step"
    by (auto simp: set_py_range_up)
  then have "nat j = k * nat step" and "0 \<le> j"
    using assms by (simp_all add: nat_mult_distrib)
  with c len assms show ?thesis
    by (auto simp: py_slice_nonneg nat_add_distrib)
qed

lemma create_overlapping_chunks_neg:
  "chunk_size - overlap < 0 \<Longrightarrow> create_overlapping_chunks ms chunk_size overlap = Inr []"
  by (simp add: create_overlapping_chunks_def py_range_neg_empty)

lemma windows_from_cover:
  assumes "0 < step" and "step \<le> csize" and "5 \<le> csize" and "0 \<le> i"
    and "i \<le> int j" and "int j + 5 \<le> int (length ms)"
  shows "\<exists>s. take (nat csize) (drop s ms) \<in> set (windows_from ms csize step i) \<and>
             s \<le> j \<and> j < s + nat csize"
  using assms
proof (induction "nat (int (length ms) - i)" arbitrary: i rule: less_induct)
  case less
  let ?n = "int (length ms)"
  have lt: "i < ?n" using less.prems by simp
  have unfold: "set (windows_from ms csize step i) =
                  (if i + 5 \<le> ?n then {py_slice ms i (i + csize)} else {}) \<union>
                  set (windows_from ms csize step (i + step))"
    using lt less.prems window_kept_iff [of i csize ms] by (auto simp: py_range_up_Cons)
  show ?case
  proof (cases "int j < i + step")
    case True
    have "py_slice ms i (i + csize) = take (nat csize) (drop (nat i) ms)"
      using less.prems by (simp add: py_slice_nonneg nat_add_distrib)
    moreover have "i + 5 \<le> ?n" using less.prems by simp
    ultimately have "take (nat csize) (drop (nat i) ms) \<in> set (windows_from ms csize step i)"
      using unfold by auto
    moreover have "nat i \<le> j" and "j < nat i + nat csize"
      using True less.prems by auto
    ultimately show ?thesis by blast
  next
    case False
    then obtain s where "take (nat csize) (drop s ms) \<in> set (windows_from ms csize step (i + step))"
      and "s \<le> j" and "j < s + nat csize"
      using less.hyps [of "i + step"] lt less.prems by fastforce
    then show ?thesis using unfold by blast
  qed
qed

section \<open>Properties\<close>

text \<open>
  C4. Coverage: for a window of at least 5 messages and a non-negative overlap smaller
  than the window, every message except at most the last 4 of the stream lies inside
  some emitted window (the window starting at \<open>s\<close> holds the messages
  \<open>s, \<dots>, s + chunk_size - 1\<close>).
\<close>

theorem windows_cover_stream:
  assumes "5 \<le> chunk_size" and "0 \<le> overlap" and "overlap < chunk_size"
    and "create_overlapping_chunks ms chunk_size overlap = Inr cs"
    and "j + 5 \<le> length ms"
  shows "\<exists>s. take (nat chunk_size) (drop s ms) \<in> set cs \<and> s \<le> j \<and> j < s + nat chunk_size"
proof -
  have "cs = windows_from ms chunk_size (chunk_size - overlap) 0"
    using assms by (intro create_overlapping_chunks_Inr_pos) simp_all
  moreover have "\<exists>s. take (nat chunk_size) (drop s ms) \<in>
                   set (windows_from ms chunk_size (chunk_size - overlap) 0) \<and>
                   s \<le> j \<and> j < s + nat chunk_size"
    using assms by (intro windows_from_cover) simp_all
  ultimately show ?thesis by simp
qed

theorem windows_cover_stream_witness:
  "create_overlapping_chunks [0..<12::nat] 5 2 = Inr [[0, 1, 2, 3, 4], [3, 4, 5, 6, 7], [6, 7, 8, 9, 10]] \<and>
   (\<exists>s. take 5 (drop s [0..<12::nat]) \<in> set [[0, 1, 2, 3, 4], [3, 4, 5, 6, 7], [6, 7, 8, 9, 10]] \<and>
        s \<le> 7 \<and> 7 < s + 5)"
proof -
  have run: "create_overlapping_chunks [0..<12::nat] 5 2 =
               Inr [[0, 1, 2, 3, 4], [3, 4, 5, 6, 7], [6, 7, 8, 9, 10]]"
    by (simp add: create_overlapping_chunks_pos py_range_up.simps py_slice_nonneg upt_rec)
  show ?thesis
    using run windows_cover_stream [OF _ _ _ run, of 7] by simp
qed

text \<open>
  C5. Window count: with a window of at least 5 messages and a positive step
  \<open>chunk_size - overlap\<close>, a stream of \<open>N \<ge> 5\<close> messages yields
  \<open>(N - 5) div step + 1\<close> windows, and a shorter stream none.
\<close>

theorem windows_count:
  assumes "5 \<le> chunk_size" and "overlap < chunk_size"
    and "create_overlapping_chunks ms chunk_size overlap = Inr cs"
  shows "length cs =
           (if 5 \<le> length ms then (length ms - 5) div nat (chunk_size - overlap) + 1 else 0)"
proof -
  have "cs = windows_from ms chunk_size (chunk_size - overlap) 0"
    using assms by (intro create_overlapping_chunks_Inr_pos) simp_all
  then have "length cs = (if 5 \<le> int (length ms)
                          then nat ((int (length ms) - 5) div (chunk_size - overlap)) + 1 else 0)"
    using assms length_windows_from [of "chunk_size - overlap" chunk_size 0 ms] by simp
  then show ?thesis
    by (simp add: nat_div_distrib nat_diff_distrib')
qed

theorem windows_count_witness:
  "\<exists>cs. create_overlapping_chunks (replicate 100 (0::nat)) 40 15 = Inr cs \<and> length cs = 4"
proof -
  have run: "create_overlapping_chunks (replicate 100 (0::nat)) 40 15 =
               Inr (windows_from (replicate 100 (0::nat)) 40 25 0)"
    by (simp add: create_overlapping_chunks_pos)
  show ?thesis
    using windows_count [OF _ _ run] run by simp
qed

text \<open>
  C6. Shape: every emitted window is the slice of \<open>chunk_size\<close> messages (clipped at
  the end of the stream) starting at a multiple of the step, and holds at least 5
  messages and at most \<open>chunk_size\<close>.
\<close>

theorem windows_shape:
  assumes "0 \<le> chunk_size"
    and "create_overlapping_chunks ms chunk_size overlap = Inr cs"
    and "c \<in> set cs"
  shows "\<exists>k. c = take (nat chunk_size) (drop (k * nat (chunk_size - overlap)) ms) \<and>
             5 \<le> length c \<and> length c \<le> nat chunk_size"
proof (cases "0 < chunk_size - overlap")
  case True
  then have "cs = windows_from ms chunk_size (chunk_size - overlap) 0"
    using assms(2) by (rule create_overlapping_chunks_Inr_pos)
  then obtain k where "c = take (nat chunk_size) (drop (k * nat (chunk_size - overlap)) ms)"
    and "5 \<le> length c"
    using window_shape [OF True assms(1)] assms(3) by blast
  then show ?thesis by auto
next
  case False
  then have "chunk_size - overlap < 0 \<or> chunk_size - overlap = 0" by arith
  then have "cs = []"
  proof
    assume "chunk_size - overlap < 0"
    then show "cs = []" using assms(2) by (simp add: create_overlapping_chunks_neg)
  next
    assume "chunk_size - overlap = 0"
    then show "cs = []" using assms(2)
      by (simp add: create_overlapping_chunks_def py_range_zero split: if_splits)
  qed
  with assms(3) show ?thesis by simp
qed

theorem windows_shape_witness:
  "create_overlapping_chunks [0..<12::nat] 5 2 = Inr [[0, 1, 2, 3, 4], [3, 4, 5, 6, 7], [6, 7, 8, 9, 10]] \<and>
   (\<exists>k. [3, 4, 5, 6, 7] = take 5 (drop (k * 3) [0..<12::nat]))"
proof -
  have run: "create_overlapping_chunks [0..<12::nat] 5 2 =
               Inr [[0, 1, 2, 3, 4], [3, 4, 5, 6, 7], [6, 7, 8, 9, 10]]"
    by (simp add: create_overlapping_chunks_pos py_range_up.simps py_slice_nonneg upt_rec)
  have "\<exists>k. [3, 4, 5, 6, 7] = take 5 (drop (k * nat (5 - 2)) [0..<12::nat]) \<and>
            5 \<le> length [3, 4, 5, 6, 7::nat] \<and> length [3, 4, 5, 6, 7::nat] \<le> nat 5"
    using windows_shape [OF _ run, of "[3, 4, 5, 6, 7]"] by simp
  then show ?thesis using run by simp
qed

text \<open>
  The scenario of the specification: a stream of 12 messages, windows of 5 with an
  overlap of 2. The starts are 0, 3, 6 and 9; the window at 9 has only 3 messages and
  is dropped.
\<close>

theorem windows_twelve_messages:
  assumes "length ms = 12"
  shows "create_overlapping_chunks ms 5 2 = Inr [take 5 ms, take 5 (drop 3 ms), take 5 (drop 6 ms)]"
  using assms by (simp add: create_overlapping_chunks_pos py_range_up.simps py_slice_nonneg)

theorem windows_twelve_messages_witness:
  "length [0..<12::nat] = 12 \<and>
   create_overlapping_chunks [0..<12::nat] 5 2 =
     Inr [take 5 [0..<12], take 5 (drop 3 [0..<12]), take 5 (drop 6 [0..<12])]"
  using windows_twelve_messages [of "[0..<12::nat]"] by simp

text \<open>
  C8. A zero step (\<open>overlap = chunk_size\<close>) makes \<open>range\<close> raise
  \<open>ValueError\<close>, except on an empty stream, which returns before the loop.
\<close>

theorem windows_zero_step:
  "create_overlapping_chunks ms k k = (if ms = [] then Inr [] else Inl ValueError)"
  by (simp add: create_overlapping_chunks_def py_range_zero)

text \<open>
  The spec's formula \<open>ceil(max(0, N - overlap) / (size - overlap))\<close> counts one
  window for \<open>N = 40\<close>, \<open>size = 40\<close>, \<open>overlap = 15\<close>; the code emits two: the whole
  stream and the 15 messages from position 25 on.
\<close>

theorem windows_forty_messages:
  assumes "length ms = 40"
  shows "create_overlapping_chunks ms 40 15 = Inr [ms, drop 25 ms]"
  using assms by (simp add: create_overlapping_chunks_pos py_range_up.simps py_slice_nonneg)

theorem windows_forty_messages_witness:
  "length (replicate 40 (0::nat)) = 40 \<and>
   create_overlapping_chunks (replicate 40 (0::nat)) 40 15 = Inr [replicate 40 0, replicate 15 0]"
  using windows_forty_messages [of "replicate 40 (0::nat)"] by simp

end
