(* ===== verification/Message.thy ===== *)
theory Message
  imports Prelude
begin

text \<open>
  The data model shared by the pipeline: a raw record of the exported transcript
  (a JSON object whose fields may be missing) and the normalised message that
  \<open>create_whatsapp_database\<close> (teste.py) builds for every record it keeps, a
  dictionary with the keys \<open>author\<close>, \<open>message\<close>, \<open>original_message\<close>,
  \<open>timestamp\<close> and \<open>index\<close>.
\<close>

record raw_item =
  item_author :: "pystr option"
  item_message :: "pystr option"
  item_timestamp :: "pystr option"

record wmsg =
  author :: pystr
  message :: pystr
  original_message :: pystr
  timestamp :: pystr
  msg_index :: nat

end
