(* ===== verification/Boundary.thy ===== *)
theory Boundary
  imports Message
begin

text \<open>
  The conservative boundary detector,
  \<open>WhatsAppProcessor.detect_conversation_boundaries_conservative\<close> (teste.py). The
  loop keeps one accumulator, the conversation being built; for each next message it
  decides whether to close the accumulator by three criteria (a gap of more than 24
  hours, more than 100 messages, an unknown author in a multi-party thread) and honours
  a split only when the accumulator holds at least 5 messages. The state is a record of
  the closed conversations and the accumulator; the loop is a left fold of the step.

  The timestamp parser is a parameter: \<open>parse_us\<close> maps a timestamp string to the
  parsed instant in microseconds, or \<open>None\<close> when \<open>parse_timestamp\<close> fails. The root
  theory instantiates it with the model of \<open>parse_timestamp\<close>.

  A declarative reference, \<open>segs_spec\<close>, cuts the stream at the first position from 5 on
  where the split criteria hold, and recurses on the rest; the loop computes exactly it.
\<close>

section \<open>Split criteria\<close>

text \<open>
  \<open>(current_time - last_time).total_seconds() / 3600 > 24\<close>: on instants in
  microseconds this is a difference above \<open>24 * 3600 * 10^6\<close>.
\<close>

definition gap_split :: "(pystr \<Rightarrow> int option) \<Rightarrow> wmsg \<Rightarrow> wmsg \<Rightarrow> bool" where
  "gap_split parse_us last_msg m =
     (case (parse_us (timestamp m), parse_us (timestamp last_msg)) of
        (Some current_time, Some last_time) \<Rightarrow> 24 * 3600 * 1000000 < current_time - last_time
      | _ \<Rightarrow> False)"

definition recent_authors :: "wmsg list \<Rightarrow> pystr set" where
  "recent_authors current = set (map author (py_slice current (-20) (int (length current))))"

definition should_split :: "(pystr \<Rightarrow> int option) \<Rightarrow> wmsg list \<Rightarrow> wmsg \<Rightarrow> bool" where
  "should_split parse_us current m =
     (gap_split parse_us (last current) m \<or>
      100 < length current \<or>
      (2 < card (recent_authors current) \<and> author m \<notin> recent_authors current))"

section \<open>The loop\<close>

record seg_state =
  conversations :: "wmsg list list"
  current_conversation :: "wmsg list"

definition seg_init :: seg_state where
  "seg_init = \<lparr>conversations = [], current_conversation = []\<rparr>"

definition seg_step :: "(pystr \<Rightarrow> int option) \<Rightarrow> seg_state \<Rightarrow> wmsg \<Rightarrow> seg_state" where
  "seg_step parse_us st m =
     (if current_conversation st = [] then st\<lparr>current_conversation := [m]\<rparr>
      else if should_split parse_us (current_conversation st) m \<and> 5 \<le> length (current_conversation st)
      then \<lparr>conversations = conversations st @ [current_conversation st], current_conversation = [m]\<rparr>
      else st\<lparr>current_conversation := current_conversation st @ [m]\<rparr>)"

definition seg_finish :: "seg_state \<Rightarrow> wmsg list list" where
  "seg_finish st =
     (if 5 \<le> length (current_conversation st)
      then conversations st @ [current_conversation st] else conversations st)"

definition detect_conversation_boundaries_conservative ::
  "(pystr \<Rightarrow> int option) \<Rightarrow> wmsg list \<Rightarrow> wmsg list list" where
  "detect_conversation_boundaries_conservative parse_us messages =
     (if messages = [] then []
      else seg_finish (foldl (seg_step parse_us) seg_init messages))"

section \<open>Reference segmentation\<close>

definition first_cut :: "(pystr \<Rightarrow> int option) \<Rightarrow> wmsg list \<Rightarrow> nat option" where
  "first_cut parse_us ms = find (\<lambda>k. should_split parse_us (take k ms) (ms ! k)) [5..<length ms]"

function segs_spec :: "(pystr \<Rightarrow> int option) \<Rightarrow> wmsg list \<Rightarrow> wmsg list list" where
  "segs_spec p ms =
     (if length ms < 5 then []
      else case first_cut p ms of
             None \<Rightarrow> [ms]
           | Some k \<Rightarrow> take k ms # segs_spec p (drop k ms))"
  by pat_completeness auto
termination
  by (relation "measure (\<lambda>(p, ms). length ms)") (auto simp: first_cut_def find_Some_iff)

declare segs_spec.simps [simp del]

text \<open>
  The accumulator invariant: from position 5 on, no message of the accumulator met the
  split criteria when it was appended.
\<close>

definition no_split_from5 :: "(pystr \<Rightarrow> int option) \<Rightarrow> wmsg list \<Rightarrow> bool" where
  "no_split_from5 p acc \<longleftrightarrow>
     (\<forall>k. 5 \<le> k \<and> k < length acc \<longrightarrow> \<not> should_split p (take k acc) (acc ! k))"

section \<open>Lemmas\<close>

lemma first_cut_bounds: "first_cut p ms = Some k \<Longrightarrow> 5 \<le> k \<and> k < length ms"
  by (auto simp: first_cut_def find_Some_iff)

lemma find_upt_least:
  assumes "find P [a..<b] = Some k" and "a \<le> x" and "x < b" and "P x"
  shows "k \<le> x"
proof (rule ccontr)
  assume "\<not> k \<le> x"
  from assms(1) obtain i where i: "i < b - a" "k = a + i" "\<forall>j<i. \<not> P (a + j)"
    by (auto simp: find_Some_iff)
  with \<open>\<not> k \<le> x\<close> assms(2) have "x - a < i" by arith
  with i(3) have "\<not> P (a + (x - a))" by blast
  with assms(2,4) show False by simp
qed

lemma no_split_from5_single [simp]: "no_split_from5 p [m]"
  by (simp add: no_split_from5_def)

lemma no_split_from5_snoc:
  assumes "no_split_from5 p acc"
    and "\<not> (should_split p acc m \<and> 5 \<le> length acc)"
  shows "no_split_from5 p (acc @ [m])"
  unfolding no_split_from5_def
proof (intro allI impI)
  fix k assume k: "5 \<le> k \<and> k < length (acc @ [m])"
  show "\<not> should_split p (take k (acc @ [m])) ((acc @ [m]) ! k)"
  proof (cases "k < length acc")
    case True
    with assms(1) k show ?thesis by (simp add: no_split_from5_def nth_append)
  next
    case False
    with k have "k = length acc" by simp
    with assms(2) k show ?thesis by simp
  qed
qed

lemma first_cut_none:
  "no_split_from5 p acc \<Longrightarrow> first_cut p acc = None"
  by (auto simp: first_cut_def find_None_iff no_split_from5_def)

lemma find_prefix_none: 
  assumes "no_split_from5 p acc"
  shows "find (\<lambda>k. should_split p (take k (acc @ m # ms)) ((acc @ m # ms) ! k)) [5..<length acc] = None"
proof -
  have "\<forall>k\<in>set [5..<length acc]. \<not> should_split p (take k (acc @ m # ms)) ((acc @ m # ms) ! k)"
  proof
    fix k assume "k \<in> set [5..<length acc]"
    then have k: "5 \<le> k" "k < length acc" by auto
    then have "take k (acc @ m # ms) = take k acc" and "(acc @ m # ms) ! k = acc ! k"
      by (simp_all add: nth_append)
    with assms k show "\<not> should_split p (take k (acc @ m # ms)) ((acc @ m # ms) ! k)"
      by (simp add: no_split_from5_def)
  qed
  then show ?thesis by (simp add: find_None_iff)
qed

lemma first_cut_at_end:
  assumes "no_split_from5 p acc" and "5 \<le> length acc" and "should_split p acc m"
  shows "first_cut p (acc @ m # ms) = Some (length acc)"
proof -
  let ?P = "\<lambda>k. should_split p (take k (acc @ m # ms)) ((acc @ m # ms) ! k)"
  let ?L = "length acc + Suc (length ms)"
  have "[5..<?L] = [5..<length acc] @ [length acc..<?L]"
    using assms(2) by (intro upt_add_eq_append) simp
  also have "[length acc..<?L] = length acc # [Suc (length acc)..<?L]"
    by (simp only: upt_conv_Cons less_add_Suc1)
  finally have split: "[5..<length (acc @ m # ms)] =
                         [5..<length acc] @ length acc # [Suc (length acc)..<?L]"
    by simp
  have "find ?P [5..<length acc] = None" using assms(1) by (rule find_prefix_none)
  moreover have "?P (length acc)" using assms(3) by simp
  ultimately show ?thesis
    unfolding first_cut_def split by (simp only: find_append find.simps option.case if_True)
qed

lemma segs_spec_short: "length ms < 5 \<Longrightarrow> segs_spec p ms = []"
  by (simp add: segs_spec.simps)

lemma segs_spec_no_split:
  "no_split_from5 p acc \<Longrightarrow> segs_spec p acc = (if 5 \<le> length acc then [acc] else [])"
  by (simp add: segs_spec.simps [of p acc] first_cut_none)

lemma segs_spec_cut:
  assumes "no_split_from5 p acc" and "5 \<le> length acc" and "should_split p acc m"
  shows "segs_spec p (acc @ m # ms) = acc # segs_spec p (m # ms)"
  using assms first_cut_at_end [OF assms]
  by (simp add: segs_spec.simps [of p "acc @ m # ms"])

lemma seg_run_spec:
  assumes "acc \<noteq> []" and "no_split_from5 p acc"
  shows "seg_finish (foldl (seg_step p) \<lparr>conversations = cs, current_conversation = acc\<rparr> ms) =
           cs @ segs_spec p (acc @ ms)"
  using assms
proof (induction ms arbitrary: cs acc)
  case Nil
  then show ?case by (simp add: seg_finish_def segs_spec_no_split)
next
  case (Cons m ms)
  show ?case
  proof (cases "should_split p acc m \<and> 5 \<le> length acc")
    case True
    then have "seg_step p \<lparr>conversations = cs, current_conversation = acc\<rparr> m =
                 \<lparr>conversations = cs @ [acc], current_conversation = [m]\<rparr>"
      using Cons.prems by (simp add: seg_step_def)
    moreover have "segs_spec p (acc @ m # ms) = acc # segs_spec p (m # ms)"
      using True Cons.prems by (simp add: segs_spec_cut)
    ultimately show ?thesis
      using Cons.IH [of "[m]" "cs @ [acc]"] by simp
  next
    case False
    then have "seg_step p \<lparr>conversations = cs, current_conversation = acc\<rparr> m =
                 \<lparr>conversations = cs, current_conversation = acc @ [m]\<rparr>"
      using Cons.prems by (simp add: seg_step_def)
    moreover have "no_split_from5 p (acc @ [m])"
      using False Cons.prems by (simp add: no_split_from5_snoc)
    ultimately show ?thesis
      using Cons.IH [of "acc @ [m]" cs] by simp
  qed
qed

lemma detect_eq_segs_spec:
  "detect_conversation_boundaries_conservative p ms = segs_spec p ms"
proof (cases ms)
  case Nil
  then show ?thesis
    by (simp add: detect_conversation_boundaries_conservative_def segs_spec_short)
next
  case (Cons m ms')
  have "foldl (seg_step p) seg_init (m # ms') =
          foldl (seg_step p) \<lparr>conversations = [], current_conversation = [m]\<rparr> ms'"
    by (simp add: seg_step_def seg_init_def)
  then show ?thesis
    using Cons seg_run_spec [of "[m]" p "[]" ms']
    by (simp add: detect_conversation_boundaries_conservative_def)
qed

lemma segs_spec_cover: "\<exists>rest. concat (segs_spec p ms) @ rest = ms \<and> length rest < 5"
proof (induction p ms rule: segs_spec.induct)
  case (1 p ms)
  show ?case
  proof (cases "length ms < 5")
    case True
    then show ?thesis by (simp add: segs_spec_short)
  next
    case False
    show ?thesis
    proof (cases "first_cut p ms")
      case None
      with False show ?thesis by (simp add: segs_spec.simps [of p ms])
    next
      case (Some k)
      with "1.IH" False obtain rest where
        "concat (segs_spec p (drop k ms)) @ rest = drop k ms" and "length rest < 5"
        by blast
      with Some False have "concat (segs_spec p ms) @ rest = ms"
        by (simp add: segs_spec.simps [of p ms])
      with \<open>length rest < 5\<close> show ?thesis by blast
    qed
  qed
qed

lemma size_split_at_101: "101 < length ms \<Longrightarrow> should_split p (take 101 ms) (ms ! 101)"
  by (simp add: should_split_def)

lemma first_cut_le_101: "first_cut p ms = Some k \<Longrightarrow> k \<le> 101"
proof (cases "101 < length ms")
  case True
  assume "first_cut p ms = Some k"
  then have f: "find (\<lambda>k. should_split p (take k ms) (ms ! k)) [5..<length ms] = Some k"
    by (simp only: first_cut_def)
  have P: "(\<lambda>k. should_split p (take k ms) (ms ! k)) 101"
    using size_split_at_101 [OF True, of p] by (simp only:)
  show ?thesis
    using find_upt_least [OF f _ True P] by simp
next
  case False
  assume "first_cut p ms = Some k"
  with False show ?thesis by (auto dest: first_cut_bounds)
qed

lemma first_cut_None_le_101: "first_cut p ms = None \<Longrightarrow> length ms \<le> 101"
proof (rule ccontr)
  assume "first_cut p ms = None" and "\<not> length ms \<le> 101"
  then show False
    using size_split_at_101 [of ms p] by (auto simp: first_cut_def find_None_iff)
qed

lemma segs_spec_lengths: "c \<in> set (segs_spec p ms) \<Longrightarrow> 5 \<le> length c \<and> length c \<le> 101"
proof (induction p ms rule: segs_spec.induct)
  case (1 p ms)
  show ?case
  proof (cases "length ms < 5")
    case True
    with "1.prems" show ?thesis by (simp add: segs_spec_short)
  next
    case False
    show ?thesis
    proof (cases "first_cut p ms")
      case None
      with False "1.prems" show ?thesis
        by (auto simp: segs_spec.simps [of p ms] dest: first_cut_None_le_101)
    next
      case (Some k)
      then have "5 \<le> k" "k < length ms" "k \<le> 101"
        by (auto dest: first_cut_bounds first_cut_le_101)
      with Some False "1.prems" "1.IH" show ?thesis
        by (auto simp: segs_spec.simps [of p ms])
    qed
  qed
qed

lemma recent_authors_subset: "current \<noteq> [] \<Longrightarrow> recent_authors current \<subseteq> author ` set current"
  by (auto simp: recent_authors_def py_slice_suffix dest: in_set_dropD)

lemma no_split_single_author:
  assumes "k < length ms" and "0 < k" and "k \<le> 100"
    and "\<forall>m\<in>set ms. author m = a"
    and "\<not> gap_split p (ms ! (k - 1)) (ms ! k)"
  shows "\<not> should_split p (take k ms) (ms ! k)"
proof -
  have ne: "take k ms \<noteq> []" using assms(1,2) by auto
  have "recent_authors (take k ms) \<subseteq> {a}"
    using recent_authors_subset [OF ne] assms(4) by (auto dest: in_set_takeD)
  then have "card (recent_authors (take k ms)) \<le> 1"
    using card_mono [of "{a}"] by fastforce
  moreover have "last (take k ms) = ms ! (k - 1)"
    using ne assms(1,2) by (simp add: last_conv_nth min_def)
  ultimately show ?thesis
    using assms(1,3,5) by (simp add: should_split_def)
qed

section \<open>Properties\<close>

text \<open>
  C1. Coverage: the conversations the detector emits, concatenated, are the message
  stream up to a dropped remainder of fewer than 5 messages (the final accumulator
  when it is too short); nothing is reordered or duplicated.
\<close>

theorem segments_cover_stream:
  "\<exists>rest. concat (detect_conversation_boundaries_conservative p ms) @ rest = ms \<and> length rest < 5"
  using segs_spec_cover [of p ms] by (simp add: detect_eq_segs_spec)

text \<open>
  C2. Bounds: every emitted conversation holds at least 5 and at most 101 messages (a
  split is forced once the accumulator holds more than 100).
\<close>

theorem segment_length_bounds:
  assumes "c \<in> set (detect_conversation_boundaries_conservative p ms)"
  shows "5 \<le> length c \<and> length c \<le> 101"
  using assms segs_spec_lengths [of c p ms] by (simp add: detect_eq_segs_spec)

theorem segment_length_bounds_witness:
  "replicate 6 \<lparr>author = ustr ''Ana'', message = ustr ''oi'', original_message = ustr ''oi'',
                timestamp = [], msg_index = 0\<rparr>
     \<in> set (detect_conversation_boundaries_conservative (\<lambda>_. None)
               (replicate 6 \<lparr>author = ustr ''Ana'', message = ustr ''oi'', original_message = ustr ''oi'',
                              timestamp = [], msg_index = 0\<rparr>)) \<and>
   5 \<le> length (replicate 6 \<lparr>author = ustr ''Ana'', message = ustr ''oi'',
                 original_message = ustr ''oi'', timestamp = [], msg_index = 0\<rparr>)"
proof -
  let ?m = "\<lparr>author = ustr ''Ana'', message = ustr ''oi'', original_message = ustr ''oi'',
             timestamp = [], msg_index = 0\<rparr>"
  have run: "detect_conversation_boundaries_conservative (\<lambda>_. None) (replicate 6 ?m) = [replicate 6 ?m]"
    by (simp add: detect_conversation_boundaries_conservative_def seg_init_def seg_step_def
                  seg_finish_def should_split_def gap_split_def recent_authors_def py_slice_def
                  py_index_norm_def numeral_eq_Suc)
  show ?thesis
    using segment_length_bounds [of "replicate 6 ?m" "\<lambda>_. None" "replicate 6 ?m"] run by simp
qed

text \<open>
  C3. Refinement: the accumulator loop computes the reference segmentation, which cuts
  the stream at the first position \<open>k \<ge> 5\<close> where the split criteria hold for the
  first \<open>k\<close> messages and the next one, and recurses on the rest.
\<close>

theorem detect_refines_reference:
  "detect_conversation_boundaries_conservative p ms = segs_spec p ms"
  by (rule detect_eq_segs_spec)

text \<open>
  C7. A single-author thread of 5 to 101 messages without a gap of more than 24 hours
  between consecutive messages is one conversation (the scenario of the specification
  has 12 such messages).
\<close>

theorem single_author_one_segment:
  assumes "5 \<le> length ms" and "length ms \<le> 101"
    and "\<forall>m\<in>set ms. author m = a"
    and "\<forall>i. Suc i < length ms \<longrightarrow> \<not> gap_split p (ms ! i) (ms ! Suc i)"
  shows "detect_conversation_boundaries_conservative p ms = [ms]"
proof -
  have "\<forall>k\<in>set [5..<length ms]. \<not> should_split p (take k ms) (ms ! k)"
  proof
    fix k assume "k \<in> set [5..<length ms]"
    then have k: "5 \<le> k" "k < length ms" by auto
    then have "Suc (k - 1) < length ms" and sk: "Suc (k - 1) = k" by simp_all
    with assms(4) have "\<not> gap_split p (ms ! (k - 1)) (ms ! Suc (k - 1))" by blast
    with sk have "\<not> gap_split p (ms ! (k - 1)) (ms ! k)" by simp
    with k assms(2,3) show "\<not> should_split p (take k ms) (ms ! k)"
      by (intro no_split_single_author [where a = a]) simp_all
  qed
  then have "first_cut p ms = None" by (simp add: first_cut_def find_None_iff)
  with assms(1) show ?thesis
    by (simp add: detect_eq_segs_spec segs_spec.simps [of p ms])
qed

theorem single_author_one_segment_witness:
  "detect_conversation_boundaries_conservative (\<lambda>_. None)
     (replicate 12 \<lparr>author = ustr ''Ana'', message = ustr ''oi'', original_message = ustr ''oi'',
                    timestamp = ustr ''15/03/2023, 14:30'', msg_index = 0\<rparr>) =
   [replicate 12 \<lparr>author = ustr ''Ana'', message = ustr ''oi'', original_message = ustr ''oi'',
                    timestamp = ustr ''15/03/2023, 14:30'', msg_index = 0\<rparr>]"
proof -
  let ?ms = "replicate 12 \<lparr>author = ustr ''Ana'', message = ustr ''oi'', original_message = ustr ''oi'',
                             timestamp = ustr ''15/03/2023, 14:30'', msg_index = 0\<rparr>"
  have "\<forall>i. Suc i < length ?ms \<longrightarrow> \<not> gap_split (\<lambda>_. None) (?ms ! i) (?ms ! Suc i)"
    by (simp add: gap_split_def)
  then show ?thesis
    using single_author_one_segment [of ?ms "ustr ''Ana''" "\<lambda>_. None"] by simp
qed

end
