(* ===== verification/Keywords.thy ===== *)
theory Keywords
  imports Prelude
begin

text \<open>
  The keyword extractor, \<open>WhatsAppProcessor.extract_keywords\<close> (teste.py): the words of
  the lower-cased text (\<open>re.findall(r'\b\w+\b', ...)\<close>, the maximal runs of word
  characters), counted in a dictionary when longer than 2 and not in the Portuguese
  stoplist, and returned by descending count. Python's dictionary keeps the order of
  first insertion and \<open>sorted(..., reverse=True)\<close> is stable, so words of equal count
  keep the order in which they first occur; the model counts in an association list
  that appends new keys and sorts with the stable \<open>sort_key\<close> on the negated count.
\<close>

section \<open>Definitions\<close>

definition stopwords :: "pystr list" where
  "stopwords =
    [ustr ''de'', ustr ''a'', ustr ''o'', ustr ''que'', ustr ''e'', ustr ''do'',
     ustr ''da'', ustr ''em'', ustr ''um'', ustr ''para'', [233], ustr ''com'',
     ustr ''n'' @ [227] @ ustr ''o'', ustr ''uma'', ustr ''os'', ustr ''no'',
     ustr ''se'', ustr ''na'', ustr ''por'', ustr ''mais'', ustr ''as'', ustr ''dos'',
     ustr ''como'', ustr ''mas'', ustr ''foi'', ustr ''ao'', ustr ''ele'', ustr ''das'',
     ustr ''tem'', [224], ustr ''seu'', ustr ''sua'', ustr ''ou'', ustr ''ser'',
     ustr ''quando'', ustr ''muito'', ustr ''nos'', ustr ''j'' @ [225], ustr ''eu'',
     ustr ''tamb'' @ [233] @ ustr ''m'', ustr ''s'' @ [243], ustr ''pelo'',
     ustr ''pela'', ustr ''at'' @ [233], ustr ''isso'', ustr ''ela'', ustr ''entre'',
     ustr ''era'', ustr ''depois'', ustr ''sem'', ustr ''mesmo'', ustr ''aos'',
     ustr ''ter'', ustr ''seus'', ustr ''suas'', ustr ''voc'' @ [234], ustr ''voc'' @ [234] @ ustr ''s'',
     ustr ''meu'', ustr ''minha'', ustr ''nosso'', ustr ''nossa'', ustr ''dele'',
     ustr ''dela'', ustr ''vou'', ustr ''vai'', ustr ''vamos'', ustr ''ent'' @ [227] @ ustr ''o'',
     ustr ''aqui'', ustr ''l'' @ [225], ustr ''onde'', ustr ''porque'', ustr ''ainda'',
     ustr ''bem'', ustr ''s'' @ [243], ustr ''sim'', ustr ''n'' @ [227] @ ustr ''o'',
     ustr ''n'' @ [233], ustr ''ok'', ustr ''kkk'', ustr ''kkkk'', ustr ''rs'',
     ustr ''rsrs'']"

function word_runs :: "pystr \<Rightarrow> pystr list" where
  "word_runs [] = []"
| "word_runs (c # cs) =
     (if is_word_char c
      then takeWhile is_word_char (c # cs) # word_runs (dropWhile is_word_char cs)
      else word_runs cs)"
  by pat_completeness auto
termination
  by (relation "measure length") (auto simp: le_imp_less_Suc length_dropWhile_le)

fun bump :: "(pystr \<times> nat) list \<Rightarrow> pystr \<Rightarrow> (pystr \<times> nat) list" where
  "bump [] w = [(w, 1)]"
| "bump ((k, c) # kcs) w = (if k = w then (k, Suc c) # kcs else (k, c) # bump kcs w)"

definition keyword_ok :: "pystr \<Rightarrow> bool" where
  "keyword_ok word \<longleftrightarrow> 2 < length word \<and> word \<notin> set stopwords"

definition word_count :: "pystr list \<Rightarrow> (pystr \<times> nat) list" where
  "word_count words = foldl (\<lambda>wc word. if keyword_ok word then bump wc word else wc) [] words"

definition extract_keywords :: "pystr \<Rightarrow> pystr list" where
  "extract_keywords text =
     (let words = word_runs (py_lower text)
      in map fst (sort_key (\<lambda>(w, c). - int c) (word_count words)))"

text \<open>The tokens the dictionary counts, in text order with repetitions.\<close>

definition keyword_tokens :: "pystr \<Rightarrow> pystr list" where
  "keyword_tokens text = filter keyword_ok (word_runs (py_lower text))"

text \<open>The sort key of \<open>sorted(word_count.keys(), key=word_count.get, reverse=True)\<close>.\<close>

abbreviation rank_key :: "pystr \<times> nat \<Rightarrow> int" where
  "rank_key \<equiv> \<lambda>(w, c). - int c"

section \<open>Lemmas\<close>

lemma word_count_filter: "word_count words = foldl bump [] (filter keyword_ok words)"
proof -
  have "\<And>acc. foldl (\<lambda>wc word. if keyword_ok word then bump wc word else wc) acc words =
               foldl bump acc (filter keyword_ok words)"
    by (induction words) simp_all
  then show ?thesis by (simp add: word_count_def)
qed

lemma keys_bump: "map fst (bump kcs w) = (if w \<in> set (map fst kcs) then map fst kcs else map fst kcs @ [w])"
  by (induction kcs w rule: bump.induct) auto

lemma keys_foldl_bump: "map fst (foldl bump [] ws) = rev (remdups (rev ws))"
proof (induction ws rule: rev_induct)
  case Nil
  then show ?case by simp
next
  case (snoc w ws)
  then show ?case by (simp add: keys_bump)
qed

lemma map_of_foldl_bump:
  "map_of (foldl bump [] ws) w = (if w \<in> set ws then Some (count_list ws w) else None)"
proof (induction ws rule: rev_induct)
  case Nil
  then show ?case by simp
next
  case (snoc x ws)
  have "map_of (bump kcs x) = (map_of kcs)(x \<mapsto> (case map_of kcs x of None \<Rightarrow> 1 | Some c \<Rightarrow> Suc c))" for kcs
    by (induction kcs x rule: bump.induct) (auto simp: fun_eq_iff)
  with snoc show ?case by (auto simp: count_list_0_iff split: option.splits if_splits)
qed

lemma distinct_keys_foldl_bump: "distinct (map fst (foldl bump [] ws))"
  by (simp add: keys_foldl_bump)

lemma counts_foldl_bump:
  "p \<in> set (foldl bump [] ws) \<Longrightarrow> snd p = count_list ws (fst p)"
proof -
  assume p: "p \<in> set (foldl bump [] ws)"
  have "map_of (foldl bump [] ws) (fst p) = Some (snd p)"
    using p distinct_keys_foldl_bump [of ws] by simp
  then show ?thesis by (simp add: map_of_foldl_bump split: if_splits)
qed

lemma extract_keywords_tokens:
  "extract_keywords text = map fst (sort_key rank_key (foldl bump [] (keyword_tokens text)))"
  by (simp add: extract_keywords_def word_count_filter keyword_tokens_def)

lemma set_extract_keywords: "set (extract_keywords text) = set (keyword_tokens text)"
proof -
  have "set (map fst (sort_key rank_key (foldl bump [] (keyword_tokens text)))) =
        set (map fst (foldl bump [] (keyword_tokens text)))"
    by simp
  also have "\<dots> = set (keyword_tokens text)"
    by (simp add: keys_foldl_bump)
  finally show ?thesis by (simp add: extract_keywords_tokens)
qed

lemma distinct_extract_keywords: "distinct (extract_keywords text)"
proof -
  let ?ps = "foldl bump [] (keyword_tokens text)"
  have "mset (map fst (sort_key rank_key ?ps)) = mset (map fst ?ps)"
    by simp
  then have "distinct (map fst (sort_key rank_key ?ps)) = distinct (map fst ?ps)"
    by (rule mset_eq_imp_distinct_iff)
  then show ?thesis
    using distinct_keys_foldl_bump by (simp add: extract_keywords_tokens)
qed

lemma sorted_extract_keywords:
  "sorted_wrt (\<lambda>x y. count_list (keyword_tokens text) y \<le> count_list (keyword_tokens text) x)
     (extract_keywords text)"
proof -
  let ?toks = "keyword_tokens text"
  let ?ps = "sort_key rank_key (foldl bump [] ?toks)"
  have cnt: "\<And>a b. (a, b) \<in> set (foldl bump [] ?toks) \<Longrightarrow> b = count_list ?toks a"
    using counts_foldl_bump by fastforce
  have "sorted (map rank_key ?ps)" by (rule sorted_sort_key)
  then have "sorted_wrt (\<lambda>p q. rank_key p \<le> rank_key q) ?ps"
    by (simp add: sorted_map)
  then have "sorted_wrt (\<lambda>p q. count_list ?toks (fst q) \<le> count_list ?toks (fst p)) ?ps"
    by (rule sorted_wrt_mono_rel [rotated]) (auto dest!: cnt)
  then show ?thesis
    by (simp add: extract_keywords_tokens sorted_wrt_map)
qed

lemma ties_extract_keywords:
  "filter (\<lambda>w. count_list (keyword_tokens text) w = n) (extract_keywords text) =
   filter (\<lambda>w. count_list (keyword_tokens text) w = n) (rev (remdups (rev (keyword_tokens text))))"
proof -
  let ?toks = "keyword_tokens text"
  let ?qs = "foldl bump [] ?toks"
  have cnt: "\<And>a b. (a, b) \<in> set ?qs \<Longrightarrow> b = count_list ?toks a"
    using counts_foldl_bump by fastforce
  have same: "filter (\<lambda>p. count_list ?toks (fst p) = n) xs = filter (\<lambda>p. rank_key p = - int n) xs"
    if "set xs \<subseteq> set ?qs" for xs
    using that by (intro filter_cong) (auto dest!: cnt)
  have "filter (\<lambda>w. count_list ?toks w = n) (extract_keywords text) =
        map fst (filter (\<lambda>p. count_list ?toks (fst p) = n) (sort_key rank_key ?qs))"
    by (simp add: extract_keywords_tokens filter_map comp_def)
  also have "\<dots> = map fst (filter (\<lambda>p. rank_key p = - int n) (sort_key rank_key ?qs))"
    by (simp add: same)
  also have "\<dots> = map fst (filter (\<lambda>p. rank_key p = - int n) ?qs)"
    by (simp only: sort_key_stable)
  also have "\<dots> = map fst (filter (\<lambda>p. count_list ?toks (fst p) = n) ?qs)"
    by (simp add: same)
  also have "\<dots> = filter (\<lambda>w. count_list ?toks w = n) (map fst ?qs)"
    by (simp add: filter_map comp_def)
  finally show ?thesis by (simp add: keys_foldl_bump)
qed

section \<open>Properties\<close>

text \<open>
  C9. Exactly the words of the lower-cased text that are longer than 2 characters and
  not in the stoplist are keywords.
\<close>

theorem keywords_exact_set:
  "w \<in> set (extract_keywords text) \<longleftrightarrow>
     w \<in> set (word_runs (py_lower text)) \<and> 2 < length w \<and> w \<notin> set stopwords"
  by (simp add: set_extract_keywords keyword_tokens_def keyword_ok_def)

text \<open>
  C10. Ranking: the keywords are distinct and ordered by non-increasing number of
  occurrences among the counted words.
\<close>

theorem keywords_ranked:
  "distinct (extract_keywords text) \<and>
   sorted_wrt (\<lambda>x y. count_list (keyword_tokens text) y \<le> count_list (keyword_tokens text) x)
     (extract_keywords text)"
  using distinct_extract_keywords sorted_extract_keywords by blast

text \<open>
  C11. Ties: keywords of the same count appear in the order of their first occurrence in
  the text (the insertion order of the dictionary, kept by the stable sort).
\<close>

theorem keywords_ties_first_seen:
  "filter (\<lambda>w. count_list (keyword_tokens text) w = n) (extract_keywords text) =
   filter (\<lambda>w. count_list (keyword_tokens text) w = n) (rev (remdups (rev (keyword_tokens text))))"
  by (rule ties_extract_keywords)

text \<open>
  The example of the specification, \<open>"eu vou e ele tambem"\<close>, is said to give no
  keyword; the stoplist holds only the accented \<open>"tamb\<acute>em"\<close>, so the code returns
  \<open>["tambem"]\<close>, and returns no keyword for the accented spelling.
\<close>

theorem keywords_spec_example:
  "extract_keywords (ustr ''eu vou e ele tambem'') = [ustr ''tambem''] \<and>
   extract_keywords (ustr ''eu vou e ele tamb'' @ [233] @ ustr ''m'') = []"
  by (simp add: extract_keywords_def word_count_def keyword_ok_def stopwords_def py_lower_def
                py_lower_char_def is_word_char_def is_ascii_digit_def)

end
