(* ===== verification/Timestamp.thy ===== *)
theory Timestamp
  imports Prelude
begin

text \<open>
  The timestamp parser, \<open>WhatsAppProcessor.parse_timestamp\<close> (teste.py): the stripped
  string is tried against eight \<open>datetime.strptime\<close> formats in order; if none
  matches, a date-like and a time-like substring are searched with two regular
  expressions and a \<open>datetime\<close> is built from them; otherwise the result is
  \<open>None\<close>.

  \<open>strptime\<close> is modelled as CPython's \<open>_strptime\<close> does it: each directive becomes
  a regular expression (\<open>%d\<close> is \<open>3[01]|[12]\d|0[1-9]|[1-9]| [1-9]\<close>, \<open>%y\<close> is
  \<open>\d\d\<close>, and so on), a whitespace run of the format becomes \<open>\s+\<close>, the pattern
  is matched case-insensitively at the start of the string, the first match found must
  consume the whole string, and the fields are checked by the \<open>datetime\<close> constructor.
  A two-digit \<open>%y\<close> is a year from 1969 to 2068 (POSIX). The regular expressions are
  run by a backtracking matcher that tries alternatives in order and takes the first
  success, as Python's engine does. Digits are the ASCII digits.

  The last part proves that the timestamps of a WhatsApp export (\<open>whatsapp_stamp\<close>)
  are parsed back to the date and time they write.
\<close>

section \<open>datetime\<close>

record datetime =
  dt_year :: nat
  dt_month :: nat
  dt_day :: nat
  dt_hour :: nat
  dt_minute :: nat
  dt_second :: nat
  dt_microsecond :: nat

definition is_leap :: "nat \<Rightarrow> bool" where
  "is_leap y \<longleftrightarrow> 4 dvd y \<and> (\<not> 100 dvd y \<or> 400 dvd y)"

definition days_in_month :: "nat \<Rightarrow> nat \<Rightarrow> nat" where
  "days_in_month y m =
     (if m = 2 then (if is_leap y then 29 else 28)
      else if m = 4 \<or> m = 6 \<or> m = 9 \<or> m = 11 then 30 else 31)"

text \<open>The constructor \<open>datetime(year, month, day, hour, minute, second, microsecond)\<close>.\<close>

definition mk_datetime :: "nat \<Rightarrow> nat \<Rightarrow> nat \<Rightarrow> nat \<Rightarrow> nat \<Rightarrow> nat \<Rightarrow> nat \<Rightarrow> py_error + datetime" where
  "mk_datetime y mo d h mi s us =
     (if 1 \<le> y \<and> y \<le> 9999 \<and> 1 \<le> mo \<and> mo \<le> 12 \<and> 1 \<le> d \<and> d \<le> days_in_month y mo \<and>
         h \<le> 23 \<and> mi \<le> 59 \<and> s \<le> 59 \<and> us \<le> 999999
      then Inr \<lparr>dt_year = y, dt_month = mo, dt_day = d, dt_hour = h, dt_minute = mi,
                dt_second = s, dt_microsecond = us\<rparr>
      else Inl ValueError)"

text \<open>\<open>date.toordinal()\<close>: day 1 is 0001-01-01 of the proleptic Gregorian calendar.\<close>

definition days_before_year :: "nat \<Rightarrow> nat" where
  "days_before_year y = (let y1 = y - 1 in y1 * 365 + y1 div 4 - y1 div 100 + y1 div 400)"

definition days_before_month :: "nat \<Rightarrow> nat \<Rightarrow> nat" where
  "days_before_month y m = sum_list (map (days_in_month y) [1..<m])"

definition toordinal :: "datetime \<Rightarrow> nat" where
  "toordinal dt = days_before_year (dt_year dt) + days_before_month (dt_year dt) (dt_month dt) + dt_day dt"

text \<open>
  The instant in microseconds: the difference of two of them is
  \<open>(a - b).total_seconds() * 10^6\<close>.
\<close>

definition dt_to_us :: "datetime \<Rightarrow> int" where
  "dt_to_us dt =
     int (((toordinal dt * 24 + dt_hour dt) * 60 + dt_minute dt) * 60 + dt_second dt) * 1000000 +
     int (dt_microsecond dt)"

text \<open>The range checks of the constructor, as a predicate on a value.\<close>

definition valid_datetime :: "datetime \<Rightarrow> bool" where
  "valid_datetime dt \<longleftrightarrow>
     1 \<le> dt_year dt \<and> dt_year dt \<le> 9999 \<and> 1 \<le> dt_month dt \<and> dt_month dt \<le> 12 \<and>
     1 \<le> dt_day dt \<and> dt_day dt \<le> days_in_month (dt_year dt) (dt_month dt) \<and>
     dt_hour dt \<le> 23 \<and> dt_minute dt \<le> 59 \<and> dt_second dt \<le> 59 \<and> dt_microsecond dt \<le> 999999"

section \<open>A backtracking matcher for the regular expressions used\<close>

text \<open>
  \<open>RChars alts\<close> is a capturing group of fixed-width alternatives (each a list of
  character tests), tried in order; \<open>RLit c\<close> a literal character, compared after
  lower-casing (the \<open>IGNORECASE\<close> flag of \<open>_strptime\<close>); \<open>RSpaces\<close> is \<open>\s+\<close>,
  greedy, giving back characters on backtracking.
\<close>

datatype rx = RChars "(nat \<Rightarrow> bool) list list" | RLit nat | RSpaces

fun first_some :: "('a \<Rightarrow> 'b option) \<Rightarrow> 'a list \<Rightarrow> 'b option" where
  "first_some f [] = None"
| "first_some f (x # xs) = (case f x of None \<Rightarrow> first_some f xs | Some y \<Rightarrow> Some y)"

fun run_match :: "(nat \<Rightarrow> bool) list \<Rightarrow> pystr \<Rightarrow> bool" where
  "run_match [] s = True"
| "run_match (p # ps) [] = False"
| "run_match (p # ps) (c # cs) = (p c \<and> run_match ps cs)"

fun rx_match :: "rx list \<Rightarrow> pystr \<Rightarrow> (pystr list \<times> pystr) option" where
  "rx_match [] s = Some ([], s)"
| "rx_match (RLit c # rs) s =
     (case s of
        [] \<Rightarrow> None
      | x # s' \<Rightarrow> if py_lower_char x = py_lower_char c then rx_match rs s' else None)"
| "rx_match (RSpaces # rs) s =
     first_some (\<lambda>k. rx_match rs (drop k s)) (rev [1..<Suc (length (takeWhile is_py_space s))])"
| "rx_match (RChars alts # rs) s =
     first_some (\<lambda>alt. if run_match alt s
                       then map_option (\<lambda>(gs, r). (take (length alt) s # gs, r))
                              (rx_match rs (drop (length alt) s))
                       else None) alts"

text \<open>\<open>re.search\<close>: the first start position where the pattern matches.\<close>

definition rx_search :: "rx list \<Rightarrow> pystr \<Rightarrow> (pystr list \<times> pystr) option" where
  "rx_search rs s = first_some (\<lambda>i. rx_match rs (drop i s)) [0..<Suc (length s)]"

definition chr_in :: "nat \<Rightarrow> nat \<Rightarrow> nat \<Rightarrow> bool" where
  "chr_in lo hi c \<longleftrightarrow> lo \<le> c \<and> c \<le> hi"

text \<open>\<open>int()\<close> of a run of digits, leading whitespace allowed (\<open>int(' 5') = 5\<close>).\<close>

definition py_int :: "pystr \<Rightarrow> nat" where
  "py_int s = foldl (\<lambda>acc c. 10 * acc + (c - 48)) 0 (dropWhile is_py_space s)"

section \<open>strptime\<close>

datatype directive =
  DDay | DMonth | DYear4 | DYear2 | DHour | DMinute | DSecond | DFrac | DLit nat | DSpace

fun directive_rx :: "directive \<Rightarrow> rx" where
  "directive_rx DDay = RChars [[chr_in 51 51, chr_in 48 49], [chr_in 49 50, is_ascii_digit],
                               [chr_in 48 48, chr_in 49 57], [chr_in 49 57], [chr_in 32 32, chr_in 49 57]]"
| "directive_rx DMonth = RChars [[chr_in 49 49, chr_in 48 50], [chr_in 48 48, chr_in 49 57], [chr_in 49 57]]"
| "directive_rx DYear4 = RChars [replicate 4 is_ascii_digit]"
| "directive_rx DYear2 = RChars [replicate 2 is_ascii_digit]"
| "directive_rx DHour = RChars [[chr_in 50 50, chr_in 48 51], [chr_in 48 49, is_ascii_digit], [is_ascii_digit]]"
| "directive_rx DMinute = RChars [[chr_in 48 53, is_ascii_digit], [is_ascii_digit]]"
| "directive_rx DSecond = RChars [[chr_in 54 54, chr_in 48 49], [chr_in 48 53, is_ascii_digit], [is_ascii_digit]]"
| "directive_rx DFrac = RChars (map (\<lambda>n. replicate n (chr_in 48 57)) [6, 5, 4, 3, 2, 1])"
| "directive_rx (DLit c) = RLit c"
| "directive_rx DSpace = RSpaces"

fun is_field :: "directive \<Rightarrow> bool" where
  "is_field (DLit c) = False"
| "is_field DSpace = False"
| "is_field d = True"

text \<open>
  The fields of a match, with the defaults of \<open>_strptime\<close> (year 1900, month and
  day 1, time 0); \<open>%y\<close> is pivoted at 68, the fraction is padded to 6 digits.
\<close>

definition strptime_fields :: "(directive \<times> pystr) list \<Rightarrow> py_error + datetime" where
  "strptime_fields fs =
     (let get = (\<lambda>d dflt. case map_of fs d of None \<Rightarrow> dflt | Some v \<Rightarrow> py_int v);
          year = (case map_of fs DYear4 of
                    Some v \<Rightarrow> py_int v
                  | None \<Rightarrow> (case map_of fs DYear2 of
                               Some v \<Rightarrow> (if py_int v \<le> 68 then py_int v + 2000 else py_int v + 1900)
                             | None \<Rightarrow> 1900));
          frac = (case map_of fs DFrac of None \<Rightarrow> 0 | Some v \<Rightarrow> py_int (v @ replicate (6 - length v) 48))
      in mk_datetime year (get DMonth 1) (get DDay 1) (get DHour 0) (get DMinute 0) (get DSecond 0) frac)"

definition strptime :: "pystr \<Rightarrow> directive list \<Rightarrow> py_error + datetime" where
  "strptime s fmt =
     (case rx_match (map directive_rx fmt) s of
        None \<Rightarrow> Inl ValueError
      | Some (gs, rest) \<Rightarrow>
          if rest \<noteq> [] then Inl ValueError
          else strptime_fields (zip (filter is_field fmt) gs))"

text \<open>The eight formats of \<open>parse_timestamp\<close>, in the order they are tried.\<close>

definition formats :: "directive list list" where
  "formats =
    [[DDay, DLit 47, DMonth, DLit 47, DYear4, DLit 44, DSpace, DHour, DLit 58, DMinute],
     [DDay, DLit 47, DMonth, DLit 47, DYear2, DLit 44, DSpace, DHour, DLit 58, DMinute],
     [DMonth, DLit 47, DDay, DLit 47, DYear4, DLit 44, DSpace, DHour, DLit 58, DMinute],
     [DYear4, DLit 45, DMonth, DLit 45, DDay, DSpace, DHour, DLit 58, DMinute, DLit 58, DSecond],
     [DDay, DLit 45, DMonth, DLit 45, DYear4, DSpace, DHour, DLit 58, DMinute],
     [DDay, DLit 47, DMonth, DLit 47, DYear4, DSpace, DHour, DLit 58, DMinute, DLit 58, DSecond],
     [DYear4, DLit 45, DMonth, DLit 45, DDay, DLit 84, DHour, DLit 58, DMinute, DLit 58, DSecond],
     [DYear4, DLit 45, DMonth, DLit 45, DDay, DLit 84, DHour, DLit 58, DMinute, DLit 58, DSecond,
      DLit 46, DFrac]]"

section \<open>The regular-expression fallback\<close>

definition sep_class :: "nat \<Rightarrow> bool" where
  "sep_class c \<longleftrightarrow> c = 47 \<or> c = 45"

text \<open>\<open>(\d{1,2})[/\-](\d{1,2})[/\-](\d{2,4})\<close> and \<open>(\d{1,2}):(\d{2})\<close>.\<close>

definition date_rx :: "rx list" where
  "date_rx =
    [RChars [replicate 2 is_ascii_digit, [is_ascii_digit]], RChars [[sep_class]],
     RChars [replicate 2 is_ascii_digit, [is_ascii_digit]], RChars [[sep_class]],
     RChars [replicate 4 is_ascii_digit, replicate 3 is_ascii_digit, replicate 2 is_ascii_digit]]"

definition time_rx :: "rx list" where
  "time_rx = [RChars [replicate 2 is_ascii_digit, [is_ascii_digit]], RLit 58,
              RChars [replicate 2 is_ascii_digit]]"

definition parse_fallback :: "pystr \<Rightarrow> datetime option" where
  "parse_fallback s =
     (case (rx_search date_rx s, rx_search time_rx s) of
        (Some (dg, _), Some (tg, _)) \<Rightarrow>
          (let day = py_int (dg ! 0); month = py_int (dg ! 2); year0 = py_int (dg ! 4);
               year = (if year0 < 100 then year0 + 2000 else year0);
               hour = py_int (tg ! 0); minute = py_int (tg ! 1)
           in case mk_datetime year month day hour minute 0 0 of
                Inr dt \<Rightarrow> Some dt
              | Inl _ \<Rightarrow> None)
      | _ \<Rightarrow> None)"

section \<open>parse_timestamp\<close>

definition parse_timestamp :: "pystr \<Rightarrow> datetime option" where
  "parse_timestamp s =
     (if s = [] then None
      else case first_some (\<lambda>fmt. case strptime (py_strip s) fmt of Inr dt \<Rightarrow> Some dt | Inl _ \<Rightarrow> None)
                  formats of
             Some dt \<Rightarrow> Some dt
           | None \<Rightarrow> parse_fallback s)"

section \<open>The timestamps of a WhatsApp export\<close>

text \<open>
  How a WhatsApp export writes a timestamp, the first format of the list:
  \<open>DD/MM/YYYY, HH:MM\<close>, each field zero-padded. These are the inputs the parser is
  written for; they are specified here, not taken from the code.
\<close>

definition two_digits :: "nat \<Rightarrow> pystr" where
  "two_digits n = [48 + n div 10, 48 + n mod 10]"

definition four_digits :: "nat \<Rightarrow> pystr" where
  "four_digits n = two_digits (n div 100) @ two_digits (n mod 100)"

definition whatsapp_stamp :: "datetime \<Rightarrow> pystr" where
  "whatsapp_stamp dt =
     two_digits (dt_day dt) @ [47] @ two_digits (dt_month dt) @ [47] @ four_digits (dt_year dt) @
     [44, 32] @ two_digits (dt_hour dt) @ [58] @ two_digits (dt_minute dt)"

section \<open>Lemmas\<close>

lemma first_some_Some: "first_some f xs = Some y \<Longrightarrow> \<exists>x\<in>set xs. f x = Some y"
  by (induction xs) (auto split: option.splits)

lemma mk_datetime_valid: "mk_datetime y mo d h mi s us = Inr dt \<Longrightarrow> valid_datetime dt"
  by (auto simp: mk_datetime_def valid_datetime_def split: if_splits)

lemma strptime_valid: "strptime s fmt = Inr dt \<Longrightarrow> valid_datetime dt"
  by (auto simp: strptime_def strptime_fields_def Let_def
           split: option.splits if_splits prod.splits dest: mk_datetime_valid)

lemma parse_fallback_valid: "parse_fallback s = Some dt \<Longrightarrow> valid_datetime dt"
  by (auto simp: parse_fallback_def Let_def
           split: option.splits prod.splits sum.splits dest: mk_datetime_valid)

section \<open>Properties\<close>

text \<open>
  The examples of the specification: \<open>"15/03/2023, 14:30"\<close> is 15 March 2023,
  14:30, and the two-digit year of \<open>"15/03/23, 14:30"\<close> is 2023.
\<close>

theorem parse_spec_examples:
  "parse_timestamp (ustr ''15/03/2023, 14:30'') =
     Some \<lparr>dt_year = 2023, dt_month = 3, dt_day = 15, dt_hour = 14, dt_minute = 30,
           dt_second = 0, dt_microsecond = 0\<rparr> \<and>
   parse_timestamp (ustr ''15/03/23, 14:30'') =
     Some \<lparr>dt_year = 2023, dt_month = 3, dt_day = 15, dt_hour = 14, dt_minute = 30,
           dt_second = 0, dt_microsecond = 0\<rparr>"
  by code_simp

text \<open>
  A two-digit year goes through \<open>%y\<close>, which maps 69 to 99 into the 1900s:
  \<open>"15/03/69, 14:30"\<close> is 1969, not 2069 as the specification's \<open>2000+\<close> rule says.
\<close>

theorem parse_two_digit_year_pivot:
  "parse_timestamp (ustr ''15/03/69, 14:30'') =
     Some \<lparr>dt_year = 1969, dt_month = 3, dt_day = 15, dt_hour = 14, dt_minute = 30,
           dt_second = 0, dt_microsecond = 0\<rparr> \<and>
   parse_timestamp (ustr ''15/03/68, 14:30'') =
     Some \<lparr>dt_year = 2068, dt_month = 3, dt_day = 15, dt_hour = 14, dt_minute = 30,
           dt_second = 0, dt_microsecond = 0\<rparr>"
  by code_simp

section \<open>Lemmas: the round trip of the export format\<close>

text \<open>Each two-digit field is matched by the alternative of \<open>_strptime\<close> that takes both digits.\<close>

lemma digit_char: "n < 10 \<Longrightarrow> is_ascii_digit (48 + n) \<and> \<not> is_py_space (48 + n)"
  unfolding is_ascii_digit_def is_py_space_def
  by (intro conjI notI; (elim disjE conjE)?; linarith)

lemma two_digits_split:
  "n < 100 \<Longrightarrow> two_digits n = [48 + n div 10, 48 + n mod 10] \<and> n div 10 < 10 \<and> n mod 10 < 10"
  by (simp add: two_digits_def less_mult_imp_div_less)

lemma tens_cases: "a \<le> 3 \<Longrightarrow> a = 0 \<or> a = 1 \<or> a = 2 \<or> a = (3::nat)"
  by linarith

lemma rx_field_digits:
  assumes "b < 10" "rx_match rs s = Some (gs, r)"
  shows "a \<le> 3 \<Longrightarrow> 1 \<le> 10 * a + b \<Longrightarrow> 10 * a + b \<le> 31 \<Longrightarrow>
           rx_match (directive_rx DDay # rs) ([48 + a, 48 + b] @ s) = Some ([48 + a, 48 + b] # gs, r)"
    and "a \<le> 1 \<Longrightarrow> 1 \<le> 10 * a + b \<Longrightarrow> 10 * a + b \<le> 12 \<Longrightarrow>
           rx_match (directive_rx DMonth # rs) ([48 + a, 48 + b] @ s) = Some ([48 + a, 48 + b] # gs, r)"
    and "a \<le> 2 \<Longrightarrow> 10 * a + b \<le> 23 \<Longrightarrow>
           rx_match (directive_rx DHour # rs) ([48 + a, 48 + b] @ s) = Some ([48 + a, 48 + b] # gs, r)"
    and "a \<le> 5 \<Longrightarrow>
           rx_match (directive_rx DMinute # rs) ([48 + a, 48 + b] @ s) = Some ([48 + a, 48 + b] # gs, r)"
  using assms
  by (auto dest!: tens_cases simp: chr_in_def is_ascii_digit_def)

lemma rx_day:
  assumes "1 \<le> n" "n \<le> 31" "rx_match (map directive_rx fs) s = Some (gs, r)"
  shows "rx_match (map directive_rx (DDay # fs)) (two_digits n @ s) = Some (two_digits n # gs, r)"
proof -
  have "n div 10 \<le> 31 div 10" using assms(2) by (rule div_le_mono)
  then show ?thesis
    using rx_field_digits(1) [of "n mod 10" "map directive_rx fs" s gs r "n div 10"] assms
    by (simp add: two_digits_def)
qed

lemma rx_month:
  assumes "1 \<le> n" "n \<le> 12" "rx_match (map directive_rx fs) s = Some (gs, r)"
  shows "rx_match (map directive_rx (DMonth # fs)) (two_digits n @ s) = Some (two_digits n # gs, r)"
proof -
  have "n div 10 \<le> 12 div 10" using assms(2) by (rule div_le_mono)
  then show ?thesis
    using rx_field_digits(2) [of "n mod 10" "map directive_rx fs" s gs r "n div 10"] assms
    by (simp add: two_digits_def)
qed

lemma rx_hour:
  assumes "n \<le> 23" "rx_match (map directive_rx fs) s = Some (gs, r)"
  shows "rx_match (map directive_rx (DHour # fs)) (two_digits n @ s) = Some (two_digits n # gs, r)"
proof -
  have "n div 10 \<le> 23 div 10" using assms(1) by (rule div_le_mono)
  then show ?thesis
    using rx_field_digits(3) [of "n mod 10" "map directive_rx fs" s gs r "n div 10"] assms
    by (simp add: two_digits_def)
qed

lemma rx_minute:
  assumes "n \<le> 59" "rx_match (map directive_rx fs) s = Some (gs, r)"
  shows "rx_match (map directive_rx (DMinute # fs)) (two_digits n @ s) = Some (two_digits n # gs, r)"
proof -
  have "n div 10 \<le> 59 div 10" using assms(1) by (rule div_le_mono)
  then show ?thesis
    using rx_field_digits(4) [of "n mod 10" "map directive_rx fs" s gs r "n div 10"] assms
    by (simp add: two_digits_def)
qed

lemma four_digits_split:
  assumes "n \<le> 9999"
  shows "four_digits n = [48 + n div 100 div 10, 48 + n div 100 mod 10, 48 + n mod 100 div 10, 48 + n mod 100 mod 10] \<and>
         n div 100 div 10 < 10 \<and> n div 100 mod 10 < 10 \<and> n mod 100 div 10 < 10 \<and> n mod 100 mod 10 < 10"
proof -
  have "n div 100 < 100" using assms by (simp add: less_mult_imp_div_less)
  then show ?thesis by (simp add: four_digits_def two_digits_def less_mult_imp_div_less)
qed

lemma rx_year:
  assumes "n \<le> 9999" "rx_match (map directive_rx fs) s = Some (gs, r)"
  shows "rx_match (map directive_rx (DYear4 # fs)) (four_digits n @ s) = Some (four_digits n # gs, r)"
proof -
  have rep: "replicate 4 x = [x, x, x, x]" for x :: "nat \<Rightarrow> bool"
    by (simp add: eval_nat_numeral)
  have d9: "m mod 10 \<le> 9" for m :: nat
    using mod_less_divisor [of 10 m] by linarith
  show ?thesis
    using four_digits_split [OF assms(1)] assms(2)
    by (simp add: is_ascii_digit_def rep d9)
qed

lemma rx_lit:
  "rx_match (map directive_rx fs) s = Some x \<Longrightarrow> rx_match (map directive_rx (DLit c # fs)) ([c] @ s) = Some x"
  by simp

lemma rx_comma_space:
  assumes "n < 100" "rx_match (map directive_rx fs) (two_digits n @ s) = Some x"
  shows "rx_match (map directive_rx (DLit 44 # DSpace # fs)) ([44, 32] @ two_digits n @ s) = Some x"
proof -
  have "is_py_space 32" by (simp add: is_py_space_def)
  then show ?thesis
    using two_digits_split [OF assms(1)] digit_char [of "n div 10"] assms(2)
    by (simp add: py_lower_char_def)
qed

lemma py_int_two_digits: "n < 100 \<Longrightarrow> py_int (two_digits n) = n"
  using two_digits_split [of n] digit_char [of "n div 10"] by (simp add: py_int_def)

lemma py_int_four_digits:
  assumes "n \<le> 9999"
  shows "py_int (four_digits n) = n"
proof -
  have "n div 100 < 100" using assms by (simp add: less_mult_imp_div_less)
  then have "foldl (\<lambda>acc c. 10 * acc + (c - 48)) 0 (four_digits n) = 100 * (n div 100) + n mod 100"
    using two_digits_split [of "n div 100"] two_digits_split [of "n mod 100"]
    by (simp add: four_digits_def)
  moreover have "\<not> is_py_space (hd (four_digits n))"
    using four_digits_split [OF assms] digit_char [of "n div 100 div 10"] by simp
  ultimately show ?thesis
    using four_digits_split [OF assms] by (simp add: py_int_def)
qed

lemma days_in_month_le: "days_in_month y m \<le> 31"
  by (simp add: days_in_month_def)

lemma py_strip_unchanged:
  assumes "s \<noteq> []" "\<not> is_py_space (hd s)" "\<not> is_py_space (last s)"
  shows "py_strip s = s"
proof -
  have "dropWhile is_py_space s = s" using assms(1,2) by (cases s) simp_all
  moreover have "dropWhile is_py_space (rev s) = rev s" using assms(1,3) by (cases s rule: rev_cases) simp_all
  ultimately show ?thesis by (simp add: py_strip_def)
qed

text \<open>The matcher on a WhatsApp timestamp, one directive after the other from the end.\<close>

lemma whatsapp_match:
  assumes "valid_datetime dt"
  shows "rx_match (map directive_rx [DDay, DLit 47, DMonth, DLit 47, DYear4, DLit 44, DSpace, DHour, DLit 58, DMinute])
           (whatsapp_stamp dt) =
         Some ([two_digits (dt_day dt), two_digits (dt_month dt), four_digits (dt_year dt),
                two_digits (dt_hour dt), two_digits (dt_minute dt)], [])"
proof -
  have v: "1 \<le> dt_day dt" "dt_day dt \<le> 31" "1 \<le> dt_month dt" "dt_month dt \<le> 12" "dt_year dt \<le> 9999"
      "dt_hour dt \<le> 23" "dt_minute dt \<le> 59" "dt_hour dt < 100"
    using assms days_in_month_le [of "dt_year dt" "dt_month dt"] by (auto simp: valid_datetime_def)
  have "rx_match (map directive_rx [DMinute]) (two_digits (dt_minute dt) @ []) = Some ([two_digits (dt_minute dt)], [])"
    by (rule rx_minute [OF v(7)]) simp
  then have "rx_match (map directive_rx [DLit 58, DMinute]) ([58] @ two_digits (dt_minute dt)) =
               Some ([two_digits (dt_minute dt)], [])"
    by (intro rx_lit) simp
  then have "rx_match (map directive_rx [DHour, DLit 58, DMinute])
               (two_digits (dt_hour dt) @ [58] @ two_digits (dt_minute dt)) =
               Some ([two_digits (dt_hour dt), two_digits (dt_minute dt)], [])"
    by (rule rx_hour [OF v(6)])
  then have "rx_match (map directive_rx [DLit 44, DSpace, DHour, DLit 58, DMinute])
               ([44, 32] @ two_digits (dt_hour dt) @ [58] @ two_digits (dt_minute dt)) =
               Some ([two_digits (dt_hour dt), two_digits (dt_minute dt)], [])"
    by (rule rx_comma_space [OF v(8)])
  then have "rx_match (map directive_rx [DYear4, DLit 44, DSpace, DHour, DLit 58, DMinute])
               (four_digits (dt_year dt) @ [44, 32] @ two_digits (dt_hour dt) @ [58] @ two_digits (dt_minute dt)) =
               Some ([four_digits (dt_year dt), two_digits (dt_hour dt), two_digits (dt_minute dt)], [])"
    by (rule rx_year [OF v(5)])
  then have "rx_match (map directive_rx [DLit 47, DYear4, DLit 44, DSpace, DHour, DLit 58, DMinute])
               ([47] @ four_digits (dt_year dt) @ [44, 32] @ two_digits (dt_hour dt) @ [58] @ two_digits (dt_minute dt)) =
               Some ([four_digits (dt_year dt), two_digits (dt_hour dt), two_digits (dt_minute dt)], [])"
    by (rule rx_lit)
  then have "rx_match (map directive_rx [DMonth, DLit 47, DYear4, DLit 44, DSpace, DHour, DLit 58, DMinute])
               (two_digits (dt_month dt) @ [47] @ four_digits (dt_year dt) @ [44, 32] @ two_digits (dt_hour dt) @
                [58] @ two_digits (dt_minute dt)) =
               Some ([two_digits (dt_month dt), four_digits (dt_year dt), two_digits (dt_hour dt),
                      two_digits (dt_minute dt)], [])"
    by (rule rx_month [OF v(3) v(4)])
  then have "rx_match (map directive_rx [DLit 47, DMonth, DLit 47, DYear4, DLit 44, DSpace, DHour, DLit 58, DMinute])
               ([47] @ two_digits (dt_month dt) @ [47] @ four_digits (dt_year dt) @ [44, 32] @ two_digits (dt_hour dt) @
                [58] @ two_digits (dt_minute dt)) =
               Some ([two_digits (dt_month dt), four_digits (dt_year dt), two_digits (dt_hour dt),
                      two_digits (dt_minute dt)], [])"
    by (rule rx_lit)
  then show ?thesis
    unfolding whatsapp_stamp_def by (rule rx_day [OF v(1) v(2)])
qed

lemma strptime_whatsapp:
  assumes "valid_datetime dt" "dt_second dt = 0" "dt_microsecond dt = 0"
  shows "strptime (whatsapp_stamp dt) [DDay, DLit 47, DMonth, DLit 47, DYear4, DLit 44, DSpace, DHour, DLit 58, DMinute] =
           Inr dt"
proof -
  have v: "dt_day dt < 100" "dt_month dt < 100" "dt_year dt \<le> 9999" "dt_hour dt < 100" "dt_minute dt < 100"
    using assms(1) days_in_month_le [of "dt_year dt" "dt_month dt"] by (auto simp: valid_datetime_def)
  have "mk_datetime (dt_year dt) (dt_month dt) (dt_day dt) (dt_hour dt) (dt_minute dt) 0 0 = Inr dt"
    using assms by (cases dt) (simp add: mk_datetime_def valid_datetime_def)
  then show ?thesis
    using whatsapp_match [OF assms(1)]
    by (simp add: strptime_def strptime_fields_def py_int_two_digits py_int_four_digits v)
qed

text \<open>
  C33. Round trip: every valid date and time to the minute, written as a WhatsApp export
  writes it (\<open>DD/MM/YYYY, HH:MM\<close>, zero-padded), is parsed back to itself. The first
  format matches it, the alternatives of \<open>%d\<close>, \<open>%m\<close> and \<open>%H\<close> take both digits,
  and the constructor accepts the fields.
\<close>

theorem parse_whatsapp_roundtrip:
  "valid_datetime dt \<Longrightarrow> dt_second dt = 0 \<Longrightarrow> dt_microsecond dt = 0 \<Longrightarrow>
     parse_timestamp (whatsapp_stamp dt) = Some dt"
proof -
  assume a: "valid_datetime dt" "dt_second dt = 0" "dt_microsecond dt = 0"
  have "dt_day dt div 10 < 10" "dt_minute dt mod 10 < 10"
    using a(1) days_in_month_le [of "dt_year dt" "dt_month dt"] by (auto simp: valid_datetime_def)
  then have "py_strip (whatsapp_stamp dt) = whatsapp_stamp dt"
    using digit_char [of "dt_day dt div 10"] digit_char [of "dt_minute dt mod 10"]
    by (intro py_strip_unchanged) (simp_all add: whatsapp_stamp_def two_digits_def)
  moreover have "whatsapp_stamp dt \<noteq> []" by (simp add: whatsapp_stamp_def two_digits_def)
  ultimately show ?thesis
    using strptime_whatsapp [OF a] by (simp add: parse_timestamp_def formats_def)
qed

theorem parse_whatsapp_roundtrip_witness:
  "valid_datetime \<lparr>dt_year = 2024, dt_month = 3, dt_day = 5, dt_hour = 14, dt_minute = 30,
                    dt_second = 0, dt_microsecond = 0\<rparr> \<and>
   whatsapp_stamp \<lparr>dt_year = 2024, dt_month = 3, dt_day = 5, dt_hour = 14, dt_minute = 30,
                    dt_second = 0, dt_microsecond = 0\<rparr> = ustr ''05/03/2024, 14:30'' \<and>
   parse_timestamp (ustr ''05/03/2024, 14:30'') =
     Some \<lparr>dt_year = 2024, dt_month = 3, dt_day = 5, dt_hour = 14, dt_minute = 30,
           dt_second = 0, dt_microsecond = 0\<rparr>"
proof -
  have v: "valid_datetime \<lparr>dt_year = 2024, dt_month = 3, dt_day = 5, dt_hour = 14, dt_minute = 30,
                    dt_second = 0, dt_microsecond = 0\<rparr>"
    by (simp add: valid_datetime_def days_in_month_def)
  have s: "whatsapp_stamp \<lparr>dt_year = 2024, dt_month = 3, dt_day = 5, dt_hour = 14, dt_minute = 30,
                    dt_second = 0, dt_microsecond = 0\<rparr> = ustr ''05/03/2024, 14:30''"
    by (simp add: whatsapp_stamp_def four_digits_def two_digits_def)
  show ?thesis
    using parse_whatsapp_roundtrip [OF v] v s by simp
qed

end
