(* ===== verification/Normalizer.thy ===== *)
theory Normalizer
  imports Message "HOL-Library.Sublist"
begin

text \<open>
  The message normaliser of the pipeline: \<open>WhatsAppProcessor.is_system_message\<close>,
  \<open>WhatsAppProcessor.clean_message\<close> and the filtering loop at the start of
  \<open>create_whatsapp_database\<close> (teste.py). Each raw record's message is stripped;
  an empty one is counted as empty, a system notice as system, and every other one is
  cleaned and kept with its position in the input.

  The five regular expressions of \<open>is_system_message\<close> are applied with \<open>re.match\<close>
  to a string that is already stripped, so each reduces to a condition on the string:
  \<open>^\s*\[.*\]\s*$\<close> holds when the string starts with \<open>[\<close>, ends with \<open>]\<close> and has no
  line feed between (\<open>.\<close> does not match a line feed); \<open>^.* saiu$\<close> when it ends with
  \<open>" saiu"\<close> and has no line feed; \<open>^.* mudou .*para.*$\<close> when it has no line feed and
  \<open>"para"\<close> occurs after an occurrence of \<open>" mudou "\<close>; the other two are equalities.
\<close>

section \<open>is_system_message\<close>

definition system_messages :: "pystr list" where
  "system_messages =
    [ustr ''mensagem apagada'', ustr ''media omitted'', ustr ''audio omitted'',
     ustr ''image omitted'', ustr ''document omitted'', ustr ''video omitted'',
     ustr ''sticker omitted'', ustr ''gif omitted'', ustr ''contact card omitted'',
     ustr ''location omitted'', ustr ''voc'' @ [234] @ ustr '' foi adicionado'',
     ustr ''saiu'', ustr ''entrou no grupo'', ustr ''mudou o assunto'',
     ustr ''mudou a descri'' @ [231, 227] @ ustr ''o'',
     ustr ''criou o grupo'', ustr ''removeu'', ustr ''adicionado'', ustr ''chamada de voz'',
     ustr ''chamada de v'' @ [237] @ ustr ''deo'', ustr ''perdida'', ustr ''ocupado'',
     ustr ''rejeitada'']"

text \<open>\<open>ys\<close> occurs in \<open>xs\<close> at a position from \<open>i\<close> on.\<close>

definition occurs_from :: "pystr \<Rightarrow> nat \<Rightarrow> pystr \<Rightarrow> bool" where
  "occurs_from ys i xs \<longleftrightarrow> list_ex (\<lambda>j. take (length ys) (drop j xs) = ys) [i..<Suc (length xs)]"

definition system_patterns :: "pystr \<Rightarrow> bool" where
  "system_patterns s \<longleftrightarrow>
     (2 \<le> length s \<and> hd s = 91 \<and> last s = 93 \<and> 10 \<notin> set (butlast (tl s))) \<or>
     s = ustr ''chamada perdida'' \<or> s = ustr ''chamada rejeitada'' \<or>
     s = ustr ''voc'' @ [234] @ ustr '' foi adicionado'' \<or>
     (10 \<notin> set s \<and> suffix (ustr '' saiu'') s) \<or>
     (10 \<notin> set s \<and>
      list_ex (\<lambda>i. take 7 (drop i s) = ustr '' mudou '' \<and> occurs_from (ustr ''para'') (i + 7) s)
        [0..<length s])"

definition is_system_message :: "pystr \<Rightarrow> bool" where
  "is_system_message msg =
     (if msg = [] \<or> length (py_strip msg) < 2 then True
      else let message_lower = py_strip (py_lower msg)
           in list_ex (\<lambda>sys_msg. message_lower = sys_msg \<or> prefix sys_msg message_lower) system_messages \<or>
              system_patterns message_lower)"

section \<open>clean_message\<close>

text \<open>The class \<open>[\x00-\x08\x0b\x0c\x0e-\x1f\x7f]\<close>.\<close>

definition is_control :: "nat \<Rightarrow> bool" where
  "is_control c \<longleftrightarrow> c \<le> 8 \<or> c = 11 \<or> c = 12 \<or> (14 \<le> c \<and> c \<le> 31) \<or> c = 127"

text \<open>\<open>re.sub(r'\s+', ' ', message)\<close>: every maximal run of whitespace becomes one space.\<close>

function collapse_ws :: "pystr \<Rightarrow> pystr" where
  "collapse_ws [] = []"
| "collapse_ws (c # cs) =
     (if is_py_space c then 32 # collapse_ws (dropWhile is_py_space cs) else c # collapse_ws cs)"
  by pat_completeness auto
termination
  by (relation "measure length") (auto simp: le_imp_less_Suc length_dropWhile_le)

text \<open>
  A match of \<open>http[s]?://[^\s]{100,}\<close> at the start of a string: its length, the
  scheme and the whole run of non-space characters after it (the repetition is greedy).
\<close>

definition long_url_at :: "pystr \<Rightarrow> nat option" where
  "long_url_at s =
     (let pre = (if take 8 s = ustr ''https://'' then 8 else if take 7 s = ustr ''http://'' then 7 else 0);
          run = length (takeWhile (\<lambda>c. \<not> is_py_space c) (drop pre s))
      in if pre \<noteq> 0 \<and> 100 \<le> run then Some (pre + run) else None)"

function replace_long_urls :: "pystr \<Rightarrow> pystr" where
  "replace_long_urls [] = []"
| "replace_long_urls (c # cs) =
     (case long_url_at (c # cs) of
        Some n \<Rightarrow> ustr ''[link_longo]'' @ replace_long_urls (drop n (c # cs))
      | None \<Rightarrow> c # replace_long_urls cs)"
  by pat_completeness auto
termination
  by (relation "measure length") (auto simp: long_url_at_def Let_def split: if_splits)

definition clean_message :: "pystr \<Rightarrow> pystr" where
  "clean_message msg =
     (if msg = [] then []
      else let m1 = filter (\<lambda>c. \<not> is_control c) msg;
               m2 = collapse_ws m1;
               m3 = (if 200 < length m2 \<and> occurs_from (ustr ''http'') 0 m2
                     then replace_long_urls m2 else m2)
           in py_strip m3)"

section \<open>The filtering loop\<close>

record filter_state =
  valid_messages :: "wmsg list"
  system_count :: nat
  empty_count :: nat

definition filter_init :: filter_state where
  "filter_init = \<lparr>valid_messages = [], system_count = 0, empty_count = 0\<rparr>"

definition filter_step :: "filter_state \<Rightarrow> nat \<times> raw_item \<Rightarrow> filter_state" where
  "filter_step st ii =
     (let (i, item) = ii;
          auth = (case item_author item of None \<Rightarrow> ustr ''Desconhecido'' | Some a \<Rightarrow> a);
          msg = py_strip (case item_message item of None \<Rightarrow> [] | Some m \<Rightarrow> m);
          ts = (case item_timestamp item of None \<Rightarrow> [] | Some t \<Rightarrow> t)
      in if length msg < 1 then st\<lparr>empty_count := Suc (empty_count st)\<rparr>
         else if is_system_message msg then st\<lparr>system_count := Suc (system_count st)\<rparr>
         else st\<lparr>valid_messages := valid_messages st @
                   [\<lparr>author = auth, message = clean_message msg, original_message = msg,
                     timestamp = ts, msg_index = i\<rparr>]\<rparr>)"

definition filter_messages :: "raw_item list \<Rightarrow> filter_state" where
  "filter_messages data = foldl filter_step filter_init (enumerate 0 data)"

section \<open>Specification predicates\<close>

text \<open>
  The normal form the cleaning promises: only non-control characters, the single space
  as the only whitespace, never two spaces in a row (\<open>ws_ok\<close>), and no whitespace
  at either end (\<open>clean_form\<close>).
\<close>

fun no_double_space :: "pystr \<Rightarrow> bool" where
  "no_double_space (a # b # cs) = (\<not> (a = 32 \<and> b = 32) \<and> no_double_space (b # cs))"
| "no_double_space _ = True"

definition ws_ok :: "pystr \<Rightarrow> bool" where
  "ws_ok s \<longleftrightarrow>
     (\<forall>c\<in>set s. \<not> is_control c \<and> (is_py_space c \<longrightarrow> c = 32)) \<and> no_double_space s"

definition clean_form :: "pystr \<Rightarrow> bool" where
  "clean_form s \<longleftrightarrow>
     ws_ok s \<and> (s \<noteq> [] \<longrightarrow> \<not> is_py_space (hd s) \<and> \<not> is_py_space (last s))"

text \<open>
  What the filtering loop promises, said without the loop: the stripped text of a record,
  the message the loop keeps for a record, and the three outcomes as filters over the
  enumerated input.
\<close>

definition raw_text :: "raw_item \<Rightarrow> pystr" where
  "raw_text item = py_strip (case item_message item of None \<Rightarrow> [] | Some m \<Rightarrow> m)"

definition kept_message :: "nat \<times> raw_item \<Rightarrow> wmsg" where
  "kept_message ii =
     (let (i, item) = ii
      in \<lparr>author = (case item_author item of None \<Rightarrow> ustr ''Desconhecido'' | Some a \<Rightarrow> a),
          message = clean_message (raw_text item), original_message = raw_text item,
          timestamp = (case item_timestamp item of None \<Rightarrow> [] | Some t \<Rightarrow> t), msg_index = i\<rparr>)"

definition filter_spec :: "raw_item list \<Rightarrow> filter_state" where
  "filter_spec data =
     \<lparr>valid_messages =
        map kept_message
          (filter (\<lambda>(i, item). raw_text item \<noteq> [] \<and> \<not> is_system_message (raw_text item)) (enumerate 0 data)),
      system_count = length (filter (\<lambda>item. raw_text item \<noteq> [] \<and> is_system_message (raw_text item)) data),
      empty_count = length (filter (\<lambda>item. raw_text item = []) data)\<rparr>"

section \<open>Lemmas: the cleaning steps\<close>

lemma space32 [simp]: "is_py_space 32" "\<not> is_control 32"
  by (simp_all add: is_py_space_def is_control_def)

lemma collapse_ws_Nil_iff [simp]: "collapse_ws s = [] \<longleftrightarrow> s = []"
  by (cases s) simp_all

lemma hd_collapse_ws:
  "s \<noteq> [] \<Longrightarrow> hd (collapse_ws s) = (if is_py_space (hd s) then 32 else hd s)"
  by (cases s) simp_all

lemma set_collapse_ws: "set (collapse_ws s) \<subseteq> insert 32 (set s)"
  by (induction s rule: collapse_ws.induct) (auto dest: set_dropWhileD)

lemma collapse_ws_spaces: "c \<in> set (collapse_ws s) \<Longrightarrow> is_py_space c \<Longrightarrow> c = 32"
  by (induction s rule: collapse_ws.induct) (auto split: if_splits dest: set_dropWhileD)

lemma no_double_space_Cons:
  "no_double_space (a # s) \<longleftrightarrow> no_double_space s \<and> (s \<noteq> [] \<longrightarrow> \<not> (a = 32 \<and> hd s = 32))"
  by (cases s) auto

lemma no_double_space_collapse_ws: "no_double_space (collapse_ws s)"
proof (induction s rule: collapse_ws.induct)
  case 1
  then show ?case by simp
next
  case (2 c cs)
  show ?case
  proof (cases "is_py_space c")
    case True
    let ?d = "dropWhile is_py_space cs"
    have "hd (collapse_ws ?d) \<noteq> 32" if "?d \<noteq> []"
    proof -
      have "\<not> is_py_space (hd ?d)" using that by (rule hd_dropWhile)
      then show ?thesis using that by (auto simp: hd_collapse_ws)
    qed
    with True "2.IH"(1) show ?thesis
      by (simp add: no_double_space_Cons)
  next
    case False
    with "2.IH"(2) show ?thesis
      by (auto simp: no_double_space_Cons hd_collapse_ws)
  qed
qed

lemma length_collapse_ws: "length (collapse_ws s) \<le> length s"
  by (induction s rule: collapse_ws.induct) (auto intro: le_trans [OF _ length_dropWhile_le])

lemma no_double_space_append:
  "no_double_space (xs @ ys) \<longleftrightarrow>
     no_double_space xs \<and> no_double_space ys \<and> (xs \<noteq> [] \<and> ys \<noteq> [] \<longrightarrow> \<not> (last xs = 32 \<and> hd ys = 32))"
  by (induction xs) (auto simp: no_double_space_Cons)

lemma last_dropWhile: "dropWhile P xs \<noteq> [] \<Longrightarrow> last (dropWhile P xs) = last xs"
  by (induction xs) auto

lemma py_strip_infix: "\<exists>a b. s = a @ py_strip s @ b"
proof -
  obtain a where a: "s = a @ dropWhile is_py_space s"
    by (metis takeWhile_dropWhile_id)
  obtain b where b: "rev (dropWhile is_py_space s) = b @ dropWhile is_py_space (rev (dropWhile is_py_space s))"
    by (metis takeWhile_dropWhile_id)
  have "dropWhile is_py_space s = py_strip s @ rev b"
    by (metis b py_strip_def rev_append rev_rev_ident)
  with a show ?thesis by auto
qed

lemma py_strip_ends:
  assumes "py_strip s \<noteq> []"
  shows "\<not> is_py_space (hd (py_strip s))" "\<not> is_py_space (last (py_strip s))"
proof -
  let ?t = "dropWhile is_py_space s"
  let ?u = "dropWhile is_py_space (rev ?t)"
  have u: "?u \<noteq> []" using assms by (simp add: py_strip_def)
  then have t: "?t \<noteq> []" by (metis dropWhile.simps(1) rev.simps(1))
  have "hd (py_strip s) = last ?u" using u by (simp add: py_strip_def hd_rev)
  also have "\<dots> = hd ?t" using u t by (simp add: last_dropWhile last_rev)
  finally show "\<not> is_py_space (hd (py_strip s))" using t by (simp add: hd_dropWhile)
  have "last (py_strip s) = hd ?u" using u by (simp add: py_strip_def last_rev)
  then show "\<not> is_py_space (last (py_strip s))" using u by (simp add: hd_dropWhile)
qed

lemma link_longo_chars:
  "c \<in> set (ustr ''[link_longo]'') \<Longrightarrow> \<not> is_control c \<and> \<not> is_py_space c"
  by (auto simp: is_control_def is_py_space_def)

lemma long_url_at_Some: "long_url_at s = Some n \<Longrightarrow> 107 \<le> n \<and> n \<le> length s"
proof -
  have run: "length (takeWhile P (drop k s)) \<le> length s - k" for P k
    by (metis length_drop length_takeWhile_le)
  have pre: "take k s = xs \<Longrightarrow> length xs = k \<Longrightarrow> k \<le> length s" for k xs
    by auto
  assume "long_url_at s = Some n"
  then show ?thesis
    using run [of "\<lambda>c. \<not> is_py_space c" 8] run [of "\<lambda>c. \<not> is_py_space c" 7]
    by (auto simp: long_url_at_def Let_def split: if_splits dest!: arg_cong [where f = length])
qed

lemma replace_long_urls_Nil_iff [simp]: "replace_long_urls s = [] \<longleftrightarrow> s = []"
  by (cases s) (auto split: option.splits)

lemma hd_replace_long_urls:
  "s \<noteq> [] \<Longrightarrow> hd (replace_long_urls s) = 32 \<Longrightarrow> hd s = 32"
  by (cases s) (auto split: option.splits)

lemma set_replace_long_urls:
  "set (replace_long_urls s) \<subseteq> set s \<union> set (ustr ''[link_longo]'')"
proof (induction s rule: replace_long_urls.induct)
  case (2 c cs)
  have "set (drop n (c # cs)) \<subseteq> set (c # cs)" for n
    by (rule set_drop_subset)
  with "2.IH" show ?case by (fastforce split: option.splits)
qed simp

lemma no_double_space_drop: "no_double_space s \<Longrightarrow> no_double_space (drop n s)"
  by (metis append_take_drop_id no_double_space_append)

lemma no_double_space_replace_long_urls:
  "no_double_space s \<Longrightarrow> no_double_space (replace_long_urls s)"
proof (induction s rule: replace_long_urls.induct)
  case 1
  then show ?case by simp
next
  case (2 c cs)
  show ?case
  proof (cases "long_url_at (c # cs)")
    case None
    have "no_double_space cs" using "2.prems" by (simp add: no_double_space_Cons)
    with "2.IH"(1) [OF None] None "2.prems" show ?thesis
      by (auto simp: no_double_space_Cons dest: hd_replace_long_urls)
  next
    case (Some n)
    with "2.IH"(2) [OF Some] "2.prems" show ?thesis
      by (simp add: no_double_space_Cons no_double_space_drop)
  qed
qed

lemma length_replace_long_urls: "length (replace_long_urls s) \<le> length s"
proof (induction s rule: replace_long_urls.induct)
  case 1
  then show ?case by simp
next
  case (2 c cs)
  show ?case
  proof (cases "long_url_at (c # cs)")
    case None
    with "2.IH"(1) [OF None] None show ?thesis by simp
  next
    case (Some n)
    with long_url_at_Some have "107 \<le> n" "n \<le> length (c # cs)" by blast+
    with Some "2.IH"(2) [OF Some] show ?thesis by simp
  qed
qed

lemma ws_ok_infix: "ws_ok (a @ t @ b) \<Longrightarrow> ws_ok t"
  unfolding ws_ok_def by (simp add: no_double_space_append)

lemma ws_ok_py_strip: "ws_ok s \<Longrightarrow> clean_form (py_strip s)"
proof -
  assume ok: "ws_ok s"
  obtain a b where "s = a @ py_strip s @ b"
    using py_strip_infix by blast
  with ok have "ws_ok (py_strip s)"
    by (metis ws_ok_infix)
  then show ?thesis
    by (simp add: clean_form_def py_strip_ends)
qed

lemma ws_ok_collapse_ws: "ws_ok (collapse_ws (filter (\<lambda>c. \<not> is_control c) msg))"
proof -
  let ?m = "filter (\<lambda>c. \<not> is_control c) msg"
  have "\<not> is_control c \<and> (is_py_space c \<longrightarrow> c = 32)" if c: "c \<in> set (collapse_ws ?m)" for c
  proof -
    have "c \<in> insert 32 (set ?m)"
      using c set_collapse_ws [of ?m] by (rule subsetD [rotated])
    then have "\<not> is_control c" by auto
    moreover have "is_py_space c \<longrightarrow> c = 32"
      using collapse_ws_spaces [OF c] by (rule impI)
    ultimately show ?thesis ..
  qed
  then show ?thesis
    unfolding ws_ok_def using no_double_space_collapse_ws [of ?m] by blast
qed

lemma ws_ok_replace_long_urls: "ws_ok s \<Longrightarrow> ws_ok (replace_long_urls s)"
proof -
  assume ok: "ws_ok s"
  have "\<not> is_control c \<and> (is_py_space c \<longrightarrow> c = 32)" if c: "c \<in> set (replace_long_urls s)" for c
  proof -
    have "c \<in> set s \<or> c \<in> set (ustr ''[link_longo]'')"
      using c set_replace_long_urls by blast
    then show ?thesis
      using ok link_longo_chars unfolding ws_ok_def by blast
  qed
  with ok show ?thesis
    by (simp add: ws_ok_def no_double_space_replace_long_urls)
qed

lemma length_py_strip: "length (py_strip s) \<le> length s"
proof -
  obtain a b where "s = a @ py_strip s @ b"
    using py_strip_infix by blast
  then have "length s = length a + length (py_strip s) + length b"
    by (metis length_append add.assoc)
  then show ?thesis by linarith
qed

section \<open>Lemmas: the filtering loop\<close>

lemma foldl_filter_step:
  "foldl filter_step st (enumerate n data) =
     st\<lparr>valid_messages := valid_messages st @
          map kept_message
            (filter (\<lambda>(i, item). raw_text item \<noteq> [] \<and> \<not> is_system_message (raw_text item)) (enumerate n data)),
        system_count := system_count st +
          length (filter (\<lambda>item. raw_text item \<noteq> [] \<and> is_system_message (raw_text item)) data),
        empty_count := empty_count st + length (filter (\<lambda>item. raw_text item = []) data)\<rparr>"
proof (induction data arbitrary: st n)
  case (Cons item data)
  show ?case
    using Cons.IH [of "filter_step st (n, item)" "Suc n"]
    by (auto simp: filter_step_def Let_def raw_text_def kept_message_def)
qed simp

section \<open>Properties\<close>

text \<open>
  C12. Whatever the message, \<open>clean_message\<close> returns text in normal form: no control
  character, the single space as the only whitespace, no two spaces in a row, and no
  whitespace at either end.
\<close>

theorem clean_message_normal_form: "clean_form (clean_message msg)"
proof -
  have empty: "clean_form []"
    by (simp add: clean_form_def ws_ok_def)
  have "ws_ok (collapse_ws (filter (\<lambda>c. \<not> is_control c) msg))"
    by (rule ws_ok_collapse_ws)
  then have "ws_ok (if b then replace_long_urls (collapse_ws (filter (\<lambda>c. \<not> is_control c) msg))
                    else collapse_ws (filter (\<lambda>c. \<not> is_control c) msg))" for b
    by (simp add: ws_ok_replace_long_urls)
  then show ?thesis
    using empty by (simp add: clean_message_def Let_def ws_ok_py_strip)
qed

theorem clean_message_normal_form_witness:
  "clean_form (clean_message (ustr ''  ola\<newline>  mundo ''))"
  by (rule clean_message_normal_form)

text \<open>
  C13. Cleaning never lengthens a message: the long-URL placeholder (12 characters)
  replaces a match of at least 107.
\<close>

theorem clean_message_length: "length (clean_message msg) \<le> length msg"
proof -
  let ?m = "collapse_ws (filter (\<lambda>c. \<not> is_control c) msg)"
  have m: "length ?m \<le> length msg"
    using length_collapse_ws [of "filter (\<lambda>c. \<not> is_control c) msg"] length_filter_le [of _ msg]
    by (rule le_trans)
  have "length (if b then replace_long_urls ?m else ?m) \<le> length msg" for b
    using le_trans [OF length_replace_long_urls m] m by simp
  then have "length (py_strip (if b then replace_long_urls ?m else ?m)) \<le> length msg" for b
    using le_trans [OF length_py_strip] by blast
  then show ?thesis
    by (simp add: clean_message_def Let_def)
qed

text \<open>
  C14. The filtering loop of \<open>create_whatsapp_database\<close> computes its specification:
  it keeps, in input order and with their input positions, exactly the records whose
  stripped text is non-empty and not a system message, with their cleaned text, and
  counts the others as system messages or as empty ones.
\<close>

theorem filter_messages_refines_spec: "filter_messages data = filter_spec data"
  by (simp add: filter_messages_def foldl_filter_step filter_init_def filter_spec_def)

text \<open>
  The specification's system-message examples: \<open>"mensagem apagada"\<close> and the
  one-letter \<open>"k"\<close> are classified as system messages, \<open>"oi"\<close> (two letters) is
  kept; but \<open>"<Media omitted>"\<close>, which the specification lists as dropped, is kept:
  the phrase \<open>"media omitted"\<close> is matched only at the start of the lowered text.
\<close>

theorem system_filter_spec_examples:
  "is_system_message (ustr ''mensagem apagada'') \<and> is_system_message (ustr ''k'') \<and>
   \<not> is_system_message (ustr ''oi'') \<and> \<not> is_system_message (ustr ''<Media omitted>'')"
  by code_simp

text \<open>
  A message made only of control characters is neither empty after \<open>strip\<close> nor a
  system message, so it is kept, and its cleaned text is empty.
\<close>

theorem control_only_message_kept_empty:
  "valid_messages (filter_messages
     [\<lparr>item_author = Some (ustr ''Ana''), item_message = Some [1, 2],
       item_timestamp = Some (ustr ''15/03/2023, 14:30'')\<rparr>]) =
   [\<lparr>author = ustr ''Ana'', message = [], original_message = [1, 2],
     timestamp = ustr ''15/03/2023, 14:30'', msg_index = 0\<rparr>]"
  by code_simp

end
