(* ===== verification/Documents.thy ===== *)
theory Documents
  imports Message Keywords Timestamp
begin

text \<open>
  The document builder of \<open>create_whatsapp_database\<close> (teste.py, step 4): every
  conversation of at least 5 messages and then every overlapping chunk becomes a
  retrieval document, a header block and one line \<open>[timestamp] author: text\<close> per
  message, with metadata. One counter \<open>doc_id\<close> numbers conversations and chunks alike.

  \<open>list(set(authors))\<close> orders the participants by CPython's string hashing, which is
  randomised per process; the builder is therefore parametric in a function
  \<open>set_list\<close> standing for \<open>list(set(...))\<close>, and the lemmas assume only what every run
  satisfies (\<open>set_list_ok\<close>: the same elements, each once).
\<close>

section \<open>Formatting\<close>

text \<open>\<open>str(n)\<close> of a non-negative integer, and \<open>'%0wd' % n\<close>.\<close>

fun py_str_nat :: "nat \<Rightarrow> pystr" where
  "py_str_nat n = (if n < 10 then [48 + n] else py_str_nat (n div 10) @ [48 + n mod 10])"

declare py_str_nat.simps [simp del]

definition py_str_pad :: "nat \<Rightarrow> nat \<Rightarrow> pystr" where
  "py_str_pad w n = replicate (w - length (py_str_nat n)) 48 @ py_str_nat n"

text \<open>\<open>str(dt)\<close>, i.e. \<open>dt.isoformat(' ')\<close>: the microseconds appear only when non-zero.\<close>

definition dt_str :: "datetime \<Rightarrow> pystr" where
  "dt_str dt =
     py_str_pad 4 (dt_year dt) @ [45] @ py_str_pad 2 (dt_month dt) @ [45] @ py_str_pad 2 (dt_day dt) @
     [32] @ py_str_pad 2 (dt_hour dt) @ [58] @ py_str_pad 2 (dt_minute dt) @ [58] @
     py_str_pad 2 (dt_second dt) @
     (if dt_microsecond dt = 0 then [] else [46] @ py_str_pad 6 (dt_microsecond dt))"

section \<open>Documents\<close>

text \<open>
  The metadata dictionary; the two time keys exist only for conversations
  (\<open>None\<close>: the key is absent).
\<close>

record doc_meta =
  md_type :: pystr
  md_doc_id :: pystr
  md_participants :: pystr
  md_message_count :: nat
  md_keywords :: pystr
  md_start_time :: "pystr option"
  md_end_time :: "pystr option"

record document =
  page_content :: pystr
  metadata :: doc_meta

definition msg_line :: "wmsg \<Rightarrow> pystr" where
  "msg_line m = [91] @ timestamp m @ [93, 32] @ author m @ [58, 32] @ message m"

definition conversation_document :: "(pystr list \<Rightarrow> pystr list) \<Rightarrow> nat \<Rightarrow> wmsg list \<Rightarrow> document" where
  "conversation_document set_list doc_id conversation =
     (let participants = set_list (map author conversation);
          valid_timestamps = List.map_filter (\<lambda>m. parse_timestamp (timestamp m)) conversation;
          all_text = py_join [32] (map message conversation);
          keywords = extract_keywords all_text;
          context_lines =
            [ustr ''=== CONVERSA NATURAL #'' @ py_str_nat doc_id @ ustr '' ==='',
             ustr ''Participantes: '' @ py_join (ustr '', '') participants,
             ustr ''Mensagens: '' @ py_str_nat (length conversation),
             ustr ''Palavras-chave: '' @ py_join (ustr '', '') (take 8 keywords),
             []] @ map msg_line conversation;
          meta =
            \<lparr>md_type = ustr ''conversation'', md_doc_id = py_str_nat doc_id,
             md_participants = py_join (ustr '', '') participants,
             md_message_count = length conversation,
             md_keywords = py_join (ustr '', '') (take 10 keywords),
             md_start_time = Some (if valid_timestamps = [] then [] else dt_str (hd valid_timestamps)),
             md_end_time = Some (if valid_timestamps = [] then [] else dt_str (last valid_timestamps))\<rparr>
      in \<lparr>page_content = py_join [10] context_lines, metadata = meta\<rparr>)"

definition chunk_document :: "(pystr list \<Rightarrow> pystr list) \<Rightarrow> nat \<Rightarrow> wmsg list \<Rightarrow> document" where
  "chunk_document set_list doc_id chunk =
     (let participants = set_list (map author chunk);
          all_text = py_join [32] (map message chunk);
          keywords = extract_keywords all_text;
          context_lines =
            [ustr ''=== CHUNK #'' @ py_str_nat doc_id @ ustr '' ==='',
             ustr ''Participantes: '' @ py_join (ustr '', '') participants,
             ustr ''Mensagens: '' @ py_str_nat (length chunk),
             ustr ''Palavras-chave: '' @ py_join (ustr '', '') (take 5 keywords),
             []] @ map msg_line chunk;
          meta =
            \<lparr>md_type = ustr ''chunk'', md_doc_id = py_str_nat doc_id,
             md_participants = py_join (ustr '', '') participants,
             md_message_count = length chunk,
             md_keywords = py_join (ustr '', '') (take 10 keywords),
             md_start_time = None, md_end_time = None\<rparr>
      in \<lparr>page_content = py_join [10] context_lines, metadata = meta\<rparr>)"

section \<open>The two loops and the shared counter\<close>

record build_state =
  documents :: "document list"
  doc_id :: nat

definition build_init :: build_state where
  "build_init = \<lparr>documents = [], doc_id = 0\<rparr>"

definition conversation_step :: "(pystr list \<Rightarrow> pystr list) \<Rightarrow> build_state \<Rightarrow> wmsg list \<Rightarrow> build_state" where
  "conversation_step set_list st conversation =
     (if length conversation < 5 then st
      else \<lparr>documents = documents st @ [conversation_document set_list (doc_id st) conversation],
            doc_id = Suc (doc_id st)\<rparr>)"

definition chunk_step :: "(pystr list \<Rightarrow> pystr list) \<Rightarrow> build_state \<Rightarrow> wmsg list \<Rightarrow> build_state" where
  "chunk_step set_list st chunk =
     \<lparr>documents = documents st @ [chunk_document set_list (doc_id st) chunk],
      doc_id = Suc (doc_id st)\<rparr>"

definition build_documents ::
  "(pystr list \<Rightarrow> pystr list) \<Rightarrow> wmsg list list \<Rightarrow> wmsg list list \<Rightarrow> document list" where
  "build_documents set_list conversations chunks =
     documents (foldl (chunk_step set_list) (foldl (conversation_step set_list) build_init conversations) chunks)"

section \<open>Specification predicates\<close>

text \<open>What every evaluation of \<open>list(set(xs))\<close> returns: the elements of \<open>xs\<close>, each once.\<close>

definition set_list_ok :: "(pystr list \<Rightarrow> pystr list) \<Rightarrow> bool" where
  "set_list_ok set_list \<longleftrightarrow> (\<forall>xs. set (set_list xs) = set xs \<and> distinct (set_list xs))"

section \<open>Lemmas\<close>

lemma py_str_nat_digits: "set (py_str_nat n) \<subseteq> {48..57}"
  by (induction n rule: py_str_nat.induct) (subst py_str_nat.simps, auto)

lemma py_str_nat_ne [simp]: "py_str_nat n \<noteq> []"
  by (subst py_str_nat.simps) simp

lemma foldl_digits: "foldl (\<lambda>acc c. 10 * acc + (c - 48)) 0 (py_str_nat n) = n"
proof (induction n rule: py_str_nat.induct)
  case (1 n)
  then show ?case by (subst py_str_nat.simps) auto
qed

lemma dropWhile_py_str_nat [simp]: "dropWhile is_py_space (py_str_nat n) = py_str_nat n"
proof -
  have "hd (py_str_nat n) \<in> {48..57}"
    using py_str_nat_digits [of n] hd_in_set [OF py_str_nat_ne [of n]] by blast
  then have "\<not> is_py_space (hd (py_str_nat n))"
    by (auto simp: is_py_space_def)
  then show ?thesis
    by (cases "py_str_nat n") simp_all
qed

lemma py_int_py_str_nat: "py_int (py_str_nat n) = n"
  by (simp add: py_int_def foldl_digits)

lemma inj_py_str_nat: "inj py_str_nat"
  by (metis injI py_int_py_str_nat)

lemma nl_notin_py_str_nat [simp]: "10 \<notin> set (py_str_nat n)"
  using py_str_nat_digits [of n] by auto

lemma py_str_pad_ne [simp]: "py_str_pad w n \<noteq> []"
  by (simp add: py_str_pad_def)

lemma dt_str_ne [simp]: "dt_str dt \<noteq> []"
  by (simp add: dt_str_def)

lemma count_py_join_nl:
  "(\<forall>x\<in>set xs. c \<notin> set x) \<Longrightarrow> count_list (py_join [c] xs) c = length xs - 1"
  by (induction "[c]" xs rule: py_join.induct) (auto simp: count_list_0_iff)

lemma notin_py_join:
  "(\<forall>x\<in>set xs. c \<notin> set x) \<Longrightarrow> c \<notin> set sep \<Longrightarrow> c \<notin> set (py_join sep xs)"
  by (induction sep xs rule: py_join.induct) auto

lemma word_runs_chars: "w \<in> set (word_runs s) \<Longrightarrow> c \<in> set w \<Longrightarrow> is_word_char c"
  by (induction s rule: word_runs.induct) (auto split: if_splits dest: set_takeWhileD)

lemma nl_notin_keyword: "k \<in> set (extract_keywords t) \<Longrightarrow> 10 \<notin> set k"
proof
  assume "k \<in> set (extract_keywords t)" "10 \<in> set k"
  then have "k \<in> set (word_runs (py_lower t))"
    by (simp add: set_extract_keywords keyword_tokens_def)
  then have "is_word_char 10"
    using \<open>10 \<in> set k\<close> by (rule word_runs_chars)
  then show False by (simp add: is_word_char_def is_ascii_digit_def)
qed

lemma foldl_conversation_step:
  "foldl (conversation_step sl) st convs =
     \<lparr>documents = documents st @ map (\<lambda>(i, c). conversation_document sl i c)
                    (enumerate (doc_id st) (filter (\<lambda>c. 5 \<le> length c) convs)),
      doc_id = doc_id st + length (filter (\<lambda>c. 5 \<le> length c) convs)\<rparr>"
  by (induction convs arbitrary: st) (auto simp: conversation_step_def)

lemma foldl_chunk_step:
  "foldl (chunk_step sl) st chunks =
     \<lparr>documents = documents st @ map (\<lambda>(i, c). chunk_document sl i c) (enumerate (doc_id st) chunks),
      doc_id = doc_id st + length chunks\<rparr>"
  by (induction chunks arbitrary: st) (auto simp: chunk_step_def)

lemma build_documents_eq:
  "build_documents sl convs chunks =
     (let cs = filter (\<lambda>c. 5 \<le> length c) convs
      in map (\<lambda>(i, c). conversation_document sl i c) (enumerate 0 cs) @
         map (\<lambda>(i, c). chunk_document sl i c) (enumerate (length cs) chunks))"
  by (simp add: build_documents_def foldl_chunk_step foldl_conversation_step build_init_def Let_def)

lemma conversation_document_meta [simp]:
  "md_type (metadata (conversation_document sl i c)) = ustr ''conversation''"
  "md_doc_id (metadata (conversation_document sl i c)) = py_str_nat i"
  "md_participants (metadata (conversation_document sl i c)) = py_join (ustr '', '') (sl (map author c))"
  "md_message_count (metadata (conversation_document sl i c)) = length c"
  by (simp_all add: conversation_document_def Let_def)

lemma chunk_document_meta [simp]:
  "md_type (metadata (chunk_document sl i c)) = ustr ''chunk''"
  "md_doc_id (metadata (chunk_document sl i c)) = py_str_nat i"
  "md_participants (metadata (chunk_document sl i c)) = py_join (ustr '', '') (sl (map author c))"
  "md_message_count (metadata (chunk_document sl i c)) = length c"
  by (simp_all add: chunk_document_def Let_def)

lemma conversation_doc_ids:
  "map (\<lambda>d. md_doc_id (metadata d)) (map (\<lambda>(i, c). conversation_document sl i c) (enumerate n xs)) =
     map py_str_nat [n..<n + length xs]"
  by (induction xs arbitrary: n) (simp_all del: upt_Suc add: upt_conv_Cons)

lemma chunk_doc_ids:
  "map (\<lambda>d. md_doc_id (metadata d)) (map (\<lambda>(i, c). chunk_document sl i c) (enumerate n xs)) =
     map py_str_nat [n..<n + length xs]"
  by (induction xs arbitrary: n) (simp_all del: upt_Suc add: upt_conv_Cons)

lemma length_build_documents:
  "length (build_documents sl convs chunks) = length (filter (\<lambda>c. 5 \<le> length c) convs) + length chunks"
  by (simp add: build_documents_eq Let_def)

lemma doc_ids_build:
  "map (\<lambda>d. md_doc_id (metadata d)) (build_documents sl convs chunks) =
     map py_str_nat [0..<length (build_documents sl convs chunks)]"
proof -
  let ?a = "length (filter (\<lambda>c. 5 \<le> length c) convs)" and ?b = "length chunks"
  have "map (\<lambda>d. md_doc_id (metadata d)) (build_documents sl convs chunks) =
        map py_str_nat [0..<?a] @ map py_str_nat [?a..<?a + ?b]"
    unfolding build_documents_eq Let_def map_append conversation_doc_ids chunk_doc_ids by simp
  also have "\<dots> = map py_str_nat [0..<?a + ?b]"
    using upt_add_eq_append [of 0 ?a ?b] by simp
  finally show ?thesis
    by (simp add: length_build_documents)
qed

lemma py_int_pad: "py_int (replicate k 48 @ py_str_nat n) = n"
proof -
  have "foldl (\<lambda>acc c. 10 * acc + (c - 48)) 0 (replicate k 48 @ s) =
        foldl (\<lambda>acc c. 10 * acc + (c - 48)) 0 s" for s :: pystr
    by (induction k) simp_all
  moreover have "dropWhile is_py_space (replicate k 48 @ py_str_nat n) = replicate k 48 @ py_str_nat n"
    by (cases k) (simp_all add: is_py_space_def)
  ultimately show ?thesis
    by (simp add: py_int_def foldl_digits)
qed

lemma set_list_ok_remdups: "set_list_ok remdups"
  by (simp add: set_list_ok_def)

lemma set_list_ok_rev_remdups: "set_list_ok (\<lambda>xs. rev (remdups xs))"
  by (simp add: set_list_ok_def)

lemma nl_notin_msg_line:
  "10 \<notin> set (timestamp m) \<Longrightarrow> 10 \<notin> set (author m) \<Longrightarrow> 10 \<notin> set (message m) \<Longrightarrow>
   10 \<notin> set (msg_line m)"
  by (simp add: msg_line_def)

lemma nl_notin_participants:
  "set_list_ok sl \<Longrightarrow> \<forall>m\<in>set c. 10 \<notin> set (author m) \<Longrightarrow>
   10 \<notin> set (py_join (ustr '', '') (sl (map author c)))"
  by (rule notin_py_join) (auto simp: set_list_ok_def)

lemma nl_notin_keywords:
  "10 \<notin> set sep \<Longrightarrow> 10 \<notin> set (py_join sep (take k (extract_keywords t)))"
  by (rule notin_py_join) (auto dest: in_set_takeD nl_notin_keyword)

section \<open>Properties\<close>

text \<open>
  C15. The shared counter: reading back the \<open>doc_id\<close> of the documents gives
  \<open>0, 1, 2, ...\<close> in order over conversations and chunks together, so no two documents
  of a run share an id.
\<close>

theorem doc_ids_unique_sequential:
  "map (\<lambda>d. py_int (md_doc_id (metadata d))) (build_documents sl convs chunks) =
     [0..<length (build_documents sl convs chunks)] \<and>
   distinct (map (\<lambda>d. md_doc_id (metadata d)) (build_documents sl convs chunks))"
proof -
  have ids: "map (\<lambda>d. md_doc_id (metadata d)) (build_documents sl convs chunks) =
     map py_str_nat [0..<length (build_documents sl convs chunks)]"
    by (rule doc_ids_build)
  have "map (\<lambda>d. py_int (md_doc_id (metadata d))) (build_documents sl convs chunks) =
        map py_int (map (\<lambda>d. md_doc_id (metadata d)) (build_documents sl convs chunks))"
    by simp
  also have "\<dots> = [0..<length (build_documents sl convs chunks)]"
    by (simp add: ids comp_def py_int_py_str_nat)
  finally show ?thesis
    using ids inj_py_str_nat by (simp add: distinct_map inj_on_def)
qed

text \<open>
  C16. The documents are one per conversation of at least 5 messages, in order, followed
  by one per chunk.
\<close>

theorem documents_layout:
  "map (\<lambda>d. md_type (metadata d)) (build_documents sl convs chunks) =
     replicate (length (filter (\<lambda>c. 5 \<le> length c) convs)) (ustr ''conversation'') @
     replicate (length chunks) (ustr ''chunk'')"
  by (simp add: build_documents_eq Let_def case_prod_unfold comp_def map_replicate_const)

text \<open>
  The order of the participants is not determined by the conversation: two
  evaluations of \<open>list(set(...))\<close> that both return each author once give
  \<open>"Bia, Ana"\<close> and \<open>"Ana, Bia"\<close> for the same conversation, where the
  specification asks for first-seen order.
\<close>

theorem participants_order_unspecified:
  "set_list_ok remdups \<and> set_list_ok (\<lambda>xs. rev (remdups xs)) \<and>
   md_participants (metadata (conversation_document remdups 0
     (map (\<lambda>a. \<lparr>author = ustr a, message = ustr ''oi'', original_message = ustr ''oi'',
                  timestamp = ustr ''15/03/2023, 14:30'', msg_index = 0\<rparr>) [''Ana'', ''Bia'', ''Ana'', ''Bia'', ''Ana'']))) =
     ustr ''Bia, Ana'' \<and>
   md_participants (metadata (conversation_document (\<lambda>xs. rev (remdups xs)) 0
     (map (\<lambda>a. \<lparr>author = ustr a, message = ustr ''oi'', original_message = ustr ''oi'',
                  timestamp = ustr ''15/03/2023, 14:30'', msg_index = 0\<rparr>) [''Ana'', ''Bia'', ''Ana'', ''Bia'', ''Ana'']))) =
     ustr ''Ana, Bia''"
  by (simp add: set_list_ok_remdups set_list_ok_rev_remdups)

text \<open>
  C17. When no timestamp, author or text contains a line feed, a conversation document is
  the 5 header lines and exactly one line per message.
\<close>

theorem one_line_per_message:
  assumes "set_list_ok sl"
    and "\<forall>m\<in>set c. 10 \<notin> set (timestamp m) \<and> 10 \<notin> set (author m) \<and> 10 \<notin> set (message m)"
  shows "count_list (page_content (conversation_document sl i c)) 10 = 4 + length c"
proof -
  have "\<forall>m\<in>set c. 10 \<notin> set (author m)" using assms(2) by blast
  then have "10 \<notin> set (py_join (ustr '', '') (sl (map author c)))"
    using assms(1) by (rule nl_notin_participants [rotated])
  moreover have "\<forall>x\<in>set (map msg_line c). 10 \<notin> set x"
    using assms(2) nl_notin_msg_line by auto
  ultimately show ?thesis
    by (simp add: conversation_document_def Let_def count_py_join_nl nl_notin_keywords count_list_0_iff)
qed

theorem one_line_per_message_witness:
  "count_list (page_content (conversation_document remdups 0 (map (\<lambda>a. \<lparr>author = ustr a, message = ustr ''oi'', original_message = ustr ''oi'',
                  timestamp = ustr ''15/03/2023, 14:30'', msg_index = 0\<rparr>) [''Ana'', ''Bia'', ''Ana'', ''Bia'', ''Ana'']))) 10 =
   4 + length (map (\<lambda>a. \<lparr>author = ustr a, message = ustr ''oi'', original_message = ustr ''oi'',
                  timestamp = ustr ''15/03/2023, 14:30'', msg_index = 0\<rparr>) [''Ana'', ''Bia'', ''Ana'', ''Bia'', ''Ana''])"
proof -
  have h: "\<forall>m\<in>set (map (\<lambda>a. \<lparr>author = ustr a, message = ustr ''oi'', original_message = ustr ''oi'',
                  timestamp = ustr ''15/03/2023, 14:30'', msg_index = 0\<rparr>) [''Ana'', ''Bia'', ''Ana'', ''Bia'', ''Ana'']). 10 \<notin> set (timestamp m) \<and> 10 \<notin> set (author m) \<and> 10 \<notin> set (message m)"
    by simp
  show ?thesis
    using one_line_per_message [OF set_list_ok_remdups h, of 0] set_list_ok_remdups h by blast
qed

text \<open>
  C18. The time range of a conversation document is empty exactly when none of its
  timestamps parses: a missing time never fails the build.
\<close>

theorem conversation_times:
  "(md_start_time (metadata (conversation_document sl i c)) = Some [] \<longleftrightarrow>
      (\<forall>m\<in>set c. parse_timestamp (timestamp m) = None)) \<and>
   (md_end_time (metadata (conversation_document sl i c)) = Some [] \<longleftrightarrow>
      (\<forall>m\<in>set c. parse_timestamp (timestamp m) = None))"
  by (auto simp: conversation_document_def Let_def List.map_filter_def filter_empty_conv)

theorem conversation_times_witness:
  "md_start_time (metadata (conversation_document remdups 0 (map (\<lambda>a. \<lparr>author = ustr a, message = ustr ''oi'', original_message = ustr ''oi'',
                  timestamp = [], msg_index = 0\<rparr>) [''Ana'', ''Bia'', ''Ana'', ''Bia'', ''Ana'']))) = Some [] \<and>
   md_end_time (metadata (conversation_document remdups 0 (map (\<lambda>a. \<lparr>author = ustr a, message = ustr ''oi'', original_message = ustr ''oi'',
                  timestamp = [], msg_index = 0\<rparr>) [''Ana'', ''Bia'', ''Ana'', ''Bia'', ''Ana'']))) = Some []"
proof -
  have h: "\<forall>m\<in>set (map (\<lambda>a. \<lparr>author = ustr a, message = ustr ''oi'', original_message = ustr ''oi'',
                  timestamp = [], msg_index = 0\<rparr>) [''Ana'', ''Bia'', ''Ana'', ''Bia'', ''Ana'']). parse_timestamp (timestamp m) = None"
    by (simp add: parse_timestamp_def)
  show ?thesis
    using conversation_times [of remdups 0 "(map (\<lambda>a. \<lparr>author = ustr a, message = ustr ''oi'', original_message = ustr ''oi'',
                  timestamp = [], msg_index = 0\<rparr>) [''Ana'', ''Bia'', ''Ana'', ''Bia'', ''Ana''])"] h by blast
qed

end
