(* ===== verification/Ingestion.thy ===== *)
theory Ingestion
  imports Prelude
begin

text \<open>
  The batched submission of the documents to the vector store: step 5 of
  \<open>create_whatsapp_database\<close> (teste.py) and the two older
  \<open>create_vector_database_with_logging\<close> (rag.py, app.py). The store is external: a
  call of \<open>Chroma.from_documents\<close> or \<open>add_documents\<close> either adds its whole batch
  or raises. Which calls raise is a parameter \<open>fails\<close>, keyed by the index of the
  batch's first document, so that the three variants can be compared on one failure
  pattern. A store is the list of the documents it holds, in insertion order; the
  document type is a type variable.
\<close>

section \<open>teste.py: first batch fatal, later batches skipped\<close>

definition total_batches :: "nat \<Rightarrow> nat \<Rightarrow> nat" where
  "total_batches n batch_size = (n + batch_size - 1) div batch_size"

definition ingest_step :: "(nat \<Rightarrow> bool) \<Rightarrow> 'd list \<Rightarrow> 'd list \<Rightarrow> nat \<Rightarrow> 'd list" where
  "ingest_step fails documents vector_db batch_num =
     (let batch_size = 10;
          start_idx = batch_num * batch_size;
          end_idx = min (start_idx + batch_size) (length documents)
      in if fails start_idx then vector_db
         else vector_db @ py_slice documents (int start_idx) (int end_idx))"

definition ingest_documents :: "(nat \<Rightarrow> bool) \<Rightarrow> 'd list \<Rightarrow> 'd list option" where
  "ingest_documents fails documents =
     (let batch_size = 10
      in if fails 0 then None
         else Some (foldl (ingest_step fails documents) (py_slice documents 0 (int batch_size))
                      [1..<total_batches (length documents) batch_size]))"

section \<open>rag.py: every failure raises\<close>

fun add_batches_raise :: "(nat \<Rightarrow> bool) \<Rightarrow> 'd list \<Rightarrow> nat \<Rightarrow> int list \<Rightarrow> 'd list \<Rightarrow> py_error + 'd list" where
  "add_batches_raise fails documents batch_size [] vector_db = Inr vector_db"
| "add_batches_raise fails documents batch_size (i # is) vector_db =
     (if fails (nat i) then Inl StoreError
      else add_batches_raise fails documents batch_size is
             (vector_db @ py_slice documents i (i + int batch_size)))"

definition rag_create_vector_database :: "(nat \<Rightarrow> bool) \<Rightarrow> 'd list \<Rightarrow> py_error + 'd list" where
  "rag_create_vector_database fails documents =
     (let total_docs = length documents; batch_size = 10
      in if fails 0 then Inl StoreError
         else case py_range (int batch_size) (int total_docs) (int batch_size) of
                Inl e \<Rightarrow> Inl e
              | Inr starts \<Rightarrow> add_batches_raise fails documents batch_size starts
                               (py_slice documents 0 (int batch_size)))"

section \<open>app.py: first batch fatal, later failures skipped\<close>

definition add_batch_skip :: "(nat \<Rightarrow> bool) \<Rightarrow> 'd list \<Rightarrow> nat \<Rightarrow> 'd list \<Rightarrow> int \<Rightarrow> 'd list" where
  "add_batch_skip fails documents batch_size vector_db i =
     (if fails (nat i) then vector_db else vector_db @ py_slice documents i (i + int batch_size))"

definition app_create_vector_database :: "(nat \<Rightarrow> bool) \<Rightarrow> 'd list \<Rightarrow> py_error + 'd list" where
  "app_create_vector_database fails documents =
     (let total_docs = length documents; batch_size = 5
      in if fails 0 then Inl StoreError
         else case py_range (int batch_size) (int total_docs) (int batch_size) of
                Inl e \<Rightarrow> Inl e
              | Inr starts \<Rightarrow> Inr (foldl (add_batch_skip fails documents batch_size)
                                   (py_slice documents 0 (int batch_size)) starts))"

section \<open>Abstract specification\<close>

text \<open>
  The batches a store receives: consecutive slices of \<open>bs\<close> documents starting at
  \<open>0, bs, 2 bs, ...\<close>; a run keeps the batches whose call does not fail.
\<close>

definition batch_starts :: "nat \<Rightarrow> nat \<Rightarrow> nat list" where
  "batch_starts bs n = map (\<lambda>k. k * bs) [0..<(n + bs - 1) div bs]"

definition kept_batches :: "nat \<Rightarrow> (nat \<Rightarrow> bool) \<Rightarrow> 'd list \<Rightarrow> 'd list" where
  "kept_batches bs fails docs =
     concat (map (\<lambda>i. take bs (drop i docs)) (filter (\<lambda>i. \<not> fails i) (batch_starts bs (length docs))))"

section \<open>Lemmas\<close>

lemma less_batches_iff: "0 < bs \<Longrightarrow> (a::nat) < (n + bs - 1) div bs \<longleftrightarrow> a * bs < n"
proof -
  assume bs: "0 < bs"
  have "a < (n + bs - 1) div bs \<longleftrightarrow> Suc a * bs \<le> n + bs - 1"
    unfolding Suc_le_eq [symmetric] by (rule less_eq_div_iff_mult_less_eq [OF bs])
  also have "\<dots> \<longleftrightarrow> a * bs < n"
    using bs by auto
  finally show ?thesis .
qed

lemma py_range_up_batches:
  assumes "0 < bs"
  shows "py_range_up (int (a * bs)) (int n) (int bs) = map (\<lambda>k. int (k * bs)) [a..<(n + bs - 1) div bs]"
proof (induction "(n + bs - 1) div bs - a" arbitrary: a)
  case 0
  then have "\<not> a < (n + bs - 1) div bs" by simp
  then have "\<not> a * bs < n" using less_batches_iff [OF assms] by blast
  then have "int n \<le> int (a * bs)" by (simp only: of_nat_le_iff not_less)
  then have "py_range_up (int (a * bs)) (int n) (int bs) = []" by (rule py_range_up_Nil)
  then show ?case using 0 by simp
next
  case (Suc d)
  then have lt: "a < (n + bs - 1) div bs" by simp
  then have "a * bs < n" using less_batches_iff [OF assms] by simp
  then have "int (a * bs) < int n" by (simp only: of_nat_less_iff)
  then have "py_range_up (int (a * bs)) (int n) (int bs) =
             int (a * bs) # py_range_up (int (a * bs) + int bs) (int n) (int bs)"
    using assms by (intro py_range_up_Cons) simp_all
  moreover have "int (a * bs) + int bs = int (Suc a * bs)"
    by simp
  moreover have "py_range_up (int (Suc a * bs)) (int n) (int bs) =
                 map (\<lambda>k. int (k * bs)) [Suc a..<(n + bs - 1) div bs]"
    using Suc(1) [of "Suc a"] Suc(2) by simp
  moreover have "[a..<(n + bs - 1) div bs] = a # [Suc a..<(n + bs - 1) div bs]"
    using lt by (simp add: upt_conv_Cons)
  ultimately show ?case by (simp add: add.commute)
qed

lemma concat_batches_take: "concat (map (\<lambda>k. take bs (drop (k * bs) xs)) [0..<m]) = take (m * bs) xs"
proof (induction m)
  case 0
  then show ?case by simp
next
  case (Suc m)
  have "take (Suc m * bs) xs = take (m * bs + bs) xs"
    by (simp add: add.commute)
  with Suc show ?case
    by (simp only: upt_Suc_append [OF zero_le] map_append concat_append take_add) simp
qed

lemma concat_batches: 
  assumes "0 < bs"
  shows "concat (map (\<lambda>k. take bs (drop (k * bs) xs)) [0..<(length xs + bs - 1) div bs]) = xs"
proof -
  let ?m = "length xs + bs - 1"
  have "?m mod bs < bs" using assms by simp
  moreover have "?m div bs * bs + ?m mod bs = ?m" by (rule div_mult_mod_eq)
  ultimately have "length xs \<le> ?m div bs * bs" using assms by linarith
  then show ?thesis by (simp add: concat_batches_take)
qed

lemma slice_batch_nat:
  "py_slice docs (int s) (int (min (s + bs) (length docs))) = take bs (drop s docs)"
  by (simp add: py_slice_nonneg min_def take_all_iff)

lemma slice_batch_int:
  "py_slice docs (int (k * bs)) (int (k * bs) + int bs) = take bs (drop (k * bs) docs)"
proof -
  have "py_slice docs (int (k * bs)) (int (k * bs) + int bs) = py_slice docs (int (k * bs)) (int (k * bs + bs))"
    by simp
  then show ?thesis by (simp only: py_slice_nonneg of_nat_0_le_iff nat_int) simp
qed

lemma foldl_ingest_step:
  "foldl (ingest_step fails docs) db ks =
     db @ concat (map (\<lambda>k. take 10 (drop (k * 10) docs)) (filter (\<lambda>k. \<not> fails (k * 10)) ks))"
  by (induction ks arbitrary: db) (simp_all add: ingest_step_def slice_batch_nat del: of_nat_mult)

lemma foldl_add_batch_skip:
  "foldl (add_batch_skip fails docs bs) db (map (\<lambda>k. int (k * bs)) ks) =
     db @ concat (map (\<lambda>k. take bs (drop (k * bs) docs)) (filter (\<lambda>k. \<not> fails (k * bs)) ks))"
  by (induction ks arbitrary: db) (simp_all add: add_batch_skip_def slice_batch_int del: of_nat_mult)

lemma add_batches_raise_eq:
  "add_batches_raise fails docs bs (map (\<lambda>k. int (k * bs)) ks) db =
     (if \<exists>k\<in>set ks. fails (k * bs) then Inl StoreError
      else Inr (db @ concat (map (\<lambda>k. take bs (drop (k * bs) docs)) ks)))"
  by (induction ks arbitrary: db) (simp_all add: slice_batch_int del: of_nat_mult)

lemma kept_batches_eq:
  "kept_batches bs fails docs =
     concat (map (\<lambda>k. take bs (drop (k * bs) docs))
       (filter (\<lambda>k. \<not> fails (k * bs)) [0..<(length docs + bs - 1) div bs]))"
  by (simp add: kept_batches_def batch_starts_def filter_map comp_def)

lemma batches_range:
  "0 < bs \<Longrightarrow> py_range (int bs) (int n) (int bs) = Inr (map (\<lambda>k. int (k * bs)) [1..<(n + bs - 1) div bs])"
  using py_range_up_batches [of bs 1 n] by (simp add: py_range_pos)

lemma upt_0_Cons: "0 < m \<Longrightarrow> [0..<m] = 0 # [1..<m]"
  by (simp add: upt_conv_Cons)


lemma batch_starts_fails:
  "(fails 0 \<or> (\<exists>i\<in>set (batch_starts bs n). fails i)) \<longleftrightarrow>
   (fails 0 \<or> (\<exists>k\<in>set [1..<(n + bs - 1) div bs]. fails (k * bs)))"
proof (cases "(n + bs - 1) div bs = 0")
  case True
  then show ?thesis by (simp add: batch_starts_def)
next
  case False
  then show ?thesis by (simp add: batch_starts_def upt_0_Cons)
qed

lemma range_10: "py_range 10 (int n) 10 = Inr (map (\<lambda>k. int (k * 10)) [1..<(n + 10 - 1) div 10])"
  using batches_range [of 10 n] by simp

lemma range_5: "py_range 5 (int n) 5 = Inr (map (\<lambda>k. int (k * 5)) [1..<(n + 5 - 1) div 5])"
  using batches_range [of 5 n] by simp


lemma ingest_documents_no_failure:
  "\<forall>i. \<not> fails i \<Longrightarrow> ingest_documents fails docs = Some docs"
proof (cases "total_batches (length docs) 10 = 0")
  case True
  assume "\<forall>i. \<not> fails i"
  moreover from True have "docs = []" by (simp add: total_batches_def div_eq_0_iff)
  ultimately show ?thesis by (simp add: ingest_documents_def py_slice_nonneg total_batches_def)
next
  case False
  assume ok: "\<forall>i. \<not> fails i"
  have "take 10 docs @ concat (map (\<lambda>k. take 10 (drop (k * 10) docs)) [1..<(length docs + 10 - 1) div 10]) = docs"
    using concat_batches [of 10 docs] upt_0_Cons [of "(length docs + 10 - 1) div 10"] False
    by (simp add: total_batches_def)
  with ok False show ?thesis
    by (simp add: ingest_documents_def foldl_ingest_step py_slice_nonneg total_batches_def)
qed

section \<open>Properties\<close>

text \<open>
  C19. The pipeline's submission (teste.py) refines the batch specification: a failing
  first call returns \<open>None\<close>; otherwise the store holds exactly the batches of 10
  whose call did not fail, in order.
\<close>

theorem ingest_stores_kept_batches:
  "ingest_documents fails docs = (if fails 0 then None else Some (kept_batches 10 fails docs))"
proof (cases "total_batches (length docs) 10 = 0")
  case True
  then have "docs = []" by (simp add: total_batches_def div_eq_0_iff)
  then show ?thesis by (simp add: ingest_documents_def kept_batches_eq py_slice_nonneg total_batches_def)
next
  case False
  then show ?thesis
    by (simp add: ingest_documents_def kept_batches_eq foldl_ingest_step py_slice_nonneg
                  total_batches_def upt_0_Cons)
qed

lemma rag_create_vector_database_eq:
  "rag_create_vector_database fails docs =
     (if fails 0 \<or> (\<exists>i\<in>set (batch_starts 10 (length docs)). fails i) then Inl StoreError
      else Inr docs)"
proof (cases "(length docs + 10 - 1) div 10 = 0")
  case True
  then have "docs = []" by (simp add: div_eq_0_iff)
  then show ?thesis
    by (simp add: rag_create_vector_database_def py_range_pos py_range_up_Nil batch_starts_def py_slice_nonneg)
next
  case False
  have "take 10 docs @ concat (map (\<lambda>k. take 10 (drop (k * 10) docs)) [1..<(length docs + 10 - 1) div 10]) = docs"
    using concat_batches [of 10 docs] upt_0_Cons [of "(length docs + 10 - 1) div 10"] False by simp
  then show ?thesis
    using batch_starts_fails [of fails 10 "length docs"]
    by (simp add: rag_create_vector_database_def range_10 add_batches_raise_eq py_slice_nonneg
             del: of_nat_mult)
qed

lemma app_create_vector_database_eq:
  "app_create_vector_database fails docs =
     (if fails 0 then Inl StoreError else Inr (kept_batches 5 fails docs))"
proof (cases "(length docs + 5 - 1) div 5 = 0")
  case True
  then have "docs = []" by (simp add: div_eq_0_iff)
  then show ?thesis
    by (simp add: app_create_vector_database_def py_range_pos py_range_up_Nil kept_batches_eq py_slice_nonneg)
next
  case False
  then show ?thesis
    by (simp add: app_create_vector_database_def range_5 foldl_add_batch_skip kept_batches_eq
                  py_slice_nonneg upt_0_Cons del: of_nat_mult)
qed

text \<open>
  C20. The older submissions: rag.py raises as soon as any call fails and otherwise
  stores every document; app.py raises only when the first call fails and otherwise
  keeps the batches of 5 whose call did not fail.
\<close>

theorem legacy_ingestion_error_paths:
  "rag_create_vector_database fails docs =
     (if fails 0 \<or> (\<exists>i\<in>set (batch_starts 10 (length docs)). fails i) then Inl StoreError
      else Inr docs) \<and>
   app_create_vector_database fails docs =
     (if fails 0 then Inl StoreError else Inr (kept_batches 5 fails docs))"
  by (simp only: rag_create_vector_database_eq app_create_vector_database_eq)

theorem legacy_ingestion_error_paths_witness:
  "rag_create_vector_database (\<lambda>i. i = 10) [0..<25::nat] = Inl StoreError \<and>
   app_create_vector_database (\<lambda>i. i = 10) [0..<25::nat] = Inr ([0..<10] @ [15..<25])"
proof -
  have "\<exists>i\<in>set (batch_starts 10 (length [0..<25::nat])). i = 10"
    by (simp add: batch_starts_def)
  moreover have "kept_batches 5 (\<lambda>i. i = 10) [0..<25::nat] = [0..<10] @ [15..<25]"
    by code_simp
  ultimately show ?thesis
    using legacy_ingestion_error_paths [of "\<lambda>i. i = 10" "[0..<25::nat]"] by simp
qed

text \<open>
  A failed later batch is lost without trace: with 25 documents and the second call
  failing, the pipeline returns a store without documents 10 to 19 and no failure count.
\<close>

theorem ingest_silent_loss:
  "ingest_documents (\<lambda>i. i = 10) [0..<25::nat] = Some ([0..<10] @ [20..<25])"
  by code_simp

end
