(* ===== verification/Legacy.thy ===== *)
theory Legacy
  imports Normalizer Documents
begin

text \<open>
  The older preprocessing of rag.py and app.py, \<open>preprocess_whatsapp_data\<close> after the
  file is loaded, with its helpers \<open>should_start_new_conversation\<close>,
  \<open>create_conversation_context\<close> and \<open>clean_message\<close> (the last two are the same
  code in both files and are modelled once). Messages of fewer than 3 characters and
  those containing one of six system phrases are skipped; the rest accumulate in a window
  that becomes a document when it is cut. rag.py cuts before a message when the window
  holds more than 20 messages and the previous message had a non-empty timestamp, app.py
  after every 10th message; both keep a final window of at least 3 messages.
  \<open>messages[0]\<close> of an empty list raises \<open>IndexError\<close>, so rendering a context is
  fallible and the loops run in the error monad (\<open>foldM\<close>).
\<close>

section \<open>Messages and documents\<close>

record window_msg =
  w_author :: pystr
  w_message :: pystr
  w_timestamp :: pystr
  w_index :: nat

record legacy_meta =
  lm_conversation_id :: pystr
  lm_start_time :: pystr
  lm_end_time :: pystr
  lm_message_count :: nat
  lm_participants :: pystr

record legacy_document =
  l_page_content :: pystr
  l_metadata :: legacy_meta

section \<open>Helpers\<close>

definition legacy_system_messages :: "pystr list" where
  "legacy_system_messages =
    [ustr ''mensagem apagada'', ustr ''media omitted'', ustr ''audio omitted'',
     ustr ''image omitted'', ustr ''document omitted'', ustr ''video omitted'']"

text \<open>\<open>any(sys_msg in message.lower() for sys_msg in system_messages)\<close>: containment.\<close>

definition legacy_is_system :: "pystr \<Rightarrow> bool" where
  "legacy_is_system msg =
     list_ex (\<lambda>sys_msg. occurs_from sys_msg 0 (py_lower msg)) legacy_system_messages"

text \<open>The class \<open>[\w\s\.,!?;:()\-\<acute>a\<grave>a...]\<close> of characters \<open>clean_message\<close> keeps.\<close>

definition legacy_keep_char :: "nat \<Rightarrow> bool" where
  "legacy_keep_char c \<longleftrightarrow>
     is_word_char c \<or> is_py_space c \<or> c \<in> set (ustr ''.,!?;:()-'') \<or>
     c \<in> set [225, 224, 226, 227, 233, 232, 234, 237, 239, 243, 244, 245, 246, 250, 231, 241]"

definition legacy_clean_message :: "pystr \<Rightarrow> pystr" where
  "legacy_clean_message msg =
     (let m1 = map (\<lambda>c. if legacy_keep_char c then c else 32) msg;
          m2 = collapse_ws m1
      in py_strip m2)"

definition should_start_new_conversation :: "pystr \<Rightarrow> pystr \<Rightarrow> nat \<Rightarrow> bool" where
  "should_start_new_conversation last_time current_time window_size = (20 < window_size)"

definition context_line :: "window_msg \<Rightarrow> pystr list" where
  "context_line msg =
     (let cleaned_message = legacy_clean_message (w_message msg)
      in if cleaned_message = [] then []
         else [[91] @ w_timestamp msg @ [93, 32] @ w_author msg @ [58, 32] @ cleaned_message])"

definition create_conversation_context ::
  "(pystr list \<Rightarrow> pystr list) \<Rightarrow> window_msg list \<Rightarrow> nat \<Rightarrow> py_error + pystr" where
  "create_conversation_context set_list messages conv_id =
     (case messages of
        [] \<Rightarrow> Inl IndexError
      | m0 # _ \<Rightarrow>
          (let participants = set_list (map w_author messages);
               start_time = w_timestamp m0;
               context_lines =
                 [ustr ''=== CONVERSA #'' @ py_str_nat conv_id @ ustr '' ==='',
                  ustr ''Participantes: '' @ py_join (ustr '', '') participants,
                  ustr ''In'' @ [237] @ ustr ''cio: '' @ start_time,
                  ustr ''N'' @ [250] @ ustr ''mero de mensagens: '' @ py_str_nat (length messages),
                  []] @ concat (map context_line messages)
           in Inr (py_join [10] context_lines)))"

text \<open>The \<open>Document\<close> both preprocessors append for a window.\<close>

definition window_document ::
  "(pystr list \<Rightarrow> pystr list) \<Rightarrow> window_msg list \<Rightarrow> nat \<Rightarrow> py_error + legacy_document" where
  "window_document set_list conversation_window conversation_id =
     (case create_conversation_context set_list conversation_window conversation_id of
        Inl e \<Rightarrow> Inl e
      | Inr conversation_text \<Rightarrow>
          Inr \<lparr>l_page_content = conversation_text,
               l_metadata =
                 \<lparr>lm_conversation_id = py_str_nat conversation_id,
                  lm_start_time = w_timestamp (hd conversation_window),
                  lm_end_time = w_timestamp (last conversation_window),
                  lm_message_count = length conversation_window,
                  lm_participants = py_join (ustr '', '') (set_list (map w_author conversation_window))\<rparr>\<rparr>)"

text \<open>The fields of a raw record as the loops read them.\<close>

definition item_fields :: "raw_item \<Rightarrow> pystr \<times> pystr \<times> pystr" where
  "item_fields item =
     ((case item_author item of None \<Rightarrow> ustr ''Desconhecido'' | Some a \<Rightarrow> a),
      py_strip (case item_message item of None \<Rightarrow> [] | Some m \<Rightarrow> m),
      (case item_timestamp item of None \<Rightarrow> [] | Some t \<Rightarrow> t))"

definition legacy_accepts :: "pystr \<Rightarrow> bool" where
  "legacy_accepts msg \<longleftrightarrow> \<not> length msg < 3 \<and> \<not> legacy_is_system msg"

section \<open>rag.py: preprocess_whatsapp_data\<close>

record rag_state =
  r_documents :: "legacy_document list"
  r_window :: "window_msg list"
  r_last_timestamp :: "pystr option"
  r_conversation_id :: nat

definition rag_init :: rag_state where
  "rag_init = \<lparr>r_documents = [], r_window = [], r_last_timestamp = None, r_conversation_id = 0\<rparr>"

text \<open>\<open>if (last_timestamp and ...)\<close>: \<open>None\<close> and the empty string are false.\<close>

definition py_truthy_str :: "pystr option \<Rightarrow> bool" where
  "py_truthy_str s = (case s of None \<Rightarrow> False | Some t \<Rightarrow> t \<noteq> [])"

definition rag_step :: "(pystr list \<Rightarrow> pystr list) \<Rightarrow> rag_state \<Rightarrow> nat \<times> raw_item \<Rightarrow> py_error + rag_state" where
  "rag_step set_list st ii =
     (let (i, item) = ii; (auth, msg, ts) = item_fields item
      in if \<not> legacy_accepts msg then Inr st
         else
           (let wm = \<lparr>w_author = auth, w_message = msg, w_timestamp = ts, w_index = i\<rparr>;
                push = (\<lambda>st'. st'\<lparr>r_window := r_window st' @ [wm], r_last_timestamp := Some ts\<rparr>)
            in if py_truthy_str (r_last_timestamp st) \<and>
                  should_start_new_conversation (the (r_last_timestamp st)) ts (length (r_window st))
               then (if 3 \<le> length (r_window st)
                     then (case window_document set_list (r_window st) (r_conversation_id st) of
                             Inl e \<Rightarrow> Inl e
                           | Inr d \<Rightarrow> Inr (push (st\<lparr>r_documents := r_documents st @ [d],
                                                  r_conversation_id := Suc (r_conversation_id st),
                                                  r_window := []\<rparr>)))
                     else Inr (push (st\<lparr>r_window := []\<rparr>)))
               else Inr (push st)))"

definition rag_finish :: "(pystr list \<Rightarrow> pystr list) \<Rightarrow> rag_state \<Rightarrow> py_error + legacy_document list" where
  "rag_finish set_list st =
     (if 3 \<le> length (r_window st)
      then (case window_document set_list (r_window st) (r_conversation_id st) of
              Inl e \<Rightarrow> Inl e
            | Inr d \<Rightarrow> Inr (r_documents st @ [d]))
      else Inr (r_documents st))"

definition rag_preprocess :: "(pystr list \<Rightarrow> pystr list) \<Rightarrow> raw_item list \<Rightarrow> py_error + legacy_document list" where
  "rag_preprocess set_list data =
     (case foldM (rag_step set_list) rag_init (enumerate 0 data) of
        Inl e \<Rightarrow> Inl e
      | Inr st \<Rightarrow> rag_finish set_list st)"

section \<open>app.py: preprocess_whatsapp_data\<close>

record app_state =
  a_documents :: "legacy_document list"
  a_participants :: "pystr set"
  a_window :: "window_msg list"
  a_conversation_id :: nat

definition app_init :: app_state where
  "app_init = \<lparr>a_documents = [], a_participants = {}, a_window = [], a_conversation_id = 0\<rparr>"

definition app_step :: "(pystr list \<Rightarrow> pystr list) \<Rightarrow> app_state \<Rightarrow> nat \<times> raw_item \<Rightarrow> py_error + app_state" where
  "app_step set_list st ii =
     (let (i, item) = ii; (auth, msg, ts) = item_fields item;
          st1 = (if auth \<noteq> ustr ''Desconhecido''
                 then st\<lparr>a_participants := insert auth (a_participants st)\<rparr> else st)
      in if \<not> legacy_accepts msg then Inr st1
         else
           (let st2 = st1\<lparr>a_window := a_window st1 @
                            [\<lparr>w_author = auth, w_message = msg, w_timestamp = ts, w_index = i\<rparr>]\<rparr>
            in if 10 \<le> length (a_window st2)
               then (case window_document set_list (a_window st2) (a_conversation_id st2) of
                       Inl e \<Rightarrow> Inl e
                     | Inr d \<Rightarrow> Inr (st2\<lparr>a_documents := a_documents st2 @ [d],
                                         a_conversation_id := Suc (a_conversation_id st2),
                                         a_window := []\<rparr>))
               else Inr st2))"

definition app_finish :: "(pystr list \<Rightarrow> pystr list) \<Rightarrow> app_state \<Rightarrow> py_error + legacy_document list \<times> pystr set" where
  "app_finish set_list st =
     (if 3 \<le> length (a_window st)
      then (case window_document set_list (a_window st) (a_conversation_id st) of
              Inl e \<Rightarrow> Inl e
            | Inr d \<Rightarrow> Inr (a_documents st @ [d], a_participants st))
      else Inr (a_documents st, a_participants st))"

definition app_preprocess ::
  "(pystr list \<Rightarrow> pystr list) \<Rightarrow> raw_item list \<Rightarrow> py_error + legacy_document list \<times> pystr set" where
  "app_preprocess set_list data =
     (case foldM (app_step set_list) app_init (enumerate 0 data) of
        Inl e \<Rightarrow> Inl e
      | Inr st \<Rightarrow> app_finish set_list st)"

section \<open>Specification predicates\<close>

text \<open>The messages both loops accept.\<close>

abbreviation legacy_accepted :: "raw_item \<Rightarrow> bool" where
  "legacy_accepted item \<equiv> legacy_accepts (fst (snd (item_fields item)))"

text \<open>
  The invariant of the rag.py loop: when every message has a timestamp (\<open>bounded\<close>),
  the window never exceeds 21 messages, a non-empty window has a true
  \<open>last_timestamp\<close>, and every document holds 3 to 21 messages.
\<close>

definition rag_inv :: "bool \<Rightarrow> rag_state \<Rightarrow> bool" where
  "rag_inv bounded st \<longleftrightarrow>
     (bounded \<longrightarrow> length (r_window st) \<le> 21 \<and> (r_window st \<noteq> [] \<longrightarrow> py_truthy_str (r_last_timestamp st)) \<and>
        (\<forall>d\<in>set (r_documents st). 3 \<le> lm_message_count (l_metadata d) \<and> lm_message_count (l_metadata d) \<le> 21))"

text \<open>
  The state of the rag.py loop after \<open>k\<close> accepted messages none of which had a
  timestamp: no document yet, a false \<open>last_timestamp\<close>, all of them in the window.
\<close>

definition rag_untimed :: "nat \<Rightarrow> rag_state \<Rightarrow> bool" where
  "rag_untimed k st \<longleftrightarrow>
     r_documents st = [] \<and> \<not> py_truthy_str (r_last_timestamp st) \<and> length (r_window st) = k"

text \<open>The state of the app.py loop after \<open>k\<close> accepted messages.\<close>

definition app_counts :: "nat \<Rightarrow> app_state \<Rightarrow> bool" where
  "app_counts k st \<longleftrightarrow>
     length (a_window st) = k mod 10 \<and>
     map (\<lambda>d. lm_message_count (l_metadata d)) (a_documents st) = replicate (k div 10) 10"

section \<open>Lemmas\<close>

lemma window_document_ok:
  "w \<noteq> [] \<Longrightarrow> \<exists>d. window_document sl w cid = Inr d \<and> lm_message_count (l_metadata d) = length w"
  by (cases w) (simp_all add: window_document_def create_conversation_context_def)

lemma rag_step_inv:
  assumes "rag_inv bounded st" and "bounded \<longrightarrow> snd (snd (item_fields (snd x))) \<noteq> []"
  shows "\<exists>st'. rag_step sl st x = Inr st' \<and> rag_inv bounded st'"
proof -
  obtain i item where x: "x = (i, item)" by (cases x)
  obtain auth msg ts where f: "item_fields item = (auth, msg, ts)" by (cases "item_fields item") auto
  show ?thesis
  proof (cases "legacy_accepts msg")
    case False
    then show ?thesis using assms x f by (simp add: rag_step_def)
  next
    case True
    show ?thesis
    proof (cases "py_truthy_str (r_last_timestamp st) \<and>
                  should_start_new_conversation (the (r_last_timestamp st)) ts (length (r_window st))")
      case cut: True
      then have big: "20 < length (r_window st)" by (simp add: should_start_new_conversation_def)
      then have "r_window st \<noteq> []" by auto
      then obtain d where d: "window_document sl (r_window st) (r_conversation_id st) = Inr d"
          and cnt: "lm_message_count (l_metadata d) = length (r_window st)"
        using window_document_ok by blast
      show ?thesis
        using assms x f True cut big d cnt
        by (auto simp: rag_step_def rag_inv_def py_truthy_str_def)
    next
      case nocut: False
      show ?thesis
        using assms x f True nocut
        by (auto simp: rag_step_def rag_inv_def py_truthy_str_def should_start_new_conversation_def)
    qed
  qed
qed

lemma item_fields_ts:
  "snd (snd (item_fields item)) \<noteq> [] \<longleftrightarrow> item_timestamp item \<noteq> None \<and> item_timestamp item \<noteq> Some []"
  by (simp add: item_fields_def split: option.splits)

lemma rag_run:
  assumes "bounded \<longrightarrow> (\<forall>item\<in>set data. snd (snd (item_fields item)) \<noteq> [])"
  shows "\<exists>st. foldM (rag_step sl) rag_init (enumerate 0 data) = Inr st \<and> rag_inv bounded st"
proof (rule foldM_inv)
  show "rag_inv bounded rag_init" by (simp add: rag_inv_def rag_init_def)
next
  fix st x
  assume "rag_inv bounded st" "x \<in> set (enumerate 0 data)"
  with assms show "\<exists>st'. rag_step sl st x = Inr st' \<and> rag_inv bounded st'"
    by (blast intro: rag_step_inv dest: item_in_enumerate)
qed

lemma rag_finish_inv:
  assumes "rag_inv bounded st"
  shows "\<exists>docs. rag_finish sl st = Inr docs \<and>
           (bounded \<longrightarrow> (\<forall>d\<in>set docs. 3 \<le> lm_message_count (l_metadata d) \<and> lm_message_count (l_metadata d) \<le> 21))"
proof (cases "3 \<le> length (r_window st)")
  case True
  then have "r_window st \<noteq> []" by auto
  then obtain d where "window_document sl (r_window st) (r_conversation_id st) = Inr d"
      and "lm_message_count (l_metadata d) = length (r_window st)"
    using window_document_ok by blast
  with True assms show ?thesis by (auto simp: rag_finish_def rag_inv_def)
next
  case False
  with assms show ?thesis by (auto simp: rag_finish_def rag_inv_def)
qed

lemma rag_preprocess_inv:
  assumes "bounded \<longrightarrow> (\<forall>item\<in>set data. snd (snd (item_fields item)) \<noteq> [])"
  shows "\<exists>docs. rag_preprocess sl data = Inr docs \<and>
           (bounded \<longrightarrow> (\<forall>d\<in>set docs. 3 \<le> lm_message_count (l_metadata d) \<and> lm_message_count (l_metadata d) \<le> 21))"
proof -
  obtain st where "foldM (rag_step sl) rag_init (enumerate 0 data) = Inr st" "rag_inv bounded st"
    using rag_run [OF assms] by blast
  then show ?thesis
    using rag_finish_inv [of bounded st sl] by (simp add: rag_preprocess_def)
qed

lemma mod10_step:
  "k mod 10 = 9 \<Longrightarrow> Suc k mod 10 = 0 \<and> Suc k div 10 = Suc (k div 10)"
  "k mod 10 \<noteq> 9 \<Longrightarrow> Suc k mod 10 = Suc (k mod 10) \<and> Suc k div 10 = k div 10"
  by (simp_all add: mod_Suc div_Suc)

lemma app_step_counts:
  assumes "app_counts k st"
  shows "\<exists>st'. app_step sl st (i, item) = Inr st' \<and>
           app_counts (if legacy_accepted item then Suc k else k) st'"
proof -
  obtain auth msg ts where f: "item_fields item = (auth, msg, ts)" by (cases "item_fields item") auto
  let ?st1 = "if auth \<noteq> ustr ''Desconhecido'' then st\<lparr>a_participants := insert auth (a_participants st)\<rparr> else st"
  let ?w = "a_window st @ [\<lparr>w_author = auth, w_message = msg, w_timestamp = ts, w_index = i\<rparr>]"
  have w1: "a_window ?st1 = a_window st" "a_documents ?st1 = a_documents st"
           "a_conversation_id ?st1 = a_conversation_id st"
    by simp_all
  have lt: "length (a_window st) < 10" using assms by (simp add: app_counts_def)
  show ?thesis
  proof (cases "legacy_accepts msg")
    case False
    then show ?thesis using assms f
      by (cases "auth = ustr ''Desconhecido''") (simp_all add: app_step_def Let_def app_counts_def)
  next
    case acc: True
    show ?thesis
    proof (cases "k mod 10 = 9")
      case True
      then have "length ?w = 10" using assms by (simp add: app_counts_def)
      moreover obtain d where "window_document sl ?w (a_conversation_id st) = Inr d"
          and "lm_message_count (l_metadata d) = length ?w"
        using window_document_ok [of ?w sl "a_conversation_id st"] by auto
      ultimately show ?thesis
        using assms f acc True mod10_step(1) [OF True]
        by (cases "auth = ustr ''Desconhecido''")
           (simp_all add: app_step_def Let_def app_counts_def replicate_append_same)
    next
      case False
      then have "length ?w < 10" using assms lt by (simp add: app_counts_def)
      then show ?thesis
        using assms f acc False mod10_step(2) [OF False]
        by (cases "auth = ustr ''Desconhecido''") (simp_all add: app_step_def Let_def app_counts_def)
    qed
  qed
qed

lemma app_run:
  "\<exists>st. foldM (app_step sl) app_init (enumerate 0 data) = Inr st \<and>
     app_counts (length (filter legacy_accepted data)) st"
proof (induction data rule: rev_induct)
  case Nil
  then show ?case by (simp add: app_init_def app_counts_def)
next
  case (snoc x xs)
  then obtain st where run: "foldM (app_step sl) app_init (enumerate 0 xs) = Inr st"
      and c: "app_counts (length (filter legacy_accepted xs)) st" by blast
  obtain st' where "app_step sl st (length xs, x) = Inr st'"
      and "app_counts (if legacy_accepted x then Suc (length (filter legacy_accepted xs))
                       else length (filter legacy_accepted xs)) st'"
    using app_step_counts [OF c] by blast
  with run show ?case
    by (cases "legacy_accepted x") (simp_all add: enumerate_append_eq foldM_append)
qed

lemma rag_step_untimed:
  assumes "rag_untimed k st" and "snd (snd (item_fields item)) = []"
  shows "\<exists>st'. rag_step sl st (i, item) = Inr st' \<and>
           rag_untimed (if legacy_accepted item then Suc k else k) st'"
proof -
  obtain auth msg where f: "item_fields item = (auth, msg, [])"
    using assms(2) by (cases "item_fields item") auto
  show ?thesis
    using assms(1) f
    by (cases "legacy_accepts msg") (simp_all add: rag_step_def Let_def rag_untimed_def py_truthy_str_def)
qed

lemma rag_run_untimed:
  "list_all (\<lambda>item. snd (snd (item_fields item)) = []) data \<Longrightarrow>
   \<exists>st. foldM (rag_step sl) rag_init (enumerate 0 data) = Inr st \<and>
     rag_untimed (length (filter legacy_accepted data)) st"
proof (induction data rule: rev_induct)
  case Nil
  then show ?case by (simp add: rag_init_def rag_untimed_def py_truthy_str_def)
next
  case (snoc x xs)
  then obtain st where run: "foldM (rag_step sl) rag_init (enumerate 0 xs) = Inr st"
      and c: "rag_untimed (length (filter legacy_accepted xs)) st" by auto
  have "snd (snd (item_fields x)) = []" using snoc.prems by simp
  then obtain st' where "rag_step sl st (length xs, x) = Inr st'"
      and "rag_untimed (if legacy_accepted x then Suc (length (filter legacy_accepted xs))
                        else length (filter legacy_accepted xs)) st'"
    using rag_step_untimed [OF c] by blast
  with run show ?case
    by (cases "legacy_accepted x") (simp_all add: enumerate_append_eq foldM_append)
qed

section \<open>Properties\<close>

text \<open>
  C22. rag.py's preprocessing never raises (\<open>messages[0]\<close> is only read from windows
  of at least 3 messages), and when every record has a timestamp each document holds
  between 3 and 21 messages.
\<close>

theorem rag_preprocess_total_bounded:
  "(\<exists>docs. rag_preprocess sl data = Inr docs) \<and>
   ((\<forall>item\<in>set data. item_timestamp item \<noteq> None \<and> item_timestamp item \<noteq> Some []) \<longrightarrow>
    (\<forall>docs. rag_preprocess sl data = Inr docs \<longrightarrow>
       (\<forall>d\<in>set docs. 3 \<le> lm_message_count (l_metadata d) \<and> lm_message_count (l_metadata d) \<le> 21)))"
proof (intro conjI impI allI)
  show "\<exists>docs. rag_preprocess sl data = Inr docs"
    using rag_preprocess_inv [of False data sl] by blast
next
  fix docs
  assume "\<forall>item\<in>set data. item_timestamp item \<noteq> None \<and> item_timestamp item \<noteq> Some []"
    and run: "rag_preprocess sl data = Inr docs"
  then have "\<forall>item\<in>set data. snd (snd (item_fields item)) \<noteq> []"
    by (simp add: item_fields_ts)
  with run show "\<forall>d\<in>set docs. 3 \<le> lm_message_count (l_metadata d) \<and> lm_message_count (l_metadata d) \<le> 21"
    using rag_preprocess_inv [of True data sl] by auto
qed

theorem rag_preprocess_total_bounded_witness:
  "\<exists>docs. rag_preprocess remdups (replicate 25 \<lparr>item_author = Some (ustr ''Ana''), item_message = Some (ustr ''tudo bem''),
                   item_timestamp = Some (ustr ''15/03/2023, 14:30'')\<rparr>) = Inr docs \<and>
     list_all (\<lambda>d. 3 \<le> lm_message_count (l_metadata d) \<and> lm_message_count (l_metadata d) \<le> 21) docs"
proof -
  have ts: "\<forall>item\<in>set (replicate 25 \<lparr>item_author = Some (ustr ''Ana''), item_message = Some (ustr ''tudo bem''),
                   item_timestamp = Some (ustr ''15/03/2023, 14:30'')\<rparr>). item_timestamp item \<noteq> None \<and> item_timestamp item \<noteq> Some []"
    by simp
  obtain docs where run: "rag_preprocess remdups (replicate 25 \<lparr>item_author = Some (ustr ''Ana''), item_message = Some (ustr ''tudo bem''),
                   item_timestamp = Some (ustr ''15/03/2023, 14:30'')\<rparr>) = Inr docs"
    using rag_preprocess_total_bounded [of remdups "(replicate 25 \<lparr>item_author = Some (ustr ''Ana''), item_message = Some (ustr ''tudo bem''),
                   item_timestamp = Some (ustr ''15/03/2023, 14:30'')\<rparr>)"] by blast
  then have "\<forall>d\<in>set docs. 3 \<le> lm_message_count (l_metadata d) \<and> lm_message_count (l_metadata d) \<le> 21"
    using rag_preprocess_total_bounded [of remdups "(replicate 25 \<lparr>item_author = Some (ustr ''Ana''), item_message = Some (ustr ''tudo bem''),
                   item_timestamp = Some (ustr ''15/03/2023, 14:30'')\<rparr>)"] ts by blast
  with run show ?thesis
    by (auto simp: list_all_iff)
qed

text \<open>
  C23. The size cut of rag.py depends on timestamps: when no record has a timestamp,
  \<open>last_timestamp\<close> is never true, no window is ever closed, and the accepted messages,
  however many, all go into a single document (none when they are fewer than 3).
\<close>

theorem rag_untimed_single_document:
  "list_all (\<lambda>item. item_timestamp item = None \<or> item_timestamp item = Some []) data \<Longrightarrow>
   \<exists>docs. rag_preprocess sl data = Inr docs \<and>
     map (\<lambda>d. lm_message_count (l_metadata d)) docs =
       (if 3 \<le> length (filter legacy_accepted data) then [length (filter legacy_accepted data)] else [])"
proof -
  let ?k = "length (filter legacy_accepted data)"
  assume "list_all (\<lambda>item. item_timestamp item = None \<or> item_timestamp item = Some []) data"
  then have "list_all (\<lambda>item. snd (snd (item_fields item)) = []) data"
    by (auto simp: list_all_iff item_fields_def)
  then obtain st where run: "foldM (rag_step sl) rag_init (enumerate 0 data) = Inr st"
      and c: "rag_untimed ?k st"
    using rag_run_untimed by blast
  show ?thesis
  proof (cases "3 \<le> length (r_window st)")
    case True
    then have "r_window st \<noteq> []" by auto
    then obtain d where "window_document sl (r_window st) (r_conversation_id st) = Inr d"
        and "lm_message_count (l_metadata d) = length (r_window st)"
      using window_document_ok by blast
    with True run c show ?thesis
      by (simp add: rag_preprocess_def rag_finish_def rag_untimed_def)
  next
    case False
    with run c show ?thesis
      by (simp add: rag_preprocess_def rag_finish_def rag_untimed_def)
  qed
qed

theorem rag_untimed_single_document_witness:
  "list_all (\<lambda>item. item_timestamp item = None \<or> item_timestamp item = Some [])
     (replicate 30 \<lparr>item_author = Some (ustr ''Ana''), item_message = Some (ustr ''tudo bem''), item_timestamp = None\<rparr>) \<and>
   (\<exists>docs. rag_preprocess remdups
      (replicate 30 \<lparr>item_author = Some (ustr ''Ana''), item_message = Some (ustr ''tudo bem''), item_timestamp = None\<rparr>) =
      Inr docs \<and> map (\<lambda>d. lm_message_count (l_metadata d)) docs = [30])"
proof -
  have k: "length (filter legacy_accepted
     (replicate 30 \<lparr>item_author = Some (ustr ''Ana''), item_message = Some (ustr ''tudo bem''), item_timestamp = None\<rparr>)) = 30"
    by code_simp
  show ?thesis
    using rag_untimed_single_document [of
      "replicate 30 \<lparr>item_author = Some (ustr ''Ana''), item_message = Some (ustr ''tudo bem''), item_timestamp = None\<rparr>"
      remdups] k
    by (simp add: list_all_iff)
qed

text \<open>
  C24. app.py's preprocessing never raises and cuts every 10 accepted messages: the
  documents hold 10 messages each, followed by the remainder when it has at least 3.
\<close>

theorem app_window_sizes:
  "\<exists>docs ps. app_preprocess sl data = Inr (docs, ps) \<and>
     map (\<lambda>d. lm_message_count (l_metadata d)) docs =
       replicate (length (filter legacy_accepted data) div 10) 10 @
       (if 3 \<le> length (filter legacy_accepted data) mod 10
        then [length (filter legacy_accepted data) mod 10] else [])"
proof -
  let ?k = "length (filter legacy_accepted data)"
  obtain st where run: "foldM (app_step sl) app_init (enumerate 0 data) = Inr st"
      and c: "app_counts ?k st"
    using app_run by blast
  show ?thesis
  proof (cases "3 \<le> length (a_window st)")
    case True
    then have "a_window st \<noteq> []" by auto
    then obtain d where "window_document sl (a_window st) (a_conversation_id st) = Inr d"
        and "lm_message_count (l_metadata d) = length (a_window st)"
      using window_document_ok by blast
    with True run c show ?thesis
      by (simp add: app_preprocess_def app_finish_def app_counts_def)
  next
    case False
    with run c show ?thesis
      by (simp add: app_preprocess_def app_finish_def app_counts_def)
  qed
qed

end
