(* ===== verification/Formatter.thy ===== *)
theory Formatter
  imports Normalizer
begin

text \<open>
  \<open>format_response\<close> of app.py: the answer of the QA chain loses its asterisks and a
  list of stock opening phrases, whitespace is collapsed, the first letter is
  capitalised, the text is cut into sentences at a full stop followed by whitespace and
  an upper-case ASCII letter, and the sentences are grouped into paragraphs separated
  by blank lines.
\<close>

section \<open>String primitives\<close>

text \<open>
  \<open>s.replace(old, new)\<close>: non-overlapping occurrences, left to right. The empty
  pattern matches before every character and at the end.
\<close>

function py_replace :: "pystr \<Rightarrow> pystr \<Rightarrow> pystr \<Rightarrow> pystr" where
  "py_replace old new s =
     (if old = [] then new @ concat (map (\<lambda>c. c # new) s)
      else if s = [] then []
      else if take (length old) s = old then new @ py_replace old new (drop (length old) s)
      else hd s # py_replace old new (tl s))"
  by pat_completeness auto
termination
  by (relation "measure (\<lambda>(old, new, s). length s)") auto

text \<open>
  \<open>str.islower\<close> and \<open>str.upper\<close> on one character of Latin-1: \<open>\<mu>\<close> becomes
  U+039C, \<open>\<ss>\<close> becomes \<open>SS\<close>, \<open>\<yuml>\<close> becomes U+0178, the other lower-case
  letters move 32 code points up; \<open>\<ordfeminine>\<close> and \<open>\<ordmasculine>\<close> are lower case
  with no upper-case form. Code points from 256 on are taken as not lower case.
\<close>

definition py_islower_char :: "nat \<Rightarrow> bool" where
  "py_islower_char c \<longleftrightarrow>
     (97 \<le> c \<and> c \<le> 122) \<or> c = 170 \<or> c = 181 \<or> c = 186 \<or> (223 \<le> c \<and> c \<le> 246) \<or>
     (248 \<le> c \<and> c \<le> 255)"

definition py_upper_char :: "nat \<Rightarrow> pystr" where
  "py_upper_char c =
     (if (97 \<le> c \<and> c \<le> 122) \<or> (224 \<le> c \<and> c \<le> 246) \<or> (248 \<le> c \<and> c \<le> 254) then [c - 32]
      else if c = 181 then [924] else if c = 223 then [83, 83] else if c = 255 then [376] else [c])"

definition is_ascii_upper :: "nat \<Rightarrow> bool" where
  "is_ascii_upper c \<longleftrightarrow> 65 \<le> c \<and> c \<le> 90"

section \<open>format_response\<close>

definition no_info_message :: pystr where
  "no_info_message =
     ustr ''N'' @ [227] @ ustr ''o encontrei informa'' @ [231, 245] @ ustr ''es sobre isso nas conversas.''"

definition technical_phrases :: "pystr list" where
  "technical_phrases =
    [ustr ''Baseado nas conversas analisadas,'',
     ustr ''De acordo com o contexto fornecido,'',
     ustr ''Analisando as informa'' @ [231, 245] @ ustr ''es dispon'' @ [237] @ ustr ''veis,'',
     ustr ''Com base nos dados apresentados,'',
     ustr ''Segundo as conversas examinadas,'']"

text \<open>\<open>response[0].upper() + response[1:]\<close> when the first character is lower case.\<close>

definition capitalise :: "pystr \<Rightarrow> pystr" where
  "capitalise r = (if r \<noteq> [] \<and> py_islower_char (hd r) then py_upper_char (hd r) @ tl r else r)"

text \<open>Everything before the sentence split.\<close>

definition clean_response :: "pystr \<Rightarrow> pystr" where
  "clean_response raw =
     (let r1 = py_replace [42, 42] [] (py_replace [42] [] raw);
          r2 = foldl (\<lambda>r phrase. py_replace phrase [] r) r1 technical_phrases
      in capitalise (py_strip (collapse_ws r2)))"

text \<open>
  \<open>re.split(r'(?<=\.)\s+(?=[A-Z])', response)\<close>: a match starts right after a full
  stop, takes the whole whitespace run (a shorter one cannot be followed by a letter)
  and needs an upper-case ASCII letter after it. \<open>cur\<close> is the piece read so far.
\<close>

function split_sentences :: "pystr \<Rightarrow> pystr \<Rightarrow> pystr list" where
  "split_sentences cur [] = [cur]"
| "split_sentences cur (c # cs) =
     (let rest = dropWhile is_py_space cs
      in if c = 46 \<and> cs \<noteq> [] \<and> is_py_space (hd cs) \<and> rest \<noteq> [] \<and> is_ascii_upper (hd rest)
         then (cur @ [c]) # split_sentences [] rest
         else split_sentences (cur @ [c]) cs)"
  by pat_completeness auto
termination
  by (relation "measure (\<lambda>(cur, s). length s)") (auto simp: le_imp_less_Suc length_dropWhile_le)

text \<open>The paragraph loop: \<open>paragraphs\<close> and \<open>current_paragraph\<close>.\<close>

record para_state =
  p_paragraphs :: "pystr list"
  p_current :: "pystr list"

definition para_step :: "para_state \<Rightarrow> pystr \<Rightarrow> para_state" where
  "para_step st sentence0 =
     (let sentence = py_strip sentence0
      in if sentence = [] then st
         else let cur = p_current st @ [sentence]
              in if 2 \<le> length cur \<and> last sentence \<in> {46, 33, 63}
                 then st\<lparr>p_paragraphs := p_paragraphs st @ [py_join [32] cur], p_current := []\<rparr>
                 else st\<lparr>p_current := cur\<rparr>)"

text \<open>After the loop: \<open>if current_paragraph: paragraphs.append(' '.join(...))\<close>.\<close>

definition para_flush :: "para_state \<Rightarrow> pystr list" where
  "para_flush st =
     (if p_current st \<noteq> [] then p_paragraphs st @ [py_join [32] (p_current st)] else p_paragraphs st)"

definition group_paragraphs :: "pystr list \<Rightarrow> pystr list" where
  "group_paragraphs sentences =
     para_flush (foldl para_step \<lparr>p_paragraphs = [], p_current = []\<rparr> sentences)"

text \<open>\<open>re.sub(r'\n{3,}', '\n\n', s)\<close>.\<close>

function sub_newlines :: "pystr \<Rightarrow> pystr" where
  "sub_newlines [] = []"
| "sub_newlines (c # cs) =
     (if c = 10 \<and> 3 \<le> length (takeWhile (\<lambda>x. x = 10) (c # cs))
      then [10, 10] @ sub_newlines (dropWhile (\<lambda>x. x = 10) cs)
      else c # sub_newlines cs)"
  by pat_completeness auto
termination
  by (relation "measure length") (auto simp: le_imp_less_Suc length_dropWhile_le)

definition format_response :: "pystr \<Rightarrow> pystr" where
  "format_response raw =
     (if raw = [] then no_info_message
      else let response = clean_response raw;
               sentences = split_sentences [] response;
               paragraphs = group_paragraphs sentences
           in py_strip (sub_newlines (py_join [10, 10] paragraphs)))"

section \<open>Reference formatter\<close>

text \<open>Consecutive pairs of a list.\<close>

fun pairs :: "'a list \<Rightarrow> 'a list list" where
  "pairs [] = []"
| "pairs [x] = [[x]]"
| "pairs (x # y # zs) = [x, y] # pairs zs"

text \<open>
  What the formatter computes, said directly: the sentences of the cleaned text two by
  two, a paragraph per pair.
\<close>

definition reference_format :: "pystr \<Rightarrow> pystr" where
  "reference_format raw =
     (if raw = [] then no_info_message
      else py_join [10, 10] (map (py_join [32]) (pairs (split_sentences [] (clean_response raw)))))"

section \<open>Specification predicates\<close>

text \<open>
  The text after \<open>re.sub(r'\s+', ' ', ...)\<close>: the single space is its only whitespace
  and never doubled; and the form after \<open>strip()\<close>: no whitespace at either end.
\<close>

definition single_spaced :: "pystr \<Rightarrow> bool" where
  "single_spaced s \<longleftrightarrow> (\<forall>c\<in>set s. is_py_space c \<longrightarrow> c = 32) \<and> no_double_space s"

definition stripped :: "pystr \<Rightarrow> bool" where
  "stripped s \<longleftrightarrow> s = [] \<or> \<not> is_py_space (hd s) \<and> \<not> is_py_space (last s)"

text \<open>No run of three line feeds: the text \<open>re.sub(r'\n{3,}', ...)\<close> leaves alone.\<close>

fun no_triple_nl :: "pystr \<Rightarrow> bool" where
  "no_triple_nl (a # b # c # cs) = (\<not> (a = 10 \<and> b = 10 \<and> c = 10) \<and> no_triple_nl (b # c # cs))"
| "no_triple_nl _ = True"

section \<open>Lemmas\<close>

declare py_replace.simps [simp del]

lemma py_replace_Nil [simp]: "old \<noteq> [] \<Longrightarrow> py_replace old new [] = []"
  by (simp add: py_replace.simps)

lemma py_replace_Cons:
  "old \<noteq> [] \<Longrightarrow> py_replace old new (a # s) =
     (if take (length old) (a # s) = old then new @ py_replace old new (drop (length old) (a # s))
      else a # py_replace old new s)"
  by (subst py_replace.simps) simp

lemma py_replace_append_prefix:
  "old \<noteq> [] \<Longrightarrow> hd old \<notin> set x \<Longrightarrow> py_replace old new (x @ s) = x @ py_replace old new s"
proof (induction x)
  case (Cons a x)
  have "take (length old) (a # x @ s) \<noteq> old"
    using Cons.prems by (cases old) auto
  with Cons show ?case by (simp add: py_replace_Cons)
qed simp

lemma py_join_Cons: "xs \<noteq> [] \<Longrightarrow> py_join sep (x # xs) = x @ sep @ py_join sep xs"
  by (cases xs) auto

lemma py_join_ends:
  "ps \<noteq> [] \<Longrightarrow> \<forall>p\<in>set ps. p \<noteq> [] \<Longrightarrow>
     py_join sep ps \<noteq> [] \<and> hd (py_join sep ps) = hd (hd ps) \<and> last (py_join sep ps) = last (last ps)"
  by (induction sep ps rule: py_join.induct) auto

lemma set_py_join: "set (py_join sep ps) \<subseteq> set sep \<union> \<Union> (set (map set ps))"
  by (induction sep ps rule: py_join.induct) auto

lemma dropWhile_hd_id: "xs \<noteq> [] \<Longrightarrow> \<not> P (hd xs) \<Longrightarrow> dropWhile P xs = xs"
  by (cases xs) auto

lemma py_strip_id: "stripped x \<Longrightarrow> py_strip x = x"
proof (cases "x = []")
  case False
  assume "stripped x"
  with False have "\<not> is_py_space (hd x)" "\<not> is_py_space (hd (rev x))"
    by (auto simp: stripped_def hd_rev)
  with False show ?thesis
    by (simp add: py_strip_def dropWhile_hd_id)
qed (simp add: py_strip_def)

lemma single_spaced_infix: "single_spaced (a @ t @ b) \<Longrightarrow> single_spaced t"
  unfolding single_spaced_def by (simp add: no_double_space_append)

lemma single_spaced_collapse_ws: "single_spaced (collapse_ws s)"
  by (simp add: single_spaced_def collapse_ws_spaces no_double_space_collapse_ws)

lemma single_spaced_py_strip:
  "single_spaced s \<Longrightarrow> single_spaced (py_strip s) \<and> stripped (py_strip s)"
proof -
  assume ok: "single_spaced s"
  obtain a b where "s = a @ py_strip s @ b"
    using py_strip_infix by blast
  with ok have "single_spaced (py_strip s)"
    by (metis single_spaced_infix)
  then show ?thesis
    using py_strip_ends [of s] by (auto simp: stripped_def)
qed

lemma space10: "is_py_space 10"
  by (simp add: is_py_space_def)

lemma single_spaced_no_nl: "single_spaced s \<Longrightarrow> 10 \<notin> set s"
  unfolding single_spaced_def using space10 by fastforce

lemma not_space_range: "65 \<le> d \<Longrightarrow> d \<le> 924 \<Longrightarrow> d \<noteq> 133 \<Longrightarrow> d \<noteq> 160 \<Longrightarrow> \<not> is_py_space d"
  unfolding is_py_space_def by (intro notI, elim disjE conjE; linarith)

lemma py_upper_char_props:
  assumes "py_islower_char c"
  shows "py_upper_char c \<noteq> [] \<and> (\<forall>d\<in>set (py_upper_char c). \<not> is_py_space d)"
proof (cases "(97 \<le> c \<and> c \<le> 122) \<or> (224 \<le> c \<and> c \<le> 246) \<or> (248 \<le> c \<and> c \<le> 254)")
  case True
  then have "65 \<le> c - 32" "c - 32 \<le> 924" "c - 32 \<noteq> 133" "c - 32 \<noteq> 160" by linarith+
  then have "\<not> is_py_space (c - 32)" by (rule not_space_range)
  with True show ?thesis by (simp add: py_upper_char_def)
next
  case False
  with assms have "c = 170 \<or> c = 181 \<or> c = 186 \<or> c = 223 \<or> c = 255"
    unfolding py_islower_char_def by linarith
  then show ?thesis
    by (elim disjE) (simp_all add: py_upper_char_def not_space_range)
qed
lemma no_double_space_no_32: "32 \<notin> set u \<Longrightarrow> no_double_space u"
  by (induction u rule: no_double_space.induct) auto

lemma capitalise_form:
  assumes "single_spaced s" "stripped s"
  shows "single_spaced (capitalise s) \<and> stripped (capitalise s)"
proof (cases "s \<noteq> [] \<and> py_islower_char (hd s)")
  case True
  let ?u = "py_upper_char (hd s)"
  have u: "?u \<noteq> []" "\<forall>d\<in>set ?u. \<not> is_py_space d"
    using True py_upper_char_props by blast+
  have s: "s = hd s # tl s" using True by simp
  have tl: "single_spaced (tl s)"
    using assms(1) single_spaced_infix [of "[hd s]" "tl s" "[]"] s by simp
  have "32 \<notin> set ?u" using u(2) space32(1) by blast
  then have nd: "no_double_space ?u" "last ?u \<noteq> 32"
    using u(1) by (auto intro: no_double_space_no_32 dest: last_in_set)
  with tl u have "single_spaced (?u @ tl s)"
    by (auto simp: single_spaced_def no_double_space_append)
  moreover have "stripped (?u @ tl s)"
  proof -
    have "last (?u @ tl s) = (if tl s = [] then last ?u else last s)"
      by (simp add: last_append last_tl)
    then show ?thesis
      using assms(2) u True by (simp add: stripped_def)
  qed
  ultimately show ?thesis using True by (simp add: capitalise_def)
qed (use assms in \<open>auto simp: capitalise_def\<close>)

lemma clean_response_form:
  "single_spaced (clean_response raw) \<and> stripped (clean_response raw)"
proof -
  have "single_spaced (capitalise (py_strip (collapse_ws r))) \<and>
        stripped (capitalise (py_strip (collapse_ws r)))" for r
    using single_spaced_py_strip [OF single_spaced_collapse_ws [of r]] capitalise_form by blast
  then show ?thesis
    unfolding clean_response_def Let_def .
qed

lemma split_sentences_nonempty [simp]: "split_sentences cur s \<noteq> []"
  by (induction cur s rule: split_sentences.induct) (auto simp: Let_def)

lemma single_spaced_Cons: "single_spaced (c # cs) \<Longrightarrow> single_spaced cs"
  using single_spaced_infix [of "[c]" cs "[]"] by simp

lemma split_sentences_skip:
  assumes "\<not> (c = 46 \<and> cs \<noteq> [] \<and> is_py_space (hd cs) \<and> dropWhile is_py_space cs \<noteq> [] \<and>
               is_ascii_upper (hd (dropWhile is_py_space cs)))"
  shows "split_sentences cur (c # cs) = split_sentences (cur @ [c]) cs"
  unfolding split_sentences.simps(2) Let_def using assms by (rule if_not_P)

lemma split_point:
  assumes "single_spaced (c # cs)" "cs \<noteq> []" "is_py_space (hd cs)"
  shows "hd cs = 32 \<and> dropWhile is_py_space cs = tl cs"
proof -
  have h: "hd cs = 32" using assms by (auto simp: single_spaced_def)
  have "tl cs = [] \<or> \<not> is_py_space (hd (tl cs))"
  proof (cases "tl cs")
    case (Cons d ds)
    then have "cs = 32 # d # ds" using h assms(2) by (metis list.collapse)
    with assms(1) Cons show ?thesis by (auto simp: single_spaced_def)
  qed simp
  moreover obtain ds where "cs = 32 # ds" using h assms(2) by (metis list.collapse)
  ultimately show ?thesis
    by (cases ds) (auto simp: dropWhile_hd_id space32)
qed

lemma split_sentences_join:
  "single_spaced s \<Longrightarrow> py_join [32] (split_sentences cur s) = cur @ s"
proof (induction cur s rule: split_sentences.induct)
  case (2 cur c cs)
  let ?rest = "dropWhile is_py_space cs"
  have cs: "single_spaced cs" using "2.prems" by (rule single_spaced_Cons)
  show ?case
  proof (cases "c = 46 \<and> cs \<noteq> [] \<and> is_py_space (hd cs) \<and> ?rest \<noteq> [] \<and> is_ascii_upper (hd ?rest)")
    case True
    with split_point [OF "2.prems"] have "?rest = tl cs" "cs = 32 # tl cs"
      by (metis list.collapse)+
    moreover have "single_spaced (tl cs)"
      using cs \<open>cs = 32 # tl cs\<close> by (metis single_spaced_Cons)
    ultimately show ?thesis
      using True "2.IH"(1) by (simp add: py_join_Cons)
  next
    case False
    have "py_join [32] (split_sentences (cur @ [c]) cs) = (cur @ [c]) @ cs"
      using "2.IH"(2) [OF refl False] cs .
    then show ?thesis unfolding split_sentences_skip [OF False] by simp
  qed
qed simp

lemma split_sentences_pieces:
  "cur @ s \<noteq> [] \<Longrightarrow> stripped (cur @ s) \<Longrightarrow>
     (\<forall>x\<in>set (split_sentences cur s). x \<noteq> [] \<and> stripped x \<and> set x \<subseteq> set cur \<union> set s) \<and>
     (\<forall>x\<in>set (butlast (split_sentences cur s)). last x = 46)"
proof (induction cur s rule: split_sentences.induct)
  case (2 cur c cs)
  let ?rest = "dropWhile is_py_space cs"
  show ?case
  proof (cases "c = 46 \<and> cs \<noteq> [] \<and> is_py_space (hd cs) \<and> ?rest \<noteq> [] \<and> is_ascii_upper (hd ?rest)")
    case True
    have up: "\<not> is_py_space (hd ?rest)"
      using True by (auto simp: is_ascii_upper_def is_py_space_def)
    have "last ?rest = last (cur @ c # cs)"
      using True by (simp add: last_dropWhile)
    then have st: "stripped ?rest"
      using "2.prems"(2) up by (simp add: stripped_def)
    have first: "stripped (cur @ [c])"
      using "2.prems"(2) True by (cases cur) (auto simp: stripped_def is_py_space_def)
    have sub: "set ?rest \<subseteq> set cs" by (auto dest: set_dropWhileD)
    from "2.IH"(1) [OF _ True] True st
    have "(\<forall>x\<in>set (split_sentences [] ?rest). x \<noteq> [] \<and> stripped x \<and> set x \<subseteq> set ?rest) \<and>
          (\<forall>x\<in>set (butlast (split_sentences [] ?rest)). last x = 46)"
      by simp
    with first sub True show ?thesis
      by (auto simp: Let_def)
  next
    case False
    with "2.IH"(2) [OF _ False] "2.prems" show ?thesis
      by (auto simp: Let_def)
  qed
qed (simp add: stripped_def)

lemma foldl_para_step:
  "list_all (\<lambda>x. x \<noteq> [] \<and> stripped x) ss \<Longrightarrow> list_all (\<lambda>x. last x = 46) (butlast ss) \<Longrightarrow>
     para_flush (foldl para_step \<lparr>p_paragraphs = P, p_current = []\<rparr> ss) = P @ map (py_join [32]) (pairs ss)"
proof (induction ss arbitrary: P rule: pairs.induct)
  case 2
  then show ?case by (simp add: para_step_def para_flush_def py_strip_id)
next
  case (3 x y zs)
  show ?case
  proof (cases "zs = []")
    case True
    with "3.prems" show ?thesis by (simp add: para_step_def para_flush_def py_strip_id Let_def)
  next
    case False
    with "3.prems" have "last y = 46" by simp
    with "3.prems" "3.IH" [of "P @ [x @ 32 # y]"] False show ?thesis
      by (simp add: para_step_def py_strip_id)
  qed
qed (simp add: para_flush_def)

lemma sub_newlines_id: "no_triple_nl s \<Longrightarrow> sub_newlines s = s"
proof (induction s rule: sub_newlines.induct)
  case (2 c cs)
  have "no_triple_nl cs" using "2.prems" by (cases cs rule: no_triple_nl.cases) auto
  moreover have "\<not> (c = 10 \<and> 3 \<le> length (takeWhile (\<lambda>x. x = 10) (c # cs)))"
    using "2.prems" by (cases cs rule: no_triple_nl.cases) auto
  ultimately show ?case using "2.IH"(2) by simp
qed simp

lemma no_triple_nl_Cons:
  "no_triple_nl (a # s) \<longleftrightarrow> no_triple_nl s \<and> \<not> (a = 10 \<and> take 2 s = [10, 10])"
  by (cases s rule: no_triple_nl.cases) auto

lemma no_triple_nl_join:
  "\<forall>p\<in>set ps. p \<noteq> [] \<and> 10 \<notin> set p \<Longrightarrow> no_triple_nl (py_join [10, 10] ps)"
proof (induction "[10::nat, 10]" ps rule: py_join.induct)
  case (2 x)
  then show ?case
    by (induction x rule: no_triple_nl.induct) auto
next
  case (3 x y zs)
  let ?r = "py_join [10, 10] (y # zs)"
  have y: "y \<noteq> []" "10 \<notin> set y" using "3.prems" by auto
  then have "hd y \<noteq> 10" by (metis hd_in_set)
  then have r: "?r \<noteq> []" "hd ?r \<noteq> 10" "no_triple_nl ?r"
    using 3 py_join_ends [of "y # zs" "[10, 10]"] by auto
  have "no_triple_nl (x @ 10 # 10 # ?r)" if "x \<noteq> []" "10 \<notin> set x"
    using that
  proof (induction x)
    case (Cons a x)
    then show ?case
      using r by (cases x; cases ?r) (auto simp: no_triple_nl_Cons)
  qed simp
  with "3.prems" show ?case by simp
qed simp

lemma pairs_Nil_iff [simp]: "pairs xs = [] \<longleftrightarrow> xs = []"
  by (cases xs rule: pairs.cases) auto

lemma join_pairs: "py_join sep (map (py_join sep) (pairs ss)) = py_join sep ss"
proof (induction ss rule: pairs.induct)
  case (3 x y zs)
  then show ?case by (cases zs) (auto simp: py_join_Cons)
qed simp_all

lemma pairs_pieces:
  "\<forall>x\<in>set ss. x \<noteq> [] \<and> stripped x \<and> 10 \<notin> set x \<Longrightarrow>
     \<forall>p\<in>set (map (py_join [32]) (pairs ss)). p \<noteq> [] \<and> stripped p \<and> 10 \<notin> set p"
proof (induction ss rule: pairs.induct)
  case (3 x y zs)
  then show ?case by (auto simp: stripped_def)
qed simp_all

lemma py_replace_join:
  "\<forall>p\<in>set ps. 10 \<notin> set p \<Longrightarrow> py_replace [10, 10] [32] (py_join [10, 10] ps) = py_join [32] ps"
proof (induction "[10::nat, 10]" ps rule: py_join.induct)
  case (2 x)
  then show ?case using py_replace_append_prefix [of "[10, 10]" x "[32]" "[]"] by simp
next
  case (3 x y zs)
  then show ?case
    using py_replace_append_prefix [of "[10, 10]" x "[32]"] by (simp add: py_replace_Cons)
qed simp

text \<open>
  The part of \<open>format_response\<close> after the cleaning, on a text in the cleaned form:
  the paragraph loop, the newline substitution and the final strip amount to pairing
  the sentences.
\<close>

lemma format_body:
  assumes "single_spaced r" "stripped r"
  shows "py_strip (sub_newlines (py_join [10, 10] (group_paragraphs (split_sentences [] r)))) =
           py_join [10, 10] (map (py_join [32]) (pairs (split_sentences [] r)))"
proof (cases "r = []")
  case True
  then show ?thesis by (simp add: group_paragraphs_def para_step_def para_flush_def py_strip_def)
next
  case False
  let ?ss = "split_sentences [] r"
  let ?ps = "map (py_join [32]) (pairs ?ss)"
  have pieces: "\<forall>x\<in>set ?ss. x \<noteq> [] \<and> stripped x \<and> 10 \<notin> set x" "list_all (\<lambda>x. last x = 46) (butlast ?ss)"
    using split_sentences_pieces [of "[]" r] False assms single_spaced_no_nl [OF assms(1)]
    by (auto simp: list_all_iff)
  then have "group_paragraphs ?ss = ?ps"
    using foldl_para_step [of ?ss "[]"] by (simp add: group_paragraphs_def list_all_iff)
  moreover have ps: "\<forall>p\<in>set ?ps. p \<noteq> [] \<and> stripped p \<and> 10 \<notin> set p"
    using pairs_pieces pieces(1) by blast
  moreover have ne: "?ps \<noteq> []" by simp
  have "hd ?ps \<in> set ?ps" "last ?ps \<in> set ?ps"
    using ne by (rule hd_in_set, rule last_in_set)
  then have "stripped (hd ?ps)" "stripped (last ?ps)" "hd ?ps \<noteq> []" "last ?ps \<noteq> []"
    using ps by blast+
  then have "stripped (py_join [10, 10] ?ps)"
    using ps ne py_join_ends [of ?ps "[10, 10]"] by (simp add: stripped_def)
  ultimately show ?thesis
    using no_triple_nl_join [of ?ps] by (simp add: sub_newlines_id py_strip_id)
qed

text \<open>C27. format_response computes the reference formatter: the sentences two by two.\<close>

theorem format_response_equiv: "format_response raw = reference_format raw"
  using format_body clean_response_form
  by (simp add: format_response_def reference_format_def Let_def)

text \<open>C28. Replacing each blank line of the reply by a space gives back the cleaned text.\<close>

theorem format_response_roundtrip:
  "raw \<noteq> [] \<Longrightarrow> py_replace [10, 10] [32] (format_response raw) = clean_response raw"
proof -
  assume raw: "raw \<noteq> []"
  let ?r = "clean_response raw"
  let ?ss = "split_sentences [] ?r"
  have form: "single_spaced ?r" "stripped ?r" using clean_response_form by blast+
  have "\<forall>p\<in>set (map (py_join [32]) (pairs ?ss)). 10 \<notin> set p"
  proof (cases "?r = []")
    case False
    then have "\<forall>x\<in>set ?ss. x \<noteq> [] \<and> stripped x \<and> 10 \<notin> set x"
      using split_sentences_pieces [of "[]" ?r] form single_spaced_no_nl [OF form(1)] by auto
    then show ?thesis using pairs_pieces by blast
  qed simp
  then have "py_replace [10, 10] [32] (format_response raw) = py_join [32] ?ss"
    using raw format_body [OF form] py_replace_join join_pairs
    by (simp add: format_response_def Let_def)
  then show ?thesis using split_sentences_join [OF form(1), of "[]"] by simp
qed

theorem format_response_roundtrip_witness:
  "py_replace [10, 10] [32] (format_response (ustr ''ola. Tudo bem. Sim.'')) = ustr ''Ola. Tudo bem. Sim.''"
proof -
  have "clean_response (ustr ''ola. Tudo bem. Sim.'') = ustr ''Ola. Tudo bem. Sim.''" by code_simp
  then show ?thesis using format_response_roundtrip [of "ustr ''ola. Tudo bem. Sim.''"]
    by (simp add: ustr_def)
qed

text \<open>C29. The reply is empty exactly when a non-empty answer cleans to nothing.\<close>

theorem format_response_empty_iff:
  "format_response raw = [] \<longleftrightarrow> raw \<noteq> [] \<and> clean_response raw = []"
proof (cases "raw = []")
  case True
  then show ?thesis by (simp add: format_response_def no_info_message_def ustr_def)
next
  case False
  let ?r = "clean_response raw"
  have form: "single_spaced ?r" "stripped ?r" using clean_response_form by blast+
  have "py_join [10, 10] (map (py_join [32]) (pairs (split_sentences [] ?r))) \<noteq> []" if "?r \<noteq> []"
  proof -
    let ?ss = "split_sentences [] ?r"
    have "\<forall>x\<in>set ?ss. x \<noteq> [] \<and> stripped x \<and> 10 \<notin> set x"
      using split_sentences_pieces [of "[]" ?r] that form single_spaced_no_nl [OF form(1)] by auto
    then have "\<forall>p\<in>set (map (py_join [32]) (pairs ?ss)). p \<noteq> []"
      using pairs_pieces by blast
    moreover have "map (py_join [32]) (pairs ?ss) \<noteq> []" by simp
    ultimately show ?thesis using py_join_ends by blast
  qed
  then show ?thesis
    using False format_body [OF form] by (auto simp: format_response_def Let_def)
qed

theorem format_response_empty_iff_witness: "format_response (ustr ''**'') = []"
proof -
  have "clean_response (ustr ''**'') = []" by code_simp
  then show ?thesis using format_response_empty_iff [of "ustr ''**''"] by (simp add: ustr_def)
qed

end
