(* ===== verification/Server.thy ===== *)
theory Server
  imports Legacy Ingestion Formatter
begin

text \<open>
  The Flask server of app.py: the global state (\<open>chatbot\<close>, \<open>db\<close>,
  \<open>initialization_error\<close>, \<open>conversation_stats\<close>), \<open>initialize_chatbot_sync\<close> and the
  handlers of \<open>/api/chat\<close>, \<open>/api/status\<close> and \<open>/api/initialize\<close>. What the handlers
  learn from the outside world is a record \<open>init_env\<close>: whether the API key and the JSON
  file exist, whether the embedding model, the stored database and the QA chain can be
  built, the loaded records, and which store calls fail. The preprocessing, the
  store submission and the answer formatting are the models of Legacy, Ingestion and
  Formatter. The QA chain is represented
  by the store it answers from; error messages by the datatype of their causes.
  Requests are handled one at a time.
\<close>

section \<open>State\<close>

datatype init_error =
    ApiKeyMissing | JsonNotFound | EmbeddingFailed | NoConversations
  | CreateAfterLoadFailed | CreateFailed | ChatbotFailed

record conv_stats =
  total_conversations :: nat
  total_documents :: nat
  stats_participants :: "pystr set"
  is_loaded :: bool
  error_message :: "init_error option"

record server_state =
  chatbot :: "legacy_document list option"
  db :: "legacy_document list option"
  initialization_error :: "init_error option"
  conversation_stats :: conv_stats

definition server_init :: server_state where
  "server_init =
     \<lparr>chatbot = None, db = None, initialization_error = None,
      conversation_stats = \<lparr>total_conversations = 0, total_documents = 0, stats_participants = {},
                            is_loaded = False, error_message = None\<rparr>\<rparr>"

text \<open>The outcomes of the calls \<open>initialize_chatbot_sync\<close> makes to the environment.\<close>

record init_env =
  env_api_key :: bool
  env_json_exists :: bool
  env_embedding_ok :: bool
  env_db_exists :: bool
  env_chroma_ok :: bool
  env_existing :: "legacy_document list"
  env_test_query_ok :: bool
  env_count_ok :: bool
  env_data :: "raw_item list option"
  env_set_list :: "pystr list \<Rightarrow> pystr list"
  env_store_fails :: "nat \<Rightarrow> bool"
  env_qa_ok :: bool

section \<open>initialize_chatbot_sync\<close>

definition fail_with :: "init_error \<Rightarrow> server_state \<Rightarrow> bool \<times> server_state" where
  "fail_with e s =
     (False, s\<lparr>initialization_error := Some e,
               conversation_stats := (conversation_stats s)\<lparr>error_message := Some e\<rparr>\<rparr>)"

text \<open>
  The creation branch: \<open>preprocess_whatsapp_data\<close> (loading the file may raise), the
  empty check, \<open>create_vector_database_with_logging\<close> and the statistics. \<open>Inl\<close> is
  the error the branch returns with and the globals at that moment.
\<close>

definition create_database ::
  "init_env \<Rightarrow> init_error \<Rightarrow> server_state \<Rightarrow> (init_error \<times> server_state) + server_state" where
  "create_database env err s =
     (case env_data env of
        None \<Rightarrow> Inl (err, s)
      | Some data \<Rightarrow>
          (case app_preprocess (env_set_list env) data of
             Inl _ \<Rightarrow> Inl (err, s)
           | Inr (docs, participants) \<Rightarrow>
               if docs = [] then Inl (NoConversations, s)
               else (case app_create_vector_database (env_store_fails env) docs of
                       Inl _ \<Rightarrow> Inl (err, s)
                     | Inr store \<Rightarrow>
                         Inr (s\<lparr>db := Some store,
                                conversation_stats := (conversation_stats s)\<lparr>
                                  total_conversations := length docs, stats_participants := participants,
                                  total_documents := length docs, is_loaded := True,
                                  error_message := None\<rparr>\<rparr>))))"

text \<open>
  The branch for an existing database: \<open>db\<close> is assigned as soon as the constructor
  returns, before the test query that may still fail and send the run to the creation
  branch.
\<close>

definition load_database :: "init_env \<Rightarrow> server_state \<Rightarrow> (init_error \<times> server_state) + server_state" where
  "load_database env s =
     (if env_chroma_ok env \<and> env_test_query_ok env
      then Inr (s\<lparr>db := Some (env_existing env),
                  conversation_stats := (conversation_stats s)\<lparr>
                    total_documents := (if env_count_ok env then length (env_existing env)
                                        else total_documents (conversation_stats s)),
                    is_loaded := True, error_message := None\<rparr>\<rparr>)
      else create_database env CreateAfterLoadFailed
             (if env_chroma_ok env then s\<lparr>db := Some (env_existing env)\<rparr> else s))"

definition initialize_chatbot_sync :: "init_env \<Rightarrow> server_state \<Rightarrow> bool \<times> server_state" where
  "initialize_chatbot_sync env s =
     (if \<not> env_api_key env then fail_with ApiKeyMissing s
      else if \<not> env_json_exists env then fail_with JsonNotFound s
      else if \<not> env_embedding_ok env then fail_with EmbeddingFailed s
      else (case (if env_db_exists env then load_database env s else create_database env CreateFailed s) of
              Inl (e, s1) \<Rightarrow> fail_with e s1
            | Inr s' \<Rightarrow>
                if env_qa_ok env then (True, s'\<lparr>chatbot := db s'\<rparr>)
                else fail_with ChatbotFailed s'))"

section \<open>Handlers\<close>

datatype reply_error = InitError init_error | NotInitialised | NoQuestion | ProcessingError | UnknownInitError

text \<open>An entry of \<open>sources\<close> in the reply of \<open>/api/chat\<close>.\<close>

record source_info =
  si_id :: nat
  si_preview :: pystr
  si_metadata :: legacy_meta

datatype reply =
    Answer pystr "source_info list"
  | Error nat reply_error
  | StatusReply bool bool "init_error option" conv_stats
  | AlreadyInitialised
  | Initialised

text \<open>The error text of a reply: \<open>initialization_error\<close> when set, else the handler's default.\<close>

definition init_error_reply :: "reply_error \<Rightarrow> server_state \<Rightarrow> reply_error" where
  "init_error_reply dflt s = (case initialization_error s of Some e \<Rightarrow> InitError e | None \<Rightarrow> dflt)"

text \<open>
  The source list of \<open>/api/chat\<close>: the first three source documents, numbered from 1,
  each with a preview of 150 characters and its metadata (the documents of the store
  always carry a non-empty metadata dictionary).
\<close>

definition source_infos :: "legacy_document list \<Rightarrow> source_info list" where
  "source_infos docs =
     map (\<lambda>(i, d). \<lparr>si_id = i, si_preview = preview 150 (l_page_content d), si_metadata = l_metadata d\<rparr>)
       (enumerate 1 (take 3 docs))"

text \<open>
  \<open>/api/chat\<close>: what the QA chain returns for a question is a parameter: \<open>None\<close> when
  it raises, else the answer text and the source documents. The reply carries the answer
  through \<open>format_response\<close> of Formatter and the source list.
\<close>

definition chat ::
  "(pystr \<Rightarrow> (pystr \<times> legacy_document list) option) \<Rightarrow> pystr \<Rightarrow> server_state \<Rightarrow> reply" where
  "chat invoke q s =
     (if chatbot s = None then Error 500 (init_error_reply NotInitialised s)
      else let question = py_strip q
           in if question = [] then Error 400 NoQuestion
              else (case invoke question of
                      None \<Rightarrow> Error 500 ProcessingError
                    | Some (raw, docs) \<Rightarrow> Answer (format_response raw) (source_infos docs)))"

definition get_status :: "server_state \<Rightarrow> reply" where
  "get_status s =
     StatusReply (chatbot s \<noteq> None) (db s \<noteq> None) (initialization_error s) (conversation_stats s)"

definition force_initialize :: "init_env \<Rightarrow> server_state \<Rightarrow> reply \<times> server_state" where
  "force_initialize env s =
     (if chatbot s \<noteq> None then (AlreadyInitialised, s)
      else let (success, s') = initialize_chatbot_sync env s
           in if success then (Initialised, s')
              else (Error 500 (init_error_reply UnknownInitError s'), s'))"

section \<open>The server as a state machine\<close>

text \<open>
  The \<open>__main__\<close> block runs \<open>initialize_chatbot_sync\<close> once on the initial state; then
  requests arrive. Only \<open>/api/initialize\<close> changes the state.
\<close>

inductive server_reach :: "server_state \<Rightarrow> bool" where
  boot: "server_reach (snd (initialize_chatbot_sync env server_init))"
| force: "server_reach s \<Longrightarrow> server_reach (snd (force_initialize env s))"

section \<open>Specification predicates\<close>

text \<open>A ready chatbot implies a loaded database and statistics without error.\<close>

definition ready_inv :: "server_state \<Rightarrow> bool" where
  "ready_inv s \<longleftrightarrow>
     (chatbot s \<noteq> None \<longrightarrow>
        chatbot s = db s \<and> is_loaded (conversation_stats s) \<and> error_message (conversation_stats s) = None)"

section \<open>Lemmas\<close>

lemma chatbot_create_database:
  "create_database env err s = Inl (e, s1) \<Longrightarrow>
     chatbot s1 = chatbot s \<and> initialization_error s1 = initialization_error s"
  "create_database env err s = Inr s' \<Longrightarrow>
     chatbot s' = chatbot s \<and> initialization_error s' = initialization_error s \<and> db s' \<noteq> None \<and>
     is_loaded (conversation_stats s') \<and> error_message (conversation_stats s') = None"
  by (auto simp: create_database_def split: option.splits sum.splits prod.splits if_splits)

lemma chatbot_load_database:
  "load_database env s = Inl (e, s1) \<Longrightarrow>
     chatbot s1 = chatbot s \<and> initialization_error s1 = initialization_error s"
  "load_database env s = Inr s' \<Longrightarrow>
     chatbot s' = chatbot s \<and> initialization_error s' = initialization_error s \<and> db s' \<noteq> None \<and>
     is_loaded (conversation_stats s') \<and> error_message (conversation_stats s') = None"
  by (auto simp: load_database_def dest: chatbot_create_database split: if_splits)

text \<open>What the two database branches of \<open>initialize_chatbot_sync\<close> leave behind.\<close>

lemma database_branch:
  "case (if env_db_exists env then load_database env s else create_database env CreateFailed s) of
     Inl (e, s1) \<Rightarrow> chatbot s1 = chatbot s \<and> initialization_error s1 = initialization_error s
   | Inr s' \<Rightarrow> chatbot s' = chatbot s \<and> initialization_error s' = initialization_error s \<and> db s' \<noteq> None \<and>
              is_loaded (conversation_stats s') \<and> error_message (conversation_stats s') = None"
  using chatbot_create_database chatbot_load_database by (auto split: sum.split)

lemma initialize_ready:
  assumes "chatbot s = None"
  shows "ready_inv (snd (initialize_chatbot_sync env s))"
  using assms database_branch [where env = env and s = s]
  by (auto simp: initialize_chatbot_sync_def fail_with_def ready_inv_def split: sum.splits if_splits)

lemma source_infos_props:
  "length (source_infos docs) = min 3 (length docs) \<and>
   map si_id (source_infos docs) = [1..<Suc (length (source_infos docs))] \<and>
   (\<forall>x\<in>set (source_infos docs). length (si_preview x) \<le> 153)"
proof -
  have len: "length (source_infos docs) = length (take 3 docs)"
    by (simp add: source_infos_def)
  have gen: "map si_id (map (\<lambda>(i, d). \<lparr>si_id = i, si_preview = preview 150 (l_page_content d),
                                            si_metadata = l_metadata d\<rparr>) xs) = map fst xs" for xs
    by (induction xs) auto
  have "map si_id (source_infos docs) = map fst (enumerate 1 (take 3 docs))"
    unfolding source_infos_def gen ..
  also have "\<dots> = [1..<Suc (length (take 3 docs))]"
    by (simp add: map_fst_enumerate)
  finally have ids: "map si_id (source_infos docs) = [1..<Suc (length (source_infos docs))]"
    using len by simp
  have "\<forall>x\<in>set (source_infos docs). length (si_preview x) \<le> 153"
    using preview_bounds(1) [of 150] by (auto simp: source_infos_def)
  with ids len show ?thesis by simp
qed

text \<open>
  C25. In every state the server reaches (the start-up initialisation, then any
  sequence of \<open>/api/initialize\<close> requests), a ready chatbot answers from the loaded
  database, and the statistics say loaded and carry no error.
\<close>

theorem server_ready_invariant: "server_reach s \<Longrightarrow> ready_inv s"
proof (induction rule: server_reach.induct)
  case (boot env)
  show ?case by (rule initialize_ready) (simp add: server_init_def)
next
  case (force s env)
  show ?case
  proof (cases "chatbot s = None")
    case True
    obtain b s' where run: "initialize_chatbot_sync env s = (b, s')" by fastforce
    have "ready_inv s'" using initialize_ready [OF True, of env] run by simp
    then show ?thesis using True run by (simp add: force_initialize_def)
  next
    case False
    then show ?thesis using force.IH by (simp add: force_initialize_def)
  qed
qed

theorem server_ready_invariant_witness:
  "ready_inv (snd (initialize_chatbot_sync
     \<lparr>env_api_key = True, env_json_exists = True, env_embedding_ok = True,
      env_db_exists = True, env_chroma_ok = True, env_existing = [], env_test_query_ok = True,
      env_count_ok = True, env_data = None, env_set_list = remdups, env_store_fails = (\<lambda>_. False),
      env_qa_ok = True\<rparr> server_init))"
  by (rule server_ready_invariant [OF server_reach.boot])

text \<open>
  C26. \<open>initialization_error\<close> is set by every failed initialisation and never reset by a
  successful one: a success leaves it as it was while the chatbot becomes ready and the
  statistics lose their error; a failure sets it, with the same cause in the statistics,
  and leaves the chatbot as it was. So once a start-up has failed, \<open>/api/status\<close>
  reports that error for the rest of the process, even next to a ready chatbot.
\<close>

theorem initialization_error_never_reset:
  "let (ok, s') = initialize_chatbot_sync env s
   in if ok then initialization_error s' = initialization_error s \<and> chatbot s' \<noteq> None \<and>
                 error_message (conversation_stats s') = None
      else initialization_error s' \<noteq> None \<and>
           error_message (conversation_stats s') = initialization_error s' \<and> chatbot s' = chatbot s"
  using database_branch [where env = env and s = s]
  by (auto simp: initialize_chatbot_sync_def fail_with_def split: sum.splits if_splits)

theorem initialization_error_never_reset_witness:
  "let bad = \<lparr>env_api_key = False, env_json_exists = True, env_embedding_ok = True,
      env_db_exists = False, env_chroma_ok = False, env_existing = [], env_test_query_ok = False,
      env_count_ok = False, env_data = None, env_set_list = remdups, env_store_fails = (\<lambda>_. False),
      env_qa_ok = True\<rparr>;
       good = \<lparr>env_api_key = True, env_json_exists = True, env_embedding_ok = True,
      env_db_exists = True, env_chroma_ok = True, env_existing = [], env_test_query_ok = True,
      env_count_ok = True, env_data = None, env_set_list = remdups, env_store_fails = (\<lambda>_. False),
      env_qa_ok = True\<rparr>;
       s0 = snd (initialize_chatbot_sync bad server_init)
   in fst (initialize_chatbot_sync good s0) \<and>
      initialization_error (snd (initialize_chatbot_sync good s0)) = Some ApiKeyMissing \<and>
      chatbot (snd (initialize_chatbot_sync good s0)) \<noteq> None"
proof -
  let ?bad = "\<lparr>env_api_key = False, env_json_exists = True, env_embedding_ok = True,
      env_db_exists = False, env_chroma_ok = False, env_existing = [], env_test_query_ok = False,
      env_count_ok = False, env_data = None, env_set_list = remdups, env_store_fails = (\<lambda>_. False),
      env_qa_ok = True\<rparr>"
  let ?good = "\<lparr>env_api_key = True, env_json_exists = True, env_embedding_ok = True,
      env_db_exists = True, env_chroma_ok = True, env_existing = [], env_test_query_ok = True,
      env_count_ok = True, env_data = None, env_set_list = remdups, env_store_fails = (\<lambda>_. False),
      env_qa_ok = True\<rparr>"
  let ?s0 = "snd (initialize_chatbot_sync ?bad server_init)"
  have boot: "initialization_error ?s0 = Some ApiKeyMissing"
    by (simp add: initialize_chatbot_sync_def fail_with_def)
  have ok: "fst (initialize_chatbot_sync ?good ?s0)"
    by (simp add: initialize_chatbot_sync_def load_database_def)
  show ?thesis
    using initialization_error_never_reset [of ?good ?s0] boot ok
    by (simp add: Let_def case_prod_beta)
qed

text \<open>
  C30. \<open>/api/chat\<close> answers only when the chatbot is ready and the stripped question is
  not empty, and its source list holds at most three entries numbered from 1, each with
  a preview of at most 153 characters.
\<close>

theorem chat_answer_sources:
  "chat invoke q s = Answer a srcs \<Longrightarrow>
     chatbot s \<noteq> None \<and> py_strip q \<noteq> [] \<and> length srcs \<le> 3 \<and>
     map si_id srcs = [1..<Suc (length srcs)] \<and> (\<forall>x\<in>set srcs. length (si_preview x) \<le> 153)"
  using source_infos_props [of "snd (the (invoke (py_strip q)))"]
  by (auto simp: chat_def Let_def split: if_splits option.splits prod.splits)

theorem chat_answer_sources_witness:
  "chat (\<lambda>_. Some (ustr ''ok'', [\<lparr>l_page_content = replicate 200 (97::nat),
         l_metadata = \<lparr>lm_conversation_id = ustr ''0'', lm_start_time = [], lm_end_time = [],
                       lm_message_count = 3, lm_participants = ustr ''Ana''\<rparr>\<rparr>, \<lparr>l_page_content = replicate 200 (97::nat),
         l_metadata = \<lparr>lm_conversation_id = ustr ''0'', lm_start_time = [], lm_end_time = [],
                       lm_message_count = 3, lm_participants = ustr ''Ana''\<rparr>\<rparr>, \<lparr>l_page_content = replicate 200 (97::nat),
         l_metadata = \<lparr>lm_conversation_id = ustr ''0'', lm_start_time = [], lm_end_time = [],
                       lm_message_count = 3, lm_participants = ustr ''Ana''\<rparr>\<rparr>, \<lparr>l_page_content = replicate 200 (97::nat),
         l_metadata = \<lparr>lm_conversation_id = ustr ''0'', lm_start_time = [], lm_end_time = [],
                       lm_message_count = 3, lm_participants = ustr ''Ana''\<rparr>\<rparr>])) (ustr '' oi '')
     (server_init\<lparr>chatbot := Some []\<rparr>) =
     Answer (format_response (ustr ''ok'')) (source_infos [\<lparr>l_page_content = replicate 200 (97::nat),
         l_metadata = \<lparr>lm_conversation_id = ustr ''0'', lm_start_time = [], lm_end_time = [],
                       lm_message_count = 3, lm_participants = ustr ''Ana''\<rparr>\<rparr>, \<lparr>l_page_content = replicate 200 (97::nat),
         l_metadata = \<lparr>lm_conversation_id = ustr ''0'', lm_start_time = [], lm_end_time = [],
                       lm_message_count = 3, lm_participants = ustr ''Ana''\<rparr>\<rparr>, \<lparr>l_page_content = replicate 200 (97::nat),
         l_metadata = \<lparr>lm_conversation_id = ustr ''0'', lm_start_time = [], lm_end_time = [],
                       lm_message_count = 3, lm_participants = ustr ''Ana''\<rparr>\<rparr>, \<lparr>l_page_content = replicate 200 (97::nat),
         l_metadata = \<lparr>lm_conversation_id = ustr ''0'', lm_start_time = [], lm_end_time = [],
                       lm_message_count = 3, lm_participants = ustr ''Ana''\<rparr>\<rparr>]) \<and>
   length (source_infos [\<lparr>l_page_content = replicate 200 (97::nat),
         l_metadata = \<lparr>lm_conversation_id = ustr ''0'', lm_start_time = [], lm_end_time = [],
                       lm_message_count = 3, lm_participants = ustr ''Ana''\<rparr>\<rparr>, \<lparr>l_page_content = replicate 200 (97::nat),
         l_metadata = \<lparr>lm_conversation_id = ustr ''0'', lm_start_time = [], lm_end_time = [],
                       lm_message_count = 3, lm_participants = ustr ''Ana''\<rparr>\<rparr>, \<lparr>l_page_content = replicate 200 (97::nat),
         l_metadata = \<lparr>lm_conversation_id = ustr ''0'', lm_start_time = [], lm_end_time = [],
                       lm_message_count = 3, lm_participants = ustr ''Ana''\<rparr>\<rparr>, \<lparr>l_page_content = replicate 200 (97::nat),
         l_metadata = \<lparr>lm_conversation_id = ustr ''0'', lm_start_time = [], lm_end_time = [],
                       lm_message_count = 3, lm_participants = ustr ''Ana''\<rparr>\<rparr>]) \<le> 3 \<and>
   map si_id (source_infos [\<lparr>l_page_content = replicate 200 (97::nat),
         l_metadata = \<lparr>lm_conversation_id = ustr ''0'', lm_start_time = [], lm_end_time = [],
                       lm_message_count = 3, lm_participants = ustr ''Ana''\<rparr>\<rparr>, \<lparr>l_page_content = replicate 200 (97::nat),
         l_metadata = \<lparr>lm_conversation_id = ustr ''0'', lm_start_time = [], lm_end_time = [],
                       lm_message_count = 3, lm_participants = ustr ''Ana''\<rparr>\<rparr>, \<lparr>l_page_content = replicate 200 (97::nat),
         l_metadata = \<lparr>lm_conversation_id = ustr ''0'', lm_start_time = [], lm_end_time = [],
                       lm_message_count = 3, lm_participants = ustr ''Ana''\<rparr>\<rparr>, \<lparr>l_page_content = replicate 200 (97::nat),
         l_metadata = \<lparr>lm_conversation_id = ustr ''0'', lm_start_time = [], lm_end_time = [],
                       lm_message_count = 3, lm_participants = ustr ''Ana''\<rparr>\<rparr>]) = [1..<Suc (length (source_infos [\<lparr>l_page_content = replicate 200 (97::nat),
         l_metadata = \<lparr>lm_conversation_id = ustr ''0'', lm_start_time = [], lm_end_time = [],
                       lm_message_count = 3, lm_participants = ustr ''Ana''\<rparr>\<rparr>, \<lparr>l_page_content = replicate 200 (97::nat),
         l_metadata = \<lparr>lm_conversation_id = ustr ''0'', lm_start_time = [], lm_end_time = [],
                       lm_message_count = 3, lm_participants = ustr ''Ana''\<rparr>\<rparr>, \<lparr>l_page_content = replicate 200 (97::nat),
         l_metadata = \<lparr>lm_conversation_id = ustr ''0'', lm_start_time = [], lm_end_time = [],
                       lm_message_count = 3, lm_participants = ustr ''Ana''\<rparr>\<rparr>, \<lparr>l_page_content = replicate 200 (97::nat),
         l_metadata = \<lparr>lm_conversation_id = ustr ''0'', lm_start_time = [], lm_end_time = [],
                       lm_message_count = 3, lm_participants = ustr ''Ana''\<rparr>\<rparr>]))]"
proof -
  have run: "chat (\<lambda>_. Some (ustr ''ok'', [\<lparr>l_page_content = replicate 200 (97::nat),
         l_metadata = \<lparr>lm_conversation_id = ustr ''0'', lm_start_time = [], lm_end_time = [],
                       lm_message_count = 3, lm_participants = ustr ''Ana''\<rparr>\<rparr>, \<lparr>l_page_content = replicate 200 (97::nat),
         l_metadata = \<lparr>lm_conversation_id = ustr ''0'', lm_start_time = [], lm_end_time = [],
                       lm_message_count = 3, lm_participants = ustr ''Ana''\<rparr>\<rparr>, \<lparr>l_page_content = replicate 200 (97::nat),
         l_metadata = \<lparr>lm_conversation_id = ustr ''0'', lm_start_time = [], lm_end_time = [],
                       lm_message_count = 3, lm_participants = ustr ''Ana''\<rparr>\<rparr>, \<lparr>l_page_content = replicate 200 (97::nat),
         l_metadata = \<lparr>lm_conversation_id = ustr ''0'', lm_start_time = [], lm_end_time = [],
                       lm_message_count = 3, lm_participants = ustr ''Ana''\<rparr>\<rparr>])) (ustr '' oi '')
     (server_init\<lparr>chatbot := Some []\<rparr>) =
     Answer (format_response (ustr ''ok'')) (source_infos [\<lparr>l_page_content = replicate 200 (97::nat),
         l_metadata = \<lparr>lm_conversation_id = ustr ''0'', lm_start_time = [], lm_end_time = [],
                       lm_message_count = 3, lm_participants = ustr ''Ana''\<rparr>\<rparr>, \<lparr>l_page_content = replicate 200 (97::nat),
         l_metadata = \<lparr>lm_conversation_id = ustr ''0'', lm_start_time = [], lm_end_time = [],
                       lm_message_count = 3, lm_participants = ustr ''Ana''\<rparr>\<rparr>, \<lparr>l_page_content = replicate 200 (97::nat),
         l_metadata = \<lparr>lm_conversation_id = ustr ''0'', lm_start_time = [], lm_end_time = [],
                       lm_message_count = 3, lm_participants = ustr ''Ana''\<rparr>\<rparr>, \<lparr>l_page_content = replicate 200 (97::nat),
         l_metadata = \<lparr>lm_conversation_id = ustr ''0'', lm_start_time = [], lm_end_time = [],
                       lm_message_count = 3, lm_participants = ustr ''Ana''\<rparr>\<rparr>])"
    by (simp add: chat_def server_init_def py_strip_def ustr_def is_py_space_def)
  show ?thesis
    using chat_answer_sources [OF run] run by simp
qed

end
