(* ===== verification/CLI.thy ===== *)
theory CLI
  imports Legacy Ingestion Formatter
begin

text \<open>
  The command-line program of rag.py (its \<open>__main__\<close> block): the check for the JSON
  file, the choice between the stored database and a new one, the creation of the
  database with the preprocessing and submission of rag.py, the choice of the prompt of
  \<open>create_qa_chain_compatible\<close>, and the question loop. What the program learns from
  the outside (the file system, the answer typed at the database prompt, whether Chroma
  opens the stored database and answers the test query, whether the document count can
  be read) is the record \<open>cli_env\<close>; the QA chain is a parameter of the loop.
\<close>

section \<open>Start-up\<close>

text \<open>\<open>str.upper\<close> on Latin-1, one character at a time (\<open>\<ss>\<close> becomes \<open>SS\<close>).\<close>

definition py_upper :: "pystr \<Rightarrow> pystr" where
  "py_upper s = concat (map py_upper_char s)"

record cli_env =
  cli_json_exists :: bool
  cli_db_exists :: bool
  cli_choice :: pystr
  cli_chroma_ok :: bool
  cli_test_query_ok :: bool
  cli_existing :: "legacy_document list"
  cli_data :: "raw_item list"
  cli_set_list :: "pystr list \<Rightarrow> pystr list"
  cli_store_fails :: "nat \<Rightarrow> bool"
  cli_count_ok :: bool

definition old_db_dir :: pystr where
  "old_db_dir = ustr ''./chroma_db''"

definition new_db_dir :: pystr where
  "new_db_dir = ustr ''./chroma_db_optimized''"

text \<open>
  Where the database comes from: \<open>recreate_db\<close> with its \<open>db_directory\<close>, or the
  stored database that \<open>Chroma(...)\<close> opened.
\<close>

datatype db_plan = Recreate pystr | UseExisting pystr

text \<open>
  The answer to \<open>[N/U/T]\<close> after \<open>upper()\<close>: \<open>N\<close> creates a new database in the
  optimised directory; \<open>T\<close> keeps the stored one only if it opens and answers the test
  query; every other answer opens the stored one without a test. With no stored
  database the new one is created in the old directory.
\<close>

definition choose_database :: "cli_env \<Rightarrow> db_plan" where
  "choose_database env =
     (if \<not> cli_db_exists env then Recreate old_db_dir
      else let choice = py_upper (cli_choice env)
           in if choice = ustr ''N'' then Recreate new_db_dir
              else if choice = ustr ''T'' then
                (if cli_chroma_ok env \<and> cli_test_query_ok env then UseExisting old_db_dir
                 else Recreate new_db_dir)
              else if cli_chroma_ok env then UseExisting old_db_dir else Recreate new_db_dir)"

text \<open>The two prompts of \<open>create_qa_chain_compatible\<close>.\<close>

datatype prompt_kind = OldStructurePrompt | NewStructurePrompt

definition qa_prompt :: "bool \<Rightarrow> prompt_kind" where
  "qa_prompt is_old_structure = (if is_old_structure then OldStructurePrompt else NewStructurePrompt)"

text \<open>\<open>doc_count > 10000\<close>, and \<open>False\<close> when the count raises.\<close>

definition is_old_structure :: "cli_env \<Rightarrow> legacy_document list \<Rightarrow> bool" where
  "is_old_structure env store \<longleftrightarrow> cli_count_ok env \<and> 10000 < length store"

datatype cli_exit = NoJsonFile | NoConversations

text \<open>
  How the start-up ends: \<open>exit()\<close>, an uncaught exception, or the chat with the
  directory, the store and the prompt.
\<close>

datatype cli_start = CliExit cli_exit | CliCrash py_error | CliReady pystr "legacy_document list" prompt_kind

definition cli_ready :: "cli_env \<Rightarrow> pystr \<Rightarrow> legacy_document list \<Rightarrow> cli_start" where
  "cli_ready env dir store = CliReady dir store (qa_prompt (is_old_structure env store))"

definition rag_main_start :: "cli_env \<Rightarrow> cli_start" where
  "rag_main_start env =
     (if \<not> cli_json_exists env then CliExit NoJsonFile
      else case choose_database env of
        UseExisting dir \<Rightarrow> cli_ready env dir (cli_existing env)
      | Recreate dir \<Rightarrow>
          (case rag_preprocess (cli_set_list env) (cli_data env) of
             Inl e \<Rightarrow> CliCrash e
           | Inr docs \<Rightarrow>
               if docs = [] then CliExit NoConversations
               else (case rag_create_vector_database (cli_store_fails env) docs of
                       Inl e \<Rightarrow> CliCrash e
                     | Inr store \<Rightarrow> cli_ready env dir store)))"

section \<open>The question loop\<close>

text \<open>The hint printed after a failed question: the tests in the order of the code.\<close>

datatype hint = ChromaVersionHint | ApiHint | RephraseHint

definition error_hint :: "pystr \<Rightarrow> hint" where
  "error_hint msg =
     (if occurs_from (ustr ''score_threshold'') 0 msg then ChromaVersionHint
      else if occurs_from (ustr ''API'') 0 (py_upper msg) then ApiHint
      else RephraseHint)"

text \<open>What is printed of a source document: its metadata and 300 characters of text.\<close>

record source_view =
  sv_metadata :: legacy_meta
  sv_excerpt :: pystr

definition source_view :: "legacy_document \<Rightarrow> source_view" where
  "source_view d = \<lparr>sv_metadata = l_metadata d, sv_excerpt = preview 300 (l_page_content d)\<rparr>"

datatype repl_event = Suggestions | Answered pystr "source_view list" | Failed pystr hint

text \<open>
  The loop ends at \<open>'sair'\<close> or when \<open>input()\<close> meets the end of its input and
  raises \<open>EOFError\<close>.
\<close>

datatype repl_end = Quit | InputEOF

definition sugestoes :: pystr where
  "sugestoes = ustr ''sugest'' @ [245] @ ustr ''es''"

text \<open>
  One question that is not \<open>'sair'\<close>: the QA chain answers with the text and the source
  documents (\<open>Inr\<close>) or raises with a message (\<open>Inl\<close>). The question is passed as
  typed, without \<open>strip()\<close>.
\<close>

definition handle_query :: "(pystr \<Rightarrow> pystr + pystr \<times> legacy_document list) \<Rightarrow> pystr \<Rightarrow> repl_event" where
  "handle_query invoke q =
     (if py_lower q = sugestoes then Suggestions
      else case invoke q of
             Inl err \<Rightarrow> Failed err (error_hint err)
           | Inr (answer, docs) \<Rightarrow> Answered answer (map source_view docs))"

fun repl :: "(pystr \<Rightarrow> pystr + pystr \<times> legacy_document list) \<Rightarrow> pystr list \<Rightarrow> repl_event list \<times> repl_end" where
  "repl invoke [] = ([], InputEOF)"
| "repl invoke (q # qs) =
     (if py_lower q = ustr ''sair'' then ([], Quit)
      else let (evs, e) = repl invoke qs in (handle_query invoke q # evs, e))"

text \<open>The whole program: the start-up, then the loop on the chain built over the store.\<close>

definition rag_main ::
  "cli_env \<Rightarrow> (legacy_document list \<Rightarrow> prompt_kind \<Rightarrow> pystr \<Rightarrow> pystr + pystr \<times> legacy_document list) \<Rightarrow>
   pystr list \<Rightarrow> cli_start \<times> (repl_event list \<times> repl_end) option" where
  "rag_main env chain inputs =
     (case rag_main_start env of
        CliReady dir store prompt \<Rightarrow> (CliReady dir store prompt, Some (repl (chain store prompt) inputs))
      | other \<Rightarrow> (other, None))"

section \<open>Lemmas\<close>

lemma rag_create_vector_database_Inr:
  "rag_create_vector_database fails docs = Inr store \<Longrightarrow> store = docs"
  by (simp add: rag_create_vector_database_eq split: if_splits)

text \<open>
  C31. The question loop handles exactly the inputs before the first \<open>'sair'\<close> (in any
  case), one event each and in order, and ends with \<open>Quit\<close> if there is such an input
  and with \<open>EOFError\<close> otherwise.
\<close>

theorem repl_prefix:
  "repl invoke qs =
     (map (handle_query invoke) (takeWhile (\<lambda>q. py_lower q \<noteq> ustr ''sair'') qs),
      if list_all (\<lambda>q. py_lower q \<noteq> ustr ''sair'') qs then InputEOF else Quit)"
  by (induction qs) auto

text \<open>
  C32. The chat starts only on a database: either the stored one, which Chroma opened,
  when the answer was not \<open>N\<close>; or a new store holding every document of the
  preprocessing, which is not empty. The prompt follows the size of that store.
\<close>

theorem rag_main_start_ready:
  "rag_main_start env = CliReady dir store prompt \<Longrightarrow>
     prompt = qa_prompt (is_old_structure env store) \<and>
     ((dir = old_db_dir \<and> store = cli_existing env \<and> cli_db_exists env \<and> cli_chroma_ok env \<and>
       py_upper (cli_choice env) \<noteq> ustr ''N'') \<or>
      (store \<noteq> [] \<and> rag_preprocess (cli_set_list env) (cli_data env) = Inr store))"
  by (auto simp: rag_main_start_def cli_ready_def choose_database_def Let_def
           dest: rag_create_vector_database_Inr
           split: if_splits db_plan.splits sum.splits)

theorem rag_main_start_ready_witness:
  "rag_main_start
     \<lparr>cli_json_exists = True, cli_db_exists = True, cli_choice = ustr ''t'', cli_chroma_ok = True,
      cli_test_query_ok = True, cli_existing = [], cli_data = [], cli_set_list = remdups,
      cli_store_fails = (\<lambda>_. False), cli_count_ok = True\<rparr> = CliReady old_db_dir [] NewStructurePrompt \<and>
   NewStructurePrompt = qa_prompt (is_old_structure
     \<lparr>cli_json_exists = True, cli_db_exists = True, cli_choice = ustr ''t'', cli_chroma_ok = True,
      cli_test_query_ok = True, cli_existing = [], cli_data = [], cli_set_list = remdups,
      cli_store_fails = (\<lambda>_. False), cli_count_ok = True\<rparr> [])"
proof -
  have run: "rag_main_start
     \<lparr>cli_json_exists = True, cli_db_exists = True, cli_choice = ustr ''t'', cli_chroma_ok = True,
      cli_test_query_ok = True, cli_existing = [], cli_data = [], cli_set_list = remdups,
      cli_store_fails = (\<lambda>_. False), cli_count_ok = True\<rparr> = CliReady old_db_dir [] NewStructurePrompt"
    by code_simp
  then show ?thesis
    using rag_main_start_ready [OF run] by simp
qed

end
