(* ===== verification/Spec2Isabelle.thy ===== *)
theory Spec2Isabelle
  imports Windower Boundary Keywords Timestamp Normalizer Documents Ingestion Legacy Formatter Server CLI
begin

text \<open>
  \<^bold>\<open>A verification library for the WhatsApp conversation pipeline\<close>
  (repository Chat-com-base-de-dados-grande).

  \<^bold>\<open>The program.\<close> An exported chat transcript (a JSON list of records with
  \<open>author\<close>, \<open>message\<close> and \<open>timestamp\<close>) is filtered and cleaned, cut into
  conversations and into overlapping windows, rendered into retrieval documents with
  keyword metadata, and submitted in batches to a vector store that a question-answering
  chain queries. The primary pipeline is \<open>create_whatsapp_database\<close> with the class
  \<open>WhatsAppProcessor\<close> in src/teste.py; src/rag.py and src/app.py hold older variants
  of the preprocessing and of the batched store submission, and app.py a Flask server
  whose global state records whether the chatbot is initialised.

  \<^bold>\<open>Modelling conventions\<close> (theory \<open>Prelude\<close>). A Python string is a list of
  code points (\<open>pystr\<close>); \<open>str.strip\<close>, \<open>str.lower\<close> and the classes \<open>\s\<close>,
  \<open>\w\<close> are modelled exactly on Latin-1, which holds every letter of Portuguese, and
  code points from 256 on are non-word, non-space characters without case. Slicing
  (\<open>py_slice\<close>) follows Python's negative and clipped bounds, \<open>range\<close>
  (\<open>py_range\<close>) raises \<open>ValueError\<close> on a zero step; raised exceptions are the
  \<open>Inl\<close> side of a sum type. Python integers are \<open>int\<close> or \<open>nat\<close> where they cannot
  be negative. A dictionary whose iteration order matters is an association list in
  insertion order.

  \<^bold>\<open>Components and theories.\<close>
  \<^item> \<open>Message\<close>: the raw record and the normalised message dictionary
    (\<open>raw_item\<close>, \<open>wmsg\<close>).
  \<^item> \<open>Normalizer\<close>: \<open>is_system_message\<close>, \<open>clean_message\<close> and the
    filtering loop at the start of \<open>create_whatsapp_database\<close> (\<open>filter_step\<close>
    folded over \<open>enumerate(data)\<close>, state \<open>filter_state\<close> with the two counters).
    The five regular expressions are conditions on the stripped text, the
    substitutions are recursive functions. The lemmas prove the cleaned text in normal
    form and never longer, and the loop equal to its declarative specification
    (\<open>filter_spec\<close>: the kept messages and the two counters as filters over the
    enumerated input); further lemmas evaluate the specification's examples.
  \<^item> \<open>Boundary\<close>: \<open>detect_conversation_boundaries_conservative\<close>. The state
    (\<open>seg_state\<close>) is the list of closed conversations and the accumulator; the loop
    body is \<open>seg_step\<close>, folded over the stream, with the three split criteria of
    \<open>should_split\<close> (gap above 24 hours, more than 100 messages, an author outside
    the last 20 messages' authors when those are more than 2) honoured from 5 messages
    on; \<open>seg_finish\<close> flushes the last accumulator when it has 5 messages. The timestamp
    parser is a parameter. The lemmas prove the loop equal to a declarative reference
    \<open>segs_spec\<close> (cut at the first position from 5 on where the criteria hold), and
    from it coverage, the length bounds 5 to 101 and the single-author scenario.
  \<^item> \<open>Windower\<close>: \<open>create_overlapping_chunks\<close> as a filter over a map over
    \<open>range\<close>. The lemmas give the shape of the windows, their number
    \<open>(N - 5) div step + 1\<close>, coverage of all but the last 4 messages, the scenarios of
    the specification, and the \<open>ValueError\<close> of a zero step.
  \<^item> \<open>Keywords\<close>: \<open>extract_keywords\<close> as word runs, an insertion-ordered count and
    a stable sort on the negated count. The lemmas give the exact set of keywords, their
    distinctness and ranking, the first-seen order of ties, and the specification's
    stopword example.
  \<^item> \<open>Timestamp\<close>: \<open>parse_timestamp\<close>: \<open>strptime\<close> as CPython's \<open>_strptime\<close>
    regular expressions run by a backtracking matcher (\<open>rx_match\<close>, first match in
    priority order), the \<open>datetime\<close> constructor's range checks
    (\<open>mk_datetime\<close>), the regular-expression fallback (\<open>parse_fallback\<close>) and
    \<open>toordinal\<close>/\<open>dt_to_us\<close> for time differences. The lemmas evaluate the
    specification's examples and the divergences reported as findings, and prove the
    round trip of the export format: \<open>whatsapp_stamp\<close> writes a date and time as
    \<open>DD/MM/YYYY, HH:MM\<close> (specified, not code), and \<open>parse_timestamp\<close> reads every
    valid one back (\<open>parse_whatsapp_roundtrip\<close>), proved directive by directive on
    the matcher (\<open>whatsapp_match\<close>).
  \<^item> \<open>Documents\<close>: step 4 of \<open>create_whatsapp_database\<close>. The state
    (\<open>build_state\<close>) is the document list and the shared counter \<open>doc_id\<close>; the two
    loops are folds of \<open>conversation_step\<close> (skipping conversations below 5 messages)
    and \<open>chunk_step\<close>; \<open>conversation_document\<close> and \<open>chunk_document\<close> render the
    header, the message lines and the metadata, with \<open>str()\<close> of integers and datetimes
    (\<open>py_str_nat\<close>, \<open>dt_str\<close>). \<open>list(set(...))\<close> is the parameter \<open>set_list\<close>,
    constrained only by \<open>set_list_ok\<close>. The lemmas give the loops as a declarative
    list, the ids \<open>0..n-1\<close>, the document layout, one line per message and the
    time range.
  \<^item> \<open>Ingestion\<close>: step 5 of \<open>create_whatsapp_database\<close> (\<open>ingest_documents\<close>) and
    the \<open>create_vector_database_with_logging\<close> of rag.py and app.py. The store is
    the list of documents it holds; which calls raise is the parameter \<open>fails\<close>. The
    lemmas prove each variant equal to the abstract \<open>kept_batches\<close> specification or
    to its error behaviour, through the closed form of \<open>range(bs, n, bs)\<close>.
  \<^item> \<open>Legacy\<close>: \<open>preprocess_whatsapp_data\<close> of rag.py and app.py with
    \<open>should_start_new_conversation\<close>, \<open>create_conversation_context\<close> and their
    \<open>clean_message\<close>. Each loop is a record state folded in the error monad \<open>foldM\<close>
    (\<open>rag_step\<close>, \<open>app_step\<close>), since \<open>messages[0]\<close> of an empty window raises.
    The lemmas prove that neither raises, bound the documents of rag.py by 3 to 21
    messages when every record has a timestamp, prove the bound lost without timestamps (one document of all messages),
    and give app.py's windows of 10 accepted messages.
  \<^item> \<open>Formatter\<close>: \<open>format_response\<close> of app.py. \<open>str.replace\<close>
    (\<open>py_replace\<close>), the first-letter \<open>upper()\<close>, the sentence split of
    \<open>re.split\<close> (\<open>split_sentences\<close>), the paragraph loop (\<open>para_step\<close> over a
    \<open>para_state\<close> record, \<open>para_flush\<close>) and \<open>re.sub\<close> of newline runs
    (\<open>sub_newlines\<close>). The lemmas prove the loop equal to a reference that pairs
    the sentences, the reply a re-spacing of the cleaned answer, and when the reply is
    empty.
  \<^item> \<open>Server\<close>: the Flask globals of app.py (\<open>server_state\<close>),
    \<open>initialize_chatbot_sync\<close> with its two database branches
    (\<open>load_database\<close>, \<open>create_database\<close>, which call the models of Legacy and
    Ingestion) and the endpoints \<open>/api/chat\<close>, \<open>/api/status\<close> and
    \<open>/api/initialize\<close>. What the outside world answers (API key, files, embedding
    model, Chroma, QA chain) is a record \<open>init_env\<close> passed to each initialisation.
    The server is the inductive relation \<open>server_reach\<close>: the start-up
    initialisation, then any number of \<open>/api/initialize\<close> requests, the only
    endpoint that changes state. The lemmas prove by rule induction that a ready chatbot
    always comes with a loaded database and no error in the statistics, show the
    frame of \<open>initialization_error\<close> (set on failure, never reset on success), and bound the source
    list of \<open>/api/chat\<close> (\<open>source_infos\<close>, with the \<open>preview\<close> idiom of Prelude).
  \<^item> \<open>CLI\<close>: the \<open>__main__\<close> block of rag.py. The start-up
    (\<open>rag_main_start\<close>) checks the JSON file, chooses the database from the answer to
    \<open>[N/U/T]\<close> and what Chroma does (\<open>choose_database\<close>, a \<open>db_plan\<close>), creates a
    new one with Legacy's \<open>rag_preprocess\<close> and Ingestion's
    \<open>rag_create_vector_database\<close>, and picks the prompt of
    \<open>create_qa_chain_compatible\<close> by the store's size. The question loop
    (\<open>repl\<close>, one \<open>handle_query\<close> per input) is a function of the list of typed
    lines and of the chain. The lemmas give the loop as a map over the inputs before the
    first \<open>'sair'\<close> and what the chat can start on.
  \<^item> This theory composes them: \<open>parse_us\<close> feeds the parser into the boundary
    detector as the pipeline does, and \<open>create_whatsapp_database\<close> runs filter,
    segmentation, windows, documents and submission on the loaded JSON list, with the
    early return on a load failure and the division by \<open>len(data)\<close> in the filter's
    report; the properties here span those components.

  \<^bold>\<open>Bounds.\<close> No loop of the modelled code can run forever: every loop is a fold
  over a list or a \<open>range\<close>, and the recursive definitions (\<open>py_range_up\<close>,
  \<open>segs_spec\<close>, \<open>word_runs\<close>, \<open>rx_match\<close>, \<open>collapse_ws\<close>, \<open>replace_long_urls\<close>,
  \<open>py_str_nat\<close>, \<open>py_replace\<close>, \<open>split_sentences\<close>, \<open>sub_newlines\<close>,
  \<open>repl\<close>) terminate by a measure on a length, a number or on
  \<open>stop - start\<close>, proved where they are defined. The gap criterion compares
  microseconds exactly: for gaps of realistic size the float
  \<open>total_seconds() / 3600\<close> of the code is more than 24 exactly when the
  microsecond difference exceeds \<open>24 * 3600 * 10^6\<close>.

  \<^bold>\<open>Not modelled.\<close> The LangChain and Gemini objects (embedding model, vector store,
  LLM, retriever, QA chain) are external collaborators: the programs see only whether
  building them succeeds, and the chain's answers are a parameter of \<open>chat\<close> and of
  \<open>repl\<close>; of \<open>create_qa_chain_compatible\<close> only the choice of prompt is modelled.
  The HTML and JavaScript page of app.py, \<open>display_conversation_stats\<close>,
  \<open>suggest_questions\<close>, the \<open>__main__\<close> block of teste.py and its similarity-search
  tests, \<open>/api/stats\<close>, \<open>/api/suggestions\<close> and \<open>/api/debug\<close> only print or return
  constants and store contents. Timestamps and timings (\<open>last_updated\<close>, response
  times) are not modelled. A JSON record is a map from \<open>author\<close>, \<open>message\<close> and
  \<open>timestamp\<close> to strings, each key possibly absent: a key present with the value
  \<open>null\<close> is not representable. On such a message \<open>item.get('message', '').strip()\<close>
  raises \<open>AttributeError\<close> (teste.py line 271, rag.py line 49, app.py line 67), a crash
  the model leaves out. File existence checks and loading the JSON file are
  parameters of the models. A store call is taken to add all of its batch or nothing. The
  outer \<open>except\<close> of \<open>initialize_chatbot_sync\<close> and of \<open>force_initialize\<close>
  catch nothing in the model, since every modelled call that may raise has its own
  handler. A failing embedding-model constructor in the two command-line programs
  is not modelled; it is an uncaught exception there. Flask serves requests on several
  threads; the model takes them one at a time. Unicode case mapping and character
  classes beyond Latin-1 and non-ASCII decimal digits in \<open>\d\<close> are outside the
  character model.

  \<^bold>\<open>Plan.\<close> Every function of the three source files with logic of its own is
  modelled. What would remain is the monotonicity of \<open>dt_to_us\<close>, round trips for the
  other seven timestamp formats, and interleaved requests to the server.
\<close>

section \<open>The pipeline's parser instance\<close>

text \<open>
  \<open>current_time = self.parse_timestamp(message['timestamp'])\<close>: the boundary detector
  of the pipeline uses the parser, and compares instants by their difference.
\<close>

definition parse_us :: "pystr \<Rightarrow> int option" where
  "parse_us s = map_option dt_to_us (parse_timestamp s)"

definition segment_conversations :: "wmsg list \<Rightarrow> wmsg list list" where
  "segment_conversations msgs =
     detect_conversation_boundaries_conservative parse_us msgs"

section \<open>The whole pipeline\<close>

text \<open>
  \<open>create_whatsapp_database\<close>: the loaded JSON list (\<open>None\<close> when opening or parsing
  the file raised, which returns \<open>None\<close>), filtering, the report of the filter whose
  percentage divides by \<open>len(data)\<close>, the two segmentations of the valid messages, the
  documents, and the batched submission. \<open>Inl\<close> is an exception: the division by zero
  on an empty list, or a zero step of the chunker (which the constants 40 and 15
  exclude); \<open>None\<close> is an early return.
\<close>

definition create_whatsapp_database ::
  "(pystr list \<Rightarrow> pystr list) \<Rightarrow> (nat \<Rightarrow> bool) \<Rightarrow> raw_item list option \<Rightarrow> py_error + document list option" where
  "create_whatsapp_database set_list fails loaded =
     (case loaded of
        None \<Rightarrow> Inr None
      | Some data \<Rightarrow>
          (let msgs = valid_messages (filter_messages data)
           in if data = [] then Inl ZeroDivisionError
              else let conversations = segment_conversations msgs
                   in case create_overlapping_chunks msgs 40 15 of
                        Inl e \<Rightarrow> Inl e
                      | Inr chunks \<Rightarrow> Inr (ingest_documents fails (build_documents set_list conversations chunks))))"

section \<open>Properties\<close>

text \<open>
  The temporal criterion of the pipeline: two messages exactly 24 hours apart are
  not split by it; one minute more is.
\<close>

theorem day_gap_threshold:
  "\<not> gap_split parse_us
       \<lparr>author = ustr ''Ana'', message = ustr ''oi'', original_message = ustr ''oi'',
        timestamp = ustr ''15/03/2023, 14:30'', msg_index = 0\<rparr>
       \<lparr>author = ustr ''Bia'', message = ustr ''oi'', original_message = ustr ''oi'',
        timestamp = ustr ''16/03/2023, 14:30'', msg_index = 1\<rparr> \<and>
   gap_split parse_us
       \<lparr>author = ustr ''Ana'', message = ustr ''oi'', original_message = ustr ''oi'',
        timestamp = ustr ''15/03/2023, 14:30'', msg_index = 0\<rparr>
       \<lparr>author = ustr ''Bia'', message = ustr ''oi'', original_message = ustr ''oi'',
        timestamp = ustr ''16/03/2023, 14:31'', msg_index = 1\<rparr>"
  by code_simp

text \<open>
  Consequence of the ISO misparse: messages stamped \<open>2023-03-15 14:30\<close> and
  \<open>2023-03-16 09:00\<close>, 18.5 hours apart, are parsed as 23 March 2015 and 23 March
  2016, and the temporal criterion fires between them.
\<close>

theorem iso_timestamps_false_gap:
  "gap_split parse_us
       \<lparr>author = ustr ''Ana'', message = ustr ''oi'', original_message = ustr ''oi'',
        timestamp = ustr ''2023-03-15 14:30'', msg_index = 0\<rparr>
       \<lparr>author = ustr ''Bia'', message = ustr ''oi'', original_message = ustr ''oi'',
        timestamp = ustr ''2023-03-16 09:00'', msg_index = 1\<rparr>"
  by code_simp

text \<open>
  C21. End to end: when no call of the vector store fails, the run returns a store
  holding its documents numbered \<open>0, 1, 2, ...\<close>, one per conversation of at least
  5 valid messages and one per chunk of 40 with overlap 15.
\<close>

theorem pipeline_stores_all_documents:
  "\<forall>i. \<not> fails i \<Longrightarrow> data \<noteq> [] \<Longrightarrow>
   \<exists>docs. create_whatsapp_database sl fails (Some data) = Inr (Some docs) \<and>
     map (\<lambda>d. py_int (md_doc_id (metadata d))) docs = [0..<length docs] \<and>
     (\<exists>chunks. create_overlapping_chunks (valid_messages (filter_messages data)) 40 15 = Inr chunks \<and>
        length docs = length (filter (\<lambda>c. 5 \<le> length c)
                         (segment_conversations (valid_messages (filter_messages data)))) + length chunks)"
proof -
  assume ok: "\<forall>i. \<not> fails i" and ne: "data \<noteq> []"
  let ?msgs = "valid_messages (filter_messages data)"
  obtain chunks where ch: "create_overlapping_chunks ?msgs 40 15 = Inr chunks"
    using create_overlapping_chunks_pos [of 40 15 ?msgs] by simp
  let ?docs = "build_documents sl (segment_conversations ?msgs) chunks"
  have run: "create_whatsapp_database sl fails (Some data) = Inr (Some ?docs)"
    using ok ne ch by (simp add: create_whatsapp_database_def ingest_documents_no_failure)
  have "map (\<lambda>d. py_int (md_doc_id (metadata d))) ?docs =
        map py_int (map (\<lambda>d. md_doc_id (metadata d)) ?docs)"
    by simp
  also have "\<dots> = map py_int (map py_str_nat [0..<length ?docs])"
    by (simp only: doc_ids_build)
  also have "\<dots> = [0..<length ?docs]"
    by (simp add: comp_def py_int_py_str_nat)
  finally have ids: "map (\<lambda>d. py_int (md_doc_id (metadata d))) ?docs = [0..<length ?docs]" .
  show ?thesis
    using run ids ch length_build_documents by blast
qed

theorem pipeline_stores_all_documents_witness:
  "\<exists>docs. create_whatsapp_database remdups (\<lambda>_. False)
       (Some [\<lparr>item_author = Some (ustr ''Ana''), item_message = Some (ustr ''oi''), item_timestamp = None\<rparr>]) =
       Inr (Some docs) \<and>
     map (\<lambda>d. py_int (md_doc_id (metadata d))) docs = [0..<length docs] \<and>
     (\<exists>chunks. create_overlapping_chunks (valid_messages (filter_messages
         [\<lparr>item_author = Some (ustr ''Ana''), item_message = Some (ustr ''oi''), item_timestamp = None\<rparr>])) 40 15 =
         Inr chunks \<and>
        length docs = length (filter (\<lambda>c. 5 \<le> length c)
                         (segment_conversations (valid_messages (filter_messages
                            [\<lparr>item_author = Some (ustr ''Ana''), item_message = Some (ustr ''oi''), item_timestamp = None\<rparr>])))) +
                      length chunks)"
  by (rule pipeline_stores_all_documents) simp_all

end
